theory Spec2Isabelle
  imports Main "HOL-Library.Word" "HOL-Library.AList"
begin

unbundle bit_operations_syntax

section \<open>The image-generation relay\<close>

text \<open>
  The repository is one Go program, an HTTP relay in front of a generative image
  service, present in two variants:
  \<^item> \<^verbatim>\<open>src/main.go\<close>: the handlers call \<^verbatim>\<open>GenerateContentStream\<close>, answer errors with
    \<^verbatim>\<open>writeError\<close> (a JSON body) and images with \<^verbatim>\<open>writeImage\<close>. Its functions keep
    their names here.
  \<^item> \<^verbatim>\<open>src/unnamed/part_000\<close>: the handlers call \<^verbatim>\<open>GenerateImages\<close>, answer errors
    with \<^verbatim>\<open>http.Error\<close> (a plain-text body) and images with \<^verbatim>\<open>writeImagePNG\<close>. Its
    functions carry the suffix \<open>_p000\<close>.

  Go strings are byte sequences, modelled as \<open>string\<close>; a \<^verbatim>\<open>[]byte\<close> is a list of
  8-bit words. A Go \<^verbatim>\<open>error\<close> is modelled by the text its \<^verbatim>\<open>Error()\<close> method returns,
  which is what \<^verbatim>\<open>%v\<close> prints.
\<close>

type_synonym bytes = "8 word list"
type_synonym error = string


section \<open>encoding/base64: StdEncoding.DecodeString\<close>

text \<open>
  The handlers validate the image field with \<^verbatim>\<open>base64.StdEncoding.DecodeString\<close> of the
  Go standard library. \<^verbatim>\<open>StdEncoding\<close> is the RFC 4648 alphabet with \<open>=\<close> padding, not
  strict. The model follows \<^verbatim>\<open>Encoding.decodeQuantum\<close> and \<^verbatim>\<open>Encoding.Decode\<close>: the
  decoder reads up to four alphabet characters into \<^verbatim>\<open>dbuf\<close>, skips \<^verbatim>\<open>\r\<close> and \<^verbatim>\<open>\n\<close>,
  and reports a \<^verbatim>\<open>CorruptInputError\<close> (the offset of the offending byte) at any other
  character, at misplaced or missing padding and at anything after the padding. The
  word-at-a-time fast paths of \<^verbatim>\<open>Decode\<close> produce the same bytes as \<^verbatim>\<open>decodeQuantum\<close>
  on clean input and fall back to it otherwise, so they are not modelled apart.

  The functions take the length \<open>n\<close> of the whole input, the index \<open>si\<close> of the next
  byte and the input from \<open>si\<close> onwards.
\<close>

definition encodeStd :: string where
  "encodeStd = ''ABCDEFGHIJKLMNOPQRSTUVWXYZabcdefghijklmnopqrstuvwxyz0123456789+/''"

definition StdPadding :: char where
  "StdPadding = CHR ''=''"

fun indexByte :: "string \<Rightarrow> char \<Rightarrow> nat option" where
  "indexByte [] c = None"
| "indexByte (x # xs) c = (if x = c then Some 0 else map_option Suc (indexByte xs c))"

text \<open>\<^verbatim>\<open>decodeMap[c]\<close>: the position of \<open>c\<close> in the alphabet; \<open>None\<close> stands for the
  table's \<^verbatim>\<open>0xff\<close> of a byte outside it.\<close>

definition decodeMap :: "char \<Rightarrow> 8 word option" where
  "decodeMap c = map_option of_nat (indexByte encodeStd c)"

definition isNewline :: "char \<Rightarrow> bool" where
  "isNewline c = (c = CHR 0x0A \<or> c = CHR 0x0D)"

text \<open>\<^verbatim>\<open>for si < len(src) && (src[si] == '\n' || src[si] == '\r') { si++ }\<close>\<close>

fun skipNewlines :: "nat \<Rightarrow> string \<Rightarrow> nat \<times> string" where
  "skipNewlines si [] = (si, [])"
| "skipNewlines si (c # cs) = (if isNewline c then skipNewlines (Suc si) cs else (si, c # cs))"

text \<open>The end of \<^verbatim>\<open>decodeQuantum\<close>: \<open>dlen\<close> six-bit values (the rest of \<^verbatim>\<open>dbuf\<close> is zero)
  become \<open>dlen - 1\<close> bytes.\<close>

definition assemble :: "8 word list \<Rightarrow> bytes" where
  "assemble dbuf =
     (let d = dbuf @ replicate (4 - length dbuf) 0;
          val = (push_bit 18 (ucast (d ! 0)) OR push_bit 12 (ucast (d ! 1))
                   OR push_bit 6 (ucast (d ! 2)) OR ucast (d ! 3) :: 64 word)
      in take (length dbuf - 1) [ucast (drop_bit 16 val), ucast (drop_bit 8 val), ucast val])"

text \<open>After the last padding character: newlines are skipped, and anything left is
  trailing garbage.\<close>

definition padded ::
  "nat \<Rightarrow> 8 word list \<Rightarrow> string \<Rightarrow> nat \<times> string \<times> bytes \<times> nat option" where
  "padded si dbuf cs =
     (case skipNewlines si cs of
        (si', cs') \<Rightarrow> (si', cs', assemble dbuf, if cs' = [] then None else Some si'))"

text \<open>\<^verbatim>\<open>decodeQuantum\<close> returns the new index, the input left, the bytes of this quantum
  and the error. \<open>length dbuf\<close> is the loop counter \<open>j\<close>.\<close>

fun decodeQuantum ::
  "nat \<Rightarrow> nat \<Rightarrow> 8 word list \<Rightarrow> string \<Rightarrow> nat \<times> string \<times> bytes \<times> nat option" where
  "decodeQuantum n si dbuf [] =
     (if dbuf = [] then (si, [], [], None) else (si, [], [], Some (si - length dbuf)))"
| "decodeQuantum n si dbuf (c # cs) =
     (case decodeMap c of
        Some out \<Rightarrow>
          (if length dbuf = 3 then (Suc si, cs, assemble (dbuf @ [out]), None)
           else decodeQuantum n (Suc si) (dbuf @ [out]) cs)
      | None \<Rightarrow>
          if isNewline c then decodeQuantum n (Suc si) dbuf cs
          else if c \<noteq> StdPadding then (Suc si, cs, [], Some si)
          else if length dbuf < 2 then (Suc si, cs, [], Some si)
          else if length dbuf = 2 then
            (case skipNewlines (Suc si) cs of
               (si', []) \<Rightarrow> (si', [], [], Some n)
             | (si', c' # cs') \<Rightarrow>
                 if c' \<noteq> StdPadding then (si', c' # cs', [], Some (si' - 1))
                 else padded (Suc si') dbuf cs')
          else padded (Suc si) dbuf cs)"

lemma skipNewlines_length: "length (snd (skipNewlines si cs)) \<le> length cs"
  by (induction cs arbitrary: si) (auto intro: le_SucI)

lemma skipNewlines_length_fst:
  "skipNewlines si cs = (si', cs') \<Longrightarrow> length cs' \<le> length cs"
  using skipNewlines_length [of si cs] by simp

lemma padded_length: "length (fst (snd (padded si dbuf cs))) \<le> length cs"
  by (auto simp: padded_def split: prod.splits dest: skipNewlines_length_fst)

lemma decodeQuantum_length:
  "length (fst (snd (decodeQuantum n si dbuf cs))) \<le> length cs - 1"
proof (induction cs arbitrary: si dbuf)
  case Nil
  show ?case by simp
next
  case (Cons c cs)
  have ih: "\<And>k d. length (fst (snd (decodeQuantum n k d cs))) \<le> length cs"
    using Cons.IH by (meson diff_le_self le_trans)
  show ?case
  proof (cases "decodeMap c")
    case (Some out)
    then show ?thesis
      using ih [of "Suc si" "dbuf @ [out]"] by auto
  next
    case None
    show ?thesis
    proof (cases "isNewline c")
      case True
      then show ?thesis using None ih [of "Suc si" dbuf] by auto
    next
      case False
      have p: "\<And>k. length (fst (snd (padded k dbuf cs))) \<le> length cs"
        by (rule padded_length)
      have q: "\<And>k si' c' cs'. skipNewlines k cs = (si', c' # cs') \<Longrightarrow>
          length (fst (snd (padded (Suc si') dbuf cs'))) \<le> length cs"
      proof -
        fix k si' c' cs'
        assume "skipNewlines k cs = (si', c' # cs')"
        then have "length (c' # cs') \<le> length cs" by (rule skipNewlines_length_fst)
        moreover have "length (fst (snd (padded (Suc si') dbuf cs'))) \<le> length cs'"
          by (rule padded_length)
        ultimately show "length (fst (snd (padded (Suc si') dbuf cs'))) \<le> length cs"
          by simp
      qed
      show ?thesis
        using None False p q
        by (auto split: prod.splits list.splits dest: skipNewlines_length_fst)
    qed
  qed
qed

lemma decodeQuantum_rest:
  "decodeQuantum n si dbuf (c # cs) = (nsi, rest, z) \<Longrightarrow> length rest < Suc (length cs)"
  using decodeQuantum_length [of n si dbuf "c # cs"] by simp

text \<open>\<^verbatim>\<open>Decode\<close>: quantum after quantum until the input is used up or an error is met.
  The bytes decoded before an error are returned with it, as in Go.\<close>

function StdEncoding_Decode :: "nat \<Rightarrow> nat \<Rightarrow> string \<Rightarrow> bytes \<times> nat option" where
  "StdEncoding_Decode n si [] = ([], None)"
| "StdEncoding_Decode n si (c # cs) =
     (case decodeQuantum n si [] (c # cs) of
        (nsi, rest, out, Some e) \<Rightarrow> (out, Some e)
      | (nsi, rest, out, None) \<Rightarrow>
          (case StdEncoding_Decode n nsi rest of (out', err) \<Rightarrow> (out @ out', err)))"
  by pat_completeness auto
termination
proof (relation "measure (\<lambda>(n, si, cs). length cs)")
  show "wf (measure (\<lambda>(n, si, cs). length cs))" by simp
next
  fix n si nsi :: nat and c :: char and cs rest :: string
    and y :: "string \<times> bytes \<times> nat option" and z :: "bytes \<times> nat option"
  assume "(nsi, y) = decodeQuantum n si [] (c # cs)" and "(rest, z) = y"
  then have "decodeQuantum n si [] (c # cs) = (nsi, rest, z)" by simp
  then have "length rest < Suc (length cs)" by (rule decodeQuantum_rest)
  then show "((n, nsi, rest), (n, si, c # cs)) \<in> measure (\<lambda>(n, si, cs). length cs)"
    by simp
qed

definition StdEncoding_DecodeString :: "string \<Rightarrow> bytes \<times> nat option" where
  "StdEncoding_DecodeString s = StdEncoding_Decode (length s) 0 s"

text \<open>A byte the decoder accepts nowhere: outside the alphabet, not a newline and not
  the padding character. And the number of bytes of a string that are not newlines.\<close>

definition garbage :: "char \<Rightarrow> bool" where
  "garbage g = (decodeMap g = None \<and> \<not> isNewline g \<and> g \<noteq> StdPadding)"

definition nonNewlines :: "string \<Rightarrow> nat" where
  "nonNewlines s = length (filter (\<lambda>c. \<not> isNewline c) s)"


section \<open>Requests, responses and effects\<close>

text \<open>The four request structs, with the fields \<^verbatim>\<open>encoding/json\<close> fills. Two structs
  share the field name \<^verbatim>\<open>ImageBase64\<close>, so a field is read with its struct's name in
  front. \<^verbatim>\<open>Scale\<close> is a Go \<^verbatim>\<open>int\<close>; the code only compares and prints it, so its
  width plays no part.\<close>

datatype TextToImageRequest = TextToImageRequest (Prompt: string)

datatype ResizeRequest = ResizeRequest (ImageBase64: string) (Scale: int)

datatype SketchToImageRequest = SketchToImageRequest (ImageBase64: string) (Description: string)

datatype MagicEraserRequest = MagicEraserRequest (ImageBase64: string)

text \<open>Of \<^verbatim>\<open>*http.Request\<close> the handlers read the method and the body.\<close>

record Request =
  Method :: string
  Body :: string

text \<open>What a handler leaves in the \<^verbatim>\<open>http.ResponseWriter\<close>: the headers it set, the
  status it wrote and the body. A body written with \<^verbatim>\<open>w.Write\<close> or \<^verbatim>\<open>fmt.Fprintln\<close> is the
  bytes; a body written by \<^verbatim>\<open>json.NewEncoder(w).Encode(m)\<close> is kept as the map \<open>m\<close> that is
  encoded (its keys and values in order), the encoder's escaping not being modelled.\<close>

datatype body = Bytes bytes | JSONEncoded "(string \<times> string) list"

record Response =
  Header :: "(string \<times> string) list"
  StatusCode :: nat
  Written :: body

text \<open>Go code that follows a nil pointer panics. A function either panics or is done
  with a value; a handler either panics, and then has written nothing (\<^verbatim>\<open>net/http\<close>
  recovers the panic, logs it and closes the connection without a response), or is done
  with the response it wrote.\<close>

datatype 'a outcome = Panic | Done 'a

fun statusOf :: "Response outcome \<Rightarrow> nat option" where
  "statusOf Panic = None"
| "statusOf (Done resp) = Some (StatusCode resp)"

definition MethodPost :: string where "MethodPost = ''POST''"
definition StatusOK :: nat where "StatusOK = 200"
definition StatusBadRequest :: nat where "StatusBadRequest = 400"
definition StatusMethodNotAllowed :: nat where "StatusMethodNotAllowed = 405"
definition StatusInternalServerError :: nat where "StatusInternalServerError = 500"

text \<open>\<^verbatim>\<open>w.Header().Set(key, value)\<close>\<close>

definition Header_Set :: "string \<Rightarrow> string \<Rightarrow> (string \<times> string) list \<Rightarrow> (string \<times> string) list" where
  "Header_Set key v h = AList.update key v h"

definition Header_Get :: "(string \<times> string) list \<Rightarrow> string \<Rightarrow> string option" where
  "Header_Get h key = map_of h key"

definition bytesOf :: "string \<Rightarrow> bytes" where
  "bytesOf s = map of_char s"


subsection \<open>The genai SDK's types\<close>

text \<open>Only the fields the program reads or sets, and \<^verbatim>\<open>Image.MIMEType\<close>, which the
  upstream declares and \<^verbatim>\<open>part_000\<close> never reads. Every pointer of the SDK's types is
  an option, \<open>None\<close> for \<^verbatim>\<open>nil\<close>, whether the code tests it or not: the elements of
  \<^verbatim>\<open>[]*Part\<close>, \<^verbatim>\<open>[]*Candidate\<close> and \<^verbatim>\<open>[]*GeneratedImage\<close> (a JSON \<^verbatim>\<open>null\<close> in the
  upstream's reply decodes to a nil element), \<^verbatim>\<open>Candidate.Content\<close>,
  \<^verbatim>\<open>Part.InlineData\<close>, \<^verbatim>\<open>GeneratedImage.Image\<close>, and the result or response a call
  returns beside a nil error. \<^verbatim>\<open>Blob\<close> and \<^verbatim>\<open>Image\<close> both have a field \<^verbatim>\<open>MIMEType\<close>:
  the blob's is written \<open>Blob.MIMEType\<close>.\<close>

datatype Blob = Blob (MIMEType: string) (Data: bytes)

record Part =
  Text :: string
  InlineData :: "Blob option"

record Content =
  Role :: string
  Parts :: "Part option list"

record Candidate =
  Content :: "Content option"

record GenerateContentResponse =
  Candidates :: "Candidate option list"

record ImageConfig =
  ImageSize :: string

record GenerateContentConfig =
  ResponseModalities :: "string list"
  ImageConfig :: "ImageConfig option"

record Image =
  ImageBytes :: bytes
  MIMEType :: string

record GeneratedImage =
  Image :: "Image option"

record GenerateImagesResponse =
  GeneratedImages :: "GeneratedImage option list"

record GenerateImagesConfig =
  NumberOfImages :: int

text \<open>\<^verbatim>\<open>genai.NewPartFromText\<close> returns a pointer to a new part, never nil.\<close>

definition NewPartFromText :: "string \<Rightarrow> Part option" where
  "NewPartFromText t = Some \<lparr>Text = t, InlineData = None\<rparr>"

text \<open>The two upstream calls, as functions of their arguments (the context apart).
  \<^verbatim>\<open>GenerateContentStream\<close> yields the pairs \<^verbatim>\<open>(result, err)\<close> of one streamed HTTP
  response; the sequence is a finite list here, since the response body ends.
  \<^verbatim>\<open>GenerateImages\<close> returns one pair \<^verbatim>\<open>(resp, err)\<close>. A pair is \<open>Inl err\<close> when its
  error is not nil (the code then reads nothing else), and else \<open>Inr\<close> of the pointer
  returned, which may be nil.\<close>

type_synonym ContentStream = "(error + GenerateContentResponse option) list"

type_synonym ContentStreamClient =
  "string \<Rightarrow> Content option list \<Rightarrow> GenerateContentConfig \<Rightarrow> ContentStream"

type_synonym ImagesReply = "error + GenerateImagesResponse option"

type_synonym ImagesClient = "string \<Rightarrow> string \<Rightarrow> GenerateImagesConfig \<Rightarrow> ImagesReply"

text \<open>What a handler does besides writing its response, in order: reading and decoding
  the body, calling the upstream service (with the arguments of the call), logging.\<close>

datatype effect =
    DecodeBody
  | GenerateContentStream string "Content option list" GenerateContentConfig
  | GenerateImages string string GenerateImagesConfig
  | LogPrintf string

fun isUpstreamCall :: "effect \<Rightarrow> bool" where
  "isUpstreamCall (GenerateContentStream m cs cfg) = True"
| "isUpstreamCall (GenerateImages m p cfg) = True"
| "isUpstreamCall e = False"

definition upstreamCalls :: "effect list \<Rightarrow> effect list" where
  "upstreamCalls es = filter isUpstreamCall es"


subsection \<open>fmt.Sprintf\<close>

text \<open>\<^verbatim>\<open>%d\<close> of an integer: its decimal digits, with a minus sign when negative.
  \<^verbatim>\<open>%s\<close> of a string and \<^verbatim>\<open>%v\<close> of an error are the text itself.\<close>

definition digitChar :: "nat \<Rightarrow> char" where
  "digitChar d = char_of (48 + d)"

fun digits :: "nat \<Rightarrow> string" where
  "digits n = (if n < 10 then [digitChar n] else digits (n div 10) @ [digitChar (n mod 10)])"

declare digits.simps [simp del]

definition fmt_d :: "int \<Rightarrow> string" where
  "fmt_d i = (if i < 0 then CHR ''-'' # digits (nat (- i)) else digits (nat i))"


section \<open>src/main.go\<close>

definition modelName :: string where
  "modelName = ''gemini-3-pro-image-preview''"

definition writeImage :: "bytes \<Rightarrow> string \<Rightarrow> Response" where
  "writeImage img mimeType =
     (let mimeType = (if mimeType = [] then ''image/png'' else mimeType)
      in \<lparr>Header = Header_Set ''Content-Type'' mimeType [],
          StatusCode = StatusOK,
          Written = Bytes img\<rparr>)"

definition writeError :: "string \<Rightarrow> nat \<Rightarrow> Response" where
  "writeError message statusCode =
     \<lparr>Header = Header_Set ''Content-Type'' ''application/json'' [],
      StatusCode = statusCode,
      Written = JSONEncoded [(''error'', message)]\<rparr>"

text \<open>The inner loop of \<^verbatim>\<open>generateSingleImage\<close>: the first part with inline data.
  \<^verbatim>\<open>part.InlineData\<close> is read with no test of \<^verbatim>\<open>part\<close>, so a nil part met before any
  inline data is a panic.\<close>

fun firstInlineData :: "Part option list \<Rightarrow> Blob option outcome" where
  "firstInlineData [] = Done None"
| "firstInlineData (None # parts) = Panic"
| "firstInlineData (Some part # parts) =
     (case InlineData part of
        Some blob \<Rightarrow> Done (Some blob)
      | None \<Rightarrow> firstInlineData parts)"

text \<open>The outer loop, over the stream: an error ends it, a result whose first candidate
  has no content or no parts is skipped, and the first inline blob found is returned
  with \<open>image/png\<close> for an empty MIME type. \<^verbatim>\<open>result.Candidates\<close> is read with no test of
  \<^verbatim>\<open>result\<close>, and \<^verbatim>\<open>result.Candidates[0].Content\<close> with no test of the candidate: a nil
  result and a nil first candidate are panics.\<close>

fun rangeStream :: "ContentStream \<Rightarrow> (error + bytes \<times> string) outcome" where
  "rangeStream [] = Done (Inl ''no image returned'')"
| "rangeStream (Inl err # rest) = Done (Inl err)"
| "rangeStream (Inr None # rest) = Panic"
| "rangeStream (Inr (Some result) # rest) =
     (case Candidates result of
        [] \<Rightarrow> rangeStream rest
      | None # _ \<Rightarrow> Panic
      | Some candidate # _ \<Rightarrow>
          (case Content candidate of
             None \<Rightarrow> rangeStream rest
           | Some content \<Rightarrow>
               if Parts content = [] then rangeStream rest
               else
                 (case firstInlineData (Parts content) of
                    Panic \<Rightarrow> Panic
                  | Done (Some blob) \<Rightarrow>
                      Done (Inr (Data blob,
                                 if Blob.MIMEType blob = [] then ''image/png''
                                 else Blob.MIMEType blob))
                  | Done None \<Rightarrow> rangeStream rest)))"

definition generateSingleImage ::
  "ContentStreamClient \<Rightarrow> string \<Rightarrow> effect list \<times> (error + bytes \<times> string) outcome" where
  "generateSingleImage aiClient prompt =
     (let contents = [Some \<lparr>Role = ''user'', Parts = [NewPartFromText prompt]\<rparr>];
          config = \<lparr>ResponseModalities = [''IMAGE'', ''TEXT''],
                    ImageConfig = Some \<lparr>ImageSize = ''1K''\<rparr>\<rparr>
      in ([GenerateContentStream modelName contents config],
          rangeStream (aiClient modelName contents config)))"

text \<open>The handlers take the JSON decoding of the body into their request struct as a
  parameter \<open>jsonDecode\<close> (\<open>None\<close> when \<^verbatim>\<open>Decode\<close> returns an error) and the upstream
  client \<open>aiClient\<close>, a global in the source. They return their effects and the
  response written; a panic of \<^verbatim>\<open>generateSingleImage\<close> is not recovered by the handler,
  which then writes nothing.\<close>

definition handleTextToImage ::
  "(string \<Rightarrow> TextToImageRequest option) \<Rightarrow> ContentStreamClient \<Rightarrow> Request
     \<Rightarrow> effect list \<times> Response outcome" where
  "handleTextToImage jsonDecode aiClient r =
     (if Method r \<noteq> MethodPost then ([], Done (writeError ''POST only'' StatusMethodNotAllowed))
      else case jsonDecode (Body r) of
        None \<Rightarrow> ([DecodeBody], Done (writeError ''invalid body'' StatusBadRequest))
      | Some req \<Rightarrow>
          if Prompt req = [] then
            ([DecodeBody], Done (writeError ''missing prompt'' StatusBadRequest))
          else
            (case generateSingleImage aiClient (Prompt req) of
               (es, Panic) \<Rightarrow> (DecodeBody # es, Panic)
             | (es, Done (Inl err)) \<Rightarrow>
                 (DecodeBody # es @ [LogPrintf (''Error generating image: '' @ err)],
                  Done (writeError (''generation error: '' @ err) StatusInternalServerError))
             | (es, Done (Inr (imgBytes, mimeType))) \<Rightarrow>
                 (DecodeBody # es, Done (writeImage imgBytes mimeType))))"

definition handleResize ::
  "(string \<Rightarrow> ResizeRequest option) \<Rightarrow> ContentStreamClient \<Rightarrow> Request
     \<Rightarrow> effect list \<times> Response outcome" where
  "handleResize jsonDecode aiClient r =
     (if Method r \<noteq> MethodPost then ([], Done (writeError ''POST only'' StatusMethodNotAllowed))
      else case jsonDecode (Body r) of
        None \<Rightarrow> ([DecodeBody], Done (writeError ''invalid body'' StatusBadRequest))
      | Some req \<Rightarrow>
          if ResizeRequest.ImageBase64 req = [] then
            ([DecodeBody], Done (writeError ''missing image'' StatusBadRequest))
          else if Scale req \<noteq> 2 \<and> Scale req \<noteq> 4 then
            ([DecodeBody], Done (writeError ''scale must be 2 or 4'' StatusBadRequest))
          else
            (case snd (StdEncoding_DecodeString (ResizeRequest.ImageBase64 req)) of
               Some err \<Rightarrow> ([DecodeBody], Done (writeError ''invalid base64'' StatusBadRequest))
             | None \<Rightarrow>
                 (let prompt = ''Resize this image by x'' @ fmt_d (Scale req)
                                 @ '' preserving details.''
                  in case generateSingleImage aiClient prompt of
                       (es, Panic) \<Rightarrow> (DecodeBody # es, Panic)
                     | (es, Done (Inl err)) \<Rightarrow>
                         (DecodeBody # es @ [LogPrintf (''Error resizing image: '' @ err)],
                          Done (writeError (''resize error: '' @ err) StatusInternalServerError))
                     | (es, Done (Inr (imgBytes, mimeType))) \<Rightarrow>
                         (DecodeBody # es, Done (writeImage imgBytes mimeType)))))"

definition handleSketchToImage ::
  "(string \<Rightarrow> SketchToImageRequest option) \<Rightarrow> ContentStreamClient \<Rightarrow> Request
     \<Rightarrow> effect list \<times> Response outcome" where
  "handleSketchToImage jsonDecode aiClient r =
     (if Method r \<noteq> MethodPost then ([], Done (writeError ''POST only'' StatusMethodNotAllowed))
      else case jsonDecode (Body r) of
        None \<Rightarrow> ([DecodeBody], Done (writeError ''invalid body'' StatusBadRequest))
      | Some req \<Rightarrow>
          if SketchToImageRequest.ImageBase64 req = [] \<or> Description req = [] then
            ([DecodeBody], Done (writeError ''missing fields'' StatusBadRequest))
          else
            (case snd (StdEncoding_DecodeString (SketchToImageRequest.ImageBase64 req)) of
               Some err \<Rightarrow> ([DecodeBody], Done (writeError ''invalid base64'' StatusBadRequest))
             | None \<Rightarrow>
                 (let prompt = ''Interpret this sketch as '' @ [CHR 0x27] @ Description req
                                 @ [CHR 0x27] @ ''.''
                  in case generateSingleImage aiClient prompt of
                       (es, Panic) \<Rightarrow> (DecodeBody # es, Panic)
                     | (es, Done (Inl err)) \<Rightarrow>
                         (DecodeBody # es
                            @ [LogPrintf (''Error converting sketch to image: '' @ err)],
                          Done (writeError (''sketch error: '' @ err) StatusInternalServerError))
                     | (es, Done (Inr (imgBytes, mimeType))) \<Rightarrow>
                         (DecodeBody # es, Done (writeImage imgBytes mimeType)))))"

definition handleMagicEraser ::
  "(string \<Rightarrow> MagicEraserRequest option) \<Rightarrow> ContentStreamClient \<Rightarrow> Request
     \<Rightarrow> effect list \<times> Response outcome" where
  "handleMagicEraser jsonDecode aiClient r =
     (if Method r \<noteq> MethodPost then ([], Done (writeError ''POST only'' StatusMethodNotAllowed))
      else case jsonDecode (Body r) of
        None \<Rightarrow> ([DecodeBody], Done (writeError ''invalid body'' StatusBadRequest))
      | Some req \<Rightarrow>
          if MagicEraserRequest.ImageBase64 req = [] then
            ([DecodeBody], Done (writeError ''missing image'' StatusBadRequest))
          else
            (case snd (StdEncoding_DecodeString (MagicEraserRequest.ImageBase64 req)) of
               Some err \<Rightarrow> ([DecodeBody], Done (writeError ''invalid base64'' StatusBadRequest))
             | None \<Rightarrow>
                 (let prompt = ''Remove the pink masked area and reconstruct the background.''
                  in case generateSingleImage aiClient prompt of
                       (es, Panic) \<Rightarrow> (DecodeBody # es, Panic)
                     | (es, Done (Inl err)) \<Rightarrow>
                         (DecodeBody # es @ [LogPrintf (''Error with magic eraser: '' @ err)],
                          Done (writeError (''eraser error: '' @ err) StatusInternalServerError))
                     | (es, Done (Inr (imgBytes, mimeType))) \<Rightarrow>
                         (DecodeBody # es, Done (writeImage imgBytes mimeType)))))"


section \<open>src/unnamed/part_000\<close>

definition modelName_p000 :: string where
  "modelName_p000 = ''imagen-4.0-generate-001''"

text \<open>\<^verbatim>\<open>http.Error(w, error, code)\<close> of \<^verbatim>\<open>net/http\<close>: a plain-text reply, the message
  followed by a newline.\<close>

definition http_Error :: "string \<Rightarrow> nat \<Rightarrow> Response" where
  "http_Error err code =
     \<lparr>Header = Header_Set ''X-Content-Type-Options'' ''nosniff''
                 (Header_Set ''Content-Type'' ''text/plain; charset=utf-8'' []),
      StatusCode = code,
      Written = Bytes (bytesOf (err @ [CHR 0x0A]))\<rparr>"

definition writeImagePNG :: "bytes \<Rightarrow> Response" where
  "writeImagePNG img =
     \<lparr>Header = Header_Set ''Content-Type'' ''image/png'' [],
      StatusCode = StatusOK,
      Written = Bytes img\<rparr>"

text \<open>\<^verbatim>\<open>generateSingleImage\<close> of \<^verbatim>\<open>part_000\<close>. \<^verbatim>\<open>resp.GeneratedImages\<close> is read with no
  test of \<^verbatim>\<open>resp\<close>, and \<^verbatim>\<open>resp.GeneratedImages[0].Image\<close> with no test of the entry: a
  nil response and a nil first entry are panics.\<close>

definition generateSingleImage_p000 ::
  "ImagesClient \<Rightarrow> string \<Rightarrow> effect list \<times> (error + bytes) outcome" where
  "generateSingleImage_p000 aiClient prompt =
     (let cfg = \<lparr>NumberOfImages = 1\<rparr>
      in ([GenerateImages modelName_p000 prompt cfg],
          case aiClient modelName_p000 prompt cfg of
            Inl err \<Rightarrow> Done (Inl err)
          | Inr None \<Rightarrow> Panic
          | Inr (Some resp) \<Rightarrow>
              (case GeneratedImages resp of
                 [] \<Rightarrow> Done (Inl ''no image returned'')
               | None # _ \<Rightarrow> Panic
               | Some g # _ \<Rightarrow>
                   (case Image g of
                      None \<Rightarrow> Done (Inl ''no image returned'')
                    | Some img \<Rightarrow> Done (Inr (ImageBytes img))))))"

definition handleTextToImage_p000 ::
  "(string \<Rightarrow> TextToImageRequest option) \<Rightarrow> ImagesClient \<Rightarrow> Request
     \<Rightarrow> effect list \<times> Response outcome" where
  "handleTextToImage_p000 jsonDecode aiClient r =
     (if Method r \<noteq> MethodPost then ([], Done (http_Error ''POST only'' StatusMethodNotAllowed))
      else case jsonDecode (Body r) of
        None \<Rightarrow> ([DecodeBody], Done (http_Error ''invalid body'' StatusBadRequest))
      | Some req \<Rightarrow>
          if Prompt req = [] then
            ([DecodeBody], Done (http_Error ''missing prompt'' StatusBadRequest))
          else
            (case generateSingleImage_p000 aiClient (Prompt req) of
               (es, Panic) \<Rightarrow> (DecodeBody # es, Panic)
             | (es, Done (Inl err)) \<Rightarrow>
                 (DecodeBody # es, Done (http_Error ''generation error'' StatusInternalServerError))
             | (es, Done (Inr imgBytes)) \<Rightarrow>
                 (DecodeBody # es, Done (writeImagePNG imgBytes))))"

definition handleResize_p000 ::
  "(string \<Rightarrow> ResizeRequest option) \<Rightarrow> ImagesClient \<Rightarrow> Request
     \<Rightarrow> effect list \<times> Response outcome" where
  "handleResize_p000 jsonDecode aiClient r =
     (if Method r \<noteq> MethodPost then ([], Done (http_Error ''POST only'' StatusMethodNotAllowed))
      else case jsonDecode (Body r) of
        None \<Rightarrow> ([DecodeBody], Done (http_Error ''invalid body'' StatusBadRequest))
      | Some req \<Rightarrow>
          if ResizeRequest.ImageBase64 req = [] then
            ([DecodeBody], Done (http_Error ''missing image'' StatusBadRequest))
          else if Scale req \<noteq> 2 \<and> Scale req \<noteq> 4 then
            ([DecodeBody], Done (http_Error ''scale must be 2 or 4'' StatusBadRequest))
          else
            (case snd (StdEncoding_DecodeString (ResizeRequest.ImageBase64 req)) of
               Some err \<Rightarrow> ([DecodeBody], Done (http_Error ''invalid base64'' StatusBadRequest))
             | None \<Rightarrow>
                 (let prompt = ''Resize this image by x'' @ fmt_d (Scale req)
                                 @ '' preserving details.''
                  in case generateSingleImage_p000 aiClient prompt of
                       (es, Panic) \<Rightarrow> (DecodeBody # es, Panic)
                     | (es, Done (Inl err)) \<Rightarrow>
                         (DecodeBody # es,
                          Done (http_Error ''resize error'' StatusInternalServerError))
                     | (es, Done (Inr imgBytes)) \<Rightarrow>
                         (DecodeBody # es, Done (writeImagePNG imgBytes)))))"

definition handleSketchToImage_p000 ::
  "(string \<Rightarrow> SketchToImageRequest option) \<Rightarrow> ImagesClient \<Rightarrow> Request
     \<Rightarrow> effect list \<times> Response outcome" where
  "handleSketchToImage_p000 jsonDecode aiClient r =
     (if Method r \<noteq> MethodPost then ([], Done (http_Error ''POST only'' StatusMethodNotAllowed))
      else case jsonDecode (Body r) of
        None \<Rightarrow> ([DecodeBody], Done (http_Error ''invalid body'' StatusBadRequest))
      | Some req \<Rightarrow>
          if SketchToImageRequest.ImageBase64 req = [] \<or> Description req = [] then
            ([DecodeBody], Done (http_Error ''missing fields'' StatusBadRequest))
          else
            (case snd (StdEncoding_DecodeString (SketchToImageRequest.ImageBase64 req)) of
               Some err \<Rightarrow> ([DecodeBody], Done (http_Error ''invalid base64'' StatusBadRequest))
             | None \<Rightarrow>
                 (let prompt = ''Sketch to Image: interpret this sketch as '' @ [CHR 0x27]
                                 @ Description req @ [CHR 0x27] @ ''.''
                  in case generateSingleImage_p000 aiClient prompt of
                       (es, Panic) \<Rightarrow> (DecodeBody # es, Panic)
                     | (es, Done (Inl err)) \<Rightarrow>
                         (DecodeBody # es,
                          Done (http_Error ''sketch error'' StatusInternalServerError))
                     | (es, Done (Inr imgBytes)) \<Rightarrow>
                         (DecodeBody # es, Done (writeImagePNG imgBytes)))))"

definition handleMagicEraser_p000 ::
  "(string \<Rightarrow> MagicEraserRequest option) \<Rightarrow> ImagesClient \<Rightarrow> Request
     \<Rightarrow> effect list \<times> Response outcome" where
  "handleMagicEraser_p000 jsonDecode aiClient r =
     (if Method r \<noteq> MethodPost then ([], Done (http_Error ''POST only'' StatusMethodNotAllowed))
      else case jsonDecode (Body r) of
        None \<Rightarrow> ([DecodeBody], Done (http_Error ''invalid body'' StatusBadRequest))
      | Some req \<Rightarrow>
          if MagicEraserRequest.ImageBase64 req = [] then
            ([DecodeBody], Done (http_Error ''missing image'' StatusBadRequest))
          else
            (case snd (StdEncoding_DecodeString (MagicEraserRequest.ImageBase64 req)) of
               Some err \<Rightarrow> ([DecodeBody], Done (http_Error ''invalid base64'' StatusBadRequest))
             | None \<Rightarrow>
                 (let prompt =
                    ''Magic eraser: remove the pink masked area and reconstruct background.''
                  in case generateSingleImage_p000 aiClient prompt of
                       (es, Panic) \<Rightarrow> (DecodeBody # es, Panic)
                     | (es, Done (Inl err)) \<Rightarrow>
                         (DecodeBody # es,
                          Done (http_Error ''eraser error'' StatusInternalServerError))
                     | (es, Done (Inr imgBytes)) \<Rightarrow>
                         (DecodeBody # es, Done (writeImagePNG imgBytes)))))"


section \<open>Notions used in the statements\<close>

text \<open>When a decoded body is refused: the body did not decode, a required string is
  empty, the scale is neither 2 nor 4, or the image field is not base64.\<close>

definition rejectTextToImage :: "TextToImageRequest option \<Rightarrow> bool" where
  "rejectTextToImage d = (case d of None \<Rightarrow> True | Some req \<Rightarrow> Prompt req = [])"

definition rejectResize :: "ResizeRequest option \<Rightarrow> bool" where
  "rejectResize d =
     (case d of
        None \<Rightarrow> True
      | Some req \<Rightarrow>
          ResizeRequest.ImageBase64 req = []
          \<or> (Scale req \<noteq> 2 \<and> Scale req \<noteq> 4)
          \<or> snd (StdEncoding_DecodeString (ResizeRequest.ImageBase64 req)) \<noteq> None)"

definition rejectSketchToImage :: "SketchToImageRequest option \<Rightarrow> bool" where
  "rejectSketchToImage d =
     (case d of
        None \<Rightarrow> True
      | Some req \<Rightarrow>
          SketchToImageRequest.ImageBase64 req = []
          \<or> Description req = []
          \<or> snd (StdEncoding_DecodeString (SketchToImageRequest.ImageBase64 req)) \<noteq> None)"

definition rejectMagicEraser :: "MagicEraserRequest option \<Rightarrow> bool" where
  "rejectMagicEraser d =
     (case d of
        None \<Rightarrow> True
      | Some req \<Rightarrow>
          MagicEraserRequest.ImageBase64 req = []
          \<or> snd (StdEncoding_DecodeString (MagicEraserRequest.ImageBase64 req)) \<noteq> None)"


text \<open>A string that is base64url rather than standard base64: it holds one of the two
  URL-safe characters, or the number of its bytes other than newlines is not a multiple
  of four (padding is missing).\<close>

definition urlSafeOrUnpadded :: "string \<Rightarrow> bool" where
  "urlSafeOrUnpadded s =
     (CHR ''-'' \<in> set s \<or> CHR ''_'' \<in> set s \<or> nonNewlines s mod 4 \<noteq> 0)"

text \<open>An image field that passes the handlers' validation.\<close>

definition validImage :: "string \<Rightarrow> bool" where
  "validImage img = (img \<noteq> [] \<and> snd (StdEncoding_DecodeString img) = None)"

text \<open>An upstream call that carries a text prompt and nothing else: for
  \<^verbatim>\<open>GenerateContentStream\<close> one user content with one text part and no inline data, for
  \<^verbatim>\<open>GenerateImages\<close> the prompt argument.\<close>

definition promptOnlyCall :: "string \<Rightarrow> effect" where
  "promptOnlyCall prompt =
     GenerateContentStream ''gemini-3-pro-image-preview''
       [Some \<lparr>Role = ''user'', Parts = [Some \<lparr>Text = prompt, InlineData = None\<rparr>]\<rparr>]
       \<lparr>ResponseModalities = [''IMAGE'', ''TEXT''], ImageConfig = Some \<lparr>ImageSize = ''1K''\<rparr>\<rparr>"

definition promptOnlyCall_p000 :: "string \<Rightarrow> effect" where
  "promptOnlyCall_p000 prompt =
     GenerateImages ''imagen-4.0-generate-001'' prompt \<lparr>NumberOfImages = 1\<rparr>"

text \<open>The texts a list of effects sends upstream: the text of every part of every
  content of a call (a nil content or part has none).\<close>

definition textsOf :: "Content option \<Rightarrow> string list" where
  "textsOf content =
     (case content of
        None \<Rightarrow> []
      | Some c \<Rightarrow> map Text (List.map_filter (\<lambda>part. part) (Parts c)))"

fun promptsOf :: "effect \<Rightarrow> string list" where
  "promptsOf (GenerateContentStream m contents cfg) = concat (map textsOf contents)"
| "promptsOf (GenerateImages m p cfg) = [p]"
| "promptsOf e = []"

definition promptsSent :: "effect list \<Rightarrow> string list" where
  "promptsSent es = concat (map promptsOf es)"

text \<open>The common tail of the handlers, once the request is valid: one upstream call with
  the prompt \<open>p\<close>, then the panic, the error reply or the image. And the five prompts.\<close>

definition relay ::
  "string \<Rightarrow> string \<Rightarrow> ContentStreamClient \<Rightarrow> string \<Rightarrow> effect list \<times> Response outcome" where
  "relay logPrefix errPrefix c p =
     (case generateSingleImage c p of
        (es, Panic) \<Rightarrow> (DecodeBody # es, Panic)
      | (es, Done (Inl err)) \<Rightarrow>
          (DecodeBody # es @ [LogPrintf (logPrefix @ err)],
           Done (writeError (errPrefix @ err) StatusInternalServerError))
      | (es, Done (Inr (imgBytes, mimeType))) \<Rightarrow>
          (DecodeBody # es, Done (writeImage imgBytes mimeType)))"

definition relay_p000 ::
  "string \<Rightarrow> ImagesClient \<Rightarrow> string \<Rightarrow> effect list \<times> Response outcome" where
  "relay_p000 errMessage c p =
     (case generateSingleImage_p000 c p of
        (es, Panic) \<Rightarrow> (DecodeBody # es, Panic)
      | (es, Done (Inl err)) \<Rightarrow>
          (DecodeBody # es, Done (http_Error errMessage StatusInternalServerError))
      | (es, Done (Inr imgBytes)) \<Rightarrow> (DecodeBody # es, Done (writeImagePNG imgBytes)))"

definition resizePrompt :: "int \<Rightarrow> string" where
  "resizePrompt scale = ''Resize this image by x'' @ fmt_d scale @ '' preserving details.''"

definition sketchPrompt :: "string \<Rightarrow> string" where
  "sketchPrompt desc = ''Interpret this sketch as '' @ [CHR 0x27] @ desc @ [CHR 0x27] @ ''.''"

definition sketchPrompt_p000 :: "string \<Rightarrow> string" where
  "sketchPrompt_p000 desc =
     ''Sketch to Image: interpret this sketch as '' @ [CHR 0x27] @ desc @ [CHR 0x27] @ ''.''"

definition eraserPrompt :: string where
  "eraserPrompt = ''Remove the pink masked area and reconstruct the background.''"

definition eraserPrompt_p000 :: string where
  "eraserPrompt_p000 = ''Magic eraser: remove the pink masked area and reconstruct background.''"


text \<open>The shapes of a response. An image response has status 200, a body of raw bytes
  and a non-empty content type. A JSON error response has a status outside 200..299 and
  a JSON body with the single key \<open>error\<close>. A plain-text error response has a status
  outside 200..299, the content type \<^verbatim>\<open>http.Error\<close> sets and a body that ends with a
  newline.\<close>

definition exactlyOne :: "bool \<Rightarrow> bool \<Rightarrow> bool" where
  "exactlyOne a b = ((a \<and> \<not> b) \<or> (b \<and> \<not> a))"

definition is2xx :: "nat \<Rightarrow> bool" where
  "is2xx code = (200 \<le> code \<and> code < 300)"

definition imageShape :: "Response \<Rightarrow> bool" where
  "imageShape resp =
     (StatusCode resp = 200
      \<and> (case Written resp of Bytes img \<Rightarrow> True | JSONEncoded m \<Rightarrow> False)
      \<and> (case Header_Get (Header resp) ''Content-Type'' of
            Some t \<Rightarrow> t \<noteq> []
          | None \<Rightarrow> False))"

definition jsonErrorShape :: "Response \<Rightarrow> bool" where
  "jsonErrorShape resp =
     (\<not> is2xx (StatusCode resp)
      \<and> (case Written resp of
            JSONEncoded [(k, message)] \<Rightarrow> k = ''error''
          | _ \<Rightarrow> False))"

definition textErrorShape :: "Response \<Rightarrow> bool" where
  "textErrorShape resp =
     (\<not> is2xx (StatusCode resp)
      \<and> Header_Get (Header resp) ''Content-Type'' = Some ''text/plain; charset=utf-8''
      \<and> (case Written resp of
            Bytes b \<Rightarrow> b \<noteq> [] \<and> last b = 10
          | JSONEncoded m \<Rightarrow> False))"

text \<open>Every path of a handler: a 405 or 400 reply, or the common tail.\<close>

definition earlyReply ::
  "(string \<Rightarrow> nat \<Rightarrow> Response) \<Rightarrow> effect list \<times> Response outcome \<Rightarrow> bool" where
  "earlyReply w out =
     (\<exists>m. out = ([], Done (w m 405)) \<or> out = ([DecodeBody], Done (w m 400)))"

text \<open>The inline payloads of a stream, in order: those of the parts of each result's
  first candidate, the only candidate the program reads. A nil pointer holds none.\<close>

definition partPayload :: "Part option \<Rightarrow> Blob option" where
  "partPayload part = (case part of None \<Rightarrow> None | Some p \<Rightarrow> InlineData p)"

fun chunkPayloads :: "error + GenerateContentResponse option \<Rightarrow> Blob list" where
  "chunkPayloads (Inl err) = []"
| "chunkPayloads (Inr None) = []"
| "chunkPayloads (Inr (Some result)) =
     (case Candidates result of
        [] \<Rightarrow> []
      | None # _ \<Rightarrow> []
      | Some candidate # _ \<Rightarrow>
          (case Content candidate of
             None \<Rightarrow> []
           | Some content \<Rightarrow> List.map_filter partPayload (Parts content)))"

definition inlinePayloads :: "ContentStream \<Rightarrow> Blob list" where
  "inlinePayloads stream = concat (map chunkPayloads stream)"

text \<open>An upstream reply without an image: for \<^verbatim>\<open>GenerateContentStream\<close>, a stream with no
  error and no inline payload where the program reads one, which a stream with no inline
  payload at all is; for \<^verbatim>\<open>GenerateImages\<close>, no error and a response whose list of images
  is empty or starts with an entry that has no image.\<close>

definition noInlinePayload :: "ContentStream \<Rightarrow> bool" where
  "noInlinePayload stream =
     list_all
       (\<lambda>item. case item of
          Inl err \<Rightarrow> False
        | Inr result \<Rightarrow> chunkPayloads item = [])
       stream"

definition noImage_p000 :: "ImagesReply \<Rightarrow> bool" where
  "noImage_p000 reply =
     (case reply of
        Inl err \<Rightarrow> False
      | Inr None \<Rightarrow> True
      | Inr (Some resp) \<Rightarrow>
          (case GeneratedImages resp of
             [] \<Rightarrow> True
           | None # _ \<Rightarrow> True
           | Some g # _ \<Rightarrow> Image g = None))"

text \<open>An upstream reply in which the pointers the program follows without a test are not
  nil. For \<^verbatim>\<open>GenerateContentStream\<close> these are each result, its first candidate, and the
  parts of that candidate's content; for \<^verbatim>\<open>GenerateImages\<close> the response and the first
  entry of its list of images.\<close>

definition nonNilResult :: "error + GenerateContentResponse option \<Rightarrow> bool" where
  "nonNilResult item =
     (case item of
        Inl err \<Rightarrow> True
      | Inr None \<Rightarrow> False
      | Inr (Some result) \<Rightarrow>
          (case Candidates result of
             [] \<Rightarrow> True
           | None # _ \<Rightarrow> False
           | Some candidate # _ \<Rightarrow>
               (case Content candidate of
                  None \<Rightarrow> True
                | Some content \<Rightarrow> list_all (\<lambda>part. part \<noteq> None) (Parts content))))"

definition nonNil :: "ContentStream \<Rightarrow> bool" where
  "nonNil stream = list_all nonNilResult stream"

definition nonNil_p000 :: "ImagesReply \<Rightarrow> bool" where
  "nonNil_p000 reply =
     (case reply of
        Inl err \<Rightarrow> True
      | Inr None \<Rightarrow> False
      | Inr (Some resp) \<Rightarrow>
          (case GeneratedImages resp of
             [] \<Rightarrow> True
           | None # _ \<Rightarrow> False
           | Some g # _ \<Rightarrow> True))"

text \<open>The reply of the upstream client to a recorded call.\<close>

fun replyTo :: "ContentStreamClient \<Rightarrow> effect \<Rightarrow> ContentStream" where
  "replyTo c (GenerateContentStream m cs cfg) = c m cs cfg"
| "replyTo c e = []"

fun replyTo_p000 :: "ImagesClient \<Rightarrow> effect \<Rightarrow> ImagesReply" where
  "replyTo_p000 c (GenerateImages m p cfg) = c m p cfg"
| "replyTo_p000 c e = Inl []"

text \<open>A successful outcome of \<^verbatim>\<open>main.go\<close>: one upstream call, whose reply has a first
  inline payload, served with its MIME type (\<open>image/png\<close> for an empty one). A
  successful outcome of \<^verbatim>\<open>part_000\<close>: one upstream call, whose first generated image is
  served as \<open>image/png\<close>.\<close>

definition servesFirstPayload ::
  "ContentStreamClient \<Rightarrow> effect list \<times> Response outcome \<Rightarrow> bool" where
  "servesFirstPayload c out =
     (case upstreamCalls (fst out) of
        [call] \<Rightarrow>
          (case inlinePayloads (replyTo c call) of
             [] \<Rightarrow> False
           | blob # _ \<Rightarrow>
               snd out =
                 Done \<lparr>Header = [(''Content-Type'',
                                   if Blob.MIMEType blob = [] then ''image/png''
                                   else Blob.MIMEType blob)],
                       StatusCode = 200,
                       Written = Bytes (Data blob)\<rparr>)
      | _ \<Rightarrow> False)"

definition servesPNG :: "ImagesClient \<Rightarrow> effect list \<times> Response outcome \<Rightarrow> bool" where
  "servesPNG c out =
     (case upstreamCalls (fst out) of
        [call] \<Rightarrow>
          (case replyTo_p000 c call of
             Inl err \<Rightarrow> False
           | Inr None \<Rightarrow> False
           | Inr (Some resp) \<Rightarrow>
               (case GeneratedImages resp of
                  [] \<Rightarrow> False
                | None # _ \<Rightarrow> False
                | Some g # _ \<Rightarrow>
                    (case Image g of
                       None \<Rightarrow> False
                     | Some img \<Rightarrow>
                         snd out =
                           Done \<lparr>Header = [(''Content-Type'', ''image/png'')],
                                 StatusCode = 200,
                                 Written = Bytes (ImageBytes img)\<rparr>)))
      | _ \<Rightarrow> False)"

text \<open>An outcome without a response for which the upstream is the reason: the handler
  made one upstream call, and the reply to it holds a nil pointer where the program
  follows one.\<close>

definition nilInReply :: "ContentStreamClient \<Rightarrow> effect list \<times> Response outcome \<Rightarrow> bool" where
  "nilInReply c out =
     (case upstreamCalls (fst out) of
        [call] \<Rightarrow> \<not> nonNil (replyTo c call)
      | _ \<Rightarrow> False)"

definition nilInReply_p000 :: "ImagesClient \<Rightarrow> effect list \<times> Response outcome \<Rightarrow> bool" where
  "nilInReply_p000 c out =
     (case upstreamCalls (fst out) of
        [call] \<Rightarrow> \<not> nonNil_p000 (replyTo_p000 c call)
      | _ \<Rightarrow> False)"


section \<open>Sample inputs\<close>

text \<open>Concrete requests and upstream replies for the instances evaluated below. The
  sample decoders are tables: each body paired with the struct \<^verbatim>\<open>encoding/json\<close>
  decodes it to; a body outside its table counts as undecodable.\<close>

definition jsonDecode_TextToImage_sample :: "string \<Rightarrow> TextToImageRequest option" where
  "jsonDecode_TextToImage_sample =
     map_of [(''{\"prompt\":\"a red kite\"}'', TextToImageRequest ''a red kite''),
             (''{\"prompt\":\"\"}'', TextToImageRequest [])]"

definition jsonDecode_Resize_sample :: "string \<Rightarrow> ResizeRequest option" where
  "jsonDecode_Resize_sample =
     map_of [(''{\"image_base64\":\"QUJD\",\"scale\":2}'', ResizeRequest ''QUJD'' 2),
             (''{\"image_base64\":\"REVG\",\"scale\":2}'', ResizeRequest ''REVG'' 2),
             (''{\"image_base64\":\"QUJD\",\"scale\":4}'', ResizeRequest ''QUJD'' 4),
             (''{\"image_base64\":\"QUJD\",\"scale\":3}'', ResizeRequest ''QUJD'' 3),
             (''{\"image_base64\":\"\",\"scale\":3}'', ResizeRequest [] 3),
             (''{\"image_base64\":\"!!\",\"scale\":3}'', ResizeRequest ''!!'' 3),
             (''{\"image_base64\":\"!!\",\"scale\":2}'', ResizeRequest ''!!'' 2),
             (''{\"image_base64\":\"a-b_\",\"scale\":2}'', ResizeRequest ''a-b_'' 2),
             (''{\"image_base64\":\"QQ\",\"scale\":4}'', ResizeRequest ''QQ'' 4)]"

definition jsonDecode_SketchToImage_sample :: "string \<Rightarrow> SketchToImageRequest option" where
  "jsonDecode_SketchToImage_sample =
     map_of [(''{\"image_base64\":\"QUJD\",\"description\":\"a cat\"}'',
                SketchToImageRequest ''QUJD'' ''a cat''),
             (''{\"image_base64\":\"REVG\",\"description\":\"a cat\"}'',
                SketchToImageRequest ''REVG'' ''a cat''),
             (''{\"image_base64\":\"QUJD\",\"description\":\"\"}'',
                SketchToImageRequest ''QUJD'' []),
             (''{\"image_base64\":\"a-b_\",\"description\":\"a cat\"}'',
                SketchToImageRequest ''a-b_'' ''a cat''),
             (''{\"image_base64\":\"QQ\",\"description\":\"a cat\"}'',
                SketchToImageRequest ''QQ'' ''a cat'')]"

definition jsonDecode_MagicEraser_sample :: "string \<Rightarrow> MagicEraserRequest option" where
  "jsonDecode_MagicEraser_sample =
     map_of [(''{\"image_base64\":\"QUJD\"}'', MagicEraserRequest ''QUJD''),
             (''{\"image_base64\":\"REVG\"}'', MagicEraserRequest ''REVG''),
             (''{\"image_base64\":\"\"}'', MagicEraserRequest []),
             (''{\"image_base64\":\"a-b_\"}'', MagicEraserRequest ''a-b_''),
             (''{\"image_base64\":\"QQ\"}'', MagicEraserRequest ''QQ'')]"

definition post :: "string \<Rightarrow> Request" where
  "post b = \<lparr>Method = ''POST'', Body = b\<rparr>"

definition get :: "string \<Rightarrow> Request" where
  "get b = \<lparr>Method = ''GET'', Body = b\<rparr>"

text \<open>Upstream stubs for \<^verbatim>\<open>GenerateContentStream\<close>: one that streams a text part and then
  a JPEG, one that streams an image with no MIME type, one that streams text only, one
  whose call fails, and one that streams text and then a result with a \<^verbatim>\<open>null\<close> among
  its parts.\<close>

definition textPart :: Part where
  "textPart = \<lparr>Text = ''Here is your image.'', InlineData = None\<rparr>"

definition chunk :: "Part option list \<Rightarrow> error + GenerateContentResponse option" where
  "chunk ps =
     Inr (Some \<lparr>Candidates = [Some \<lparr>Content = Some \<lparr>Role = ''model'', Parts = ps\<rparr>\<rparr>]\<rparr>)"

definition streamJPEG :: ContentStreamClient where
  "streamJPEG m cs cfg =
     [chunk [Some textPart],
      chunk [Some textPart,
             Some \<lparr>Text = [], InlineData = Some (Blob ''image/jpeg'' [255, 216, 255])\<rparr>],
      chunk [Some \<lparr>Text = [], InlineData = Some (Blob ''image/png'' [137, 80])\<rparr>]]"

definition streamNoMIME :: ContentStreamClient where
  "streamNoMIME m cs cfg =
     [chunk [Some \<lparr>Text = [], InlineData = Some (Blob [] [1, 2, 3])\<rparr>]]"

definition streamTextOnly :: ContentStreamClient where
  "streamTextOnly m cs cfg =
     [Inr (Some \<lparr>Candidates = []\<rparr>), chunk [Some textPart], chunk []]"

definition streamFails :: ContentStreamClient where
  "streamFails m cs cfg = [Inl ''Error 403, Message: API key AIza-1234 is not valid'']"

definition streamNullPart :: ContentStreamClient where
  "streamNullPart m cs cfg = [chunk [Some textPart], chunk [Some textPart, None]]"

text \<open>A client that streams text only for the prompt \<open>a red kite\<close> and a JPEG for any
  other call.\<close>

definition streamPicky :: ContentStreamClient where
  "streamPicky m cs cfg =
     (if cs = [Some \<lparr>Role = ''user'', Parts = [Some \<lparr>Text = ''a red kite'', InlineData = None\<rparr>]\<rparr>]
      then streamTextOnly m cs cfg else streamJPEG m cs cfg)"

text \<open>Upstream stubs for \<^verbatim>\<open>GenerateImages\<close>: one image declared as JPEG, no image, a
  failing call, and a list of images that holds a \<^verbatim>\<open>null\<close>.\<close>

definition imagesJPEG :: ImagesClient where
  "imagesJPEG m p cfg =
     Inr (Some \<lparr>GeneratedImages =
                  [Some \<lparr>Image = Some \<lparr>ImageBytes = [255, 216, 255],
                                         MIMEType = ''image/jpeg''\<rparr>\<rparr>]\<rparr>)"

definition imagesNone :: ImagesClient where
  "imagesNone m p cfg = Inr (Some \<lparr>GeneratedImages = []\<rparr>)"

definition imagesNull :: ImagesClient where
  "imagesNull m p cfg = Inr (Some \<lparr>GeneratedImages = [None]\<rparr>)"

definition imagesPicky :: ImagesClient where
  "imagesPicky m p cfg = (if p = ''a red kite'' then imagesNone m p cfg else imagesJPEG m p cfg)"

definition imagesFails :: ImagesClient where
  "imagesFails m p cfg = Inl ''Error 403, Message: API key AIza-1234 is not valid''"


section \<open>Evaluation lemmas\<close>

lemmas http_consts =
  MethodPost_def StatusOK_def StatusBadRequest_def StatusMethodNotAllowed_def
  StatusInternalServerError_def

lemmas writers = writeError_def writeImage_def http_Error_def writeImagePNG_def Header_Set_def

lemma post_simps: "Method (post b) = MethodPost" "Body (post b) = b"
  by (simp_all add: post_def MethodPost_def)

lemma get_simps: "Method (get b) \<noteq> MethodPost" "Body (get b) = b"
  by (simp_all add: get_def MethodPost_def)

lemma sample_decodes:
  "jsonDecode_TextToImage_sample ''{\"prompt\":\"a red kite\"}''
     = Some (TextToImageRequest ''a red kite'')"
  "jsonDecode_TextToImage_sample ''{\"prompt\":\"\"}'' = Some (TextToImageRequest [])"
  "jsonDecode_TextToImage_sample ''not json'' = None"
  "jsonDecode_Resize_sample ''{\"image_base64\":\"QUJD\",\"scale\":2}''
     = Some (ResizeRequest ''QUJD'' 2)"
  "jsonDecode_Resize_sample ''{\"image_base64\":\"REVG\",\"scale\":2}''
     = Some (ResizeRequest ''REVG'' 2)"
  "jsonDecode_Resize_sample ''{\"image_base64\":\"QUJD\",\"scale\":4}''
     = Some (ResizeRequest ''QUJD'' 4)"
  "jsonDecode_Resize_sample ''{\"image_base64\":\"QUJD\",\"scale\":3}''
     = Some (ResizeRequest ''QUJD'' 3)"
  "jsonDecode_Resize_sample ''{\"image_base64\":\"\",\"scale\":3}''
     = Some (ResizeRequest [] 3)"
  "jsonDecode_Resize_sample ''{\"image_base64\":\"!!\",\"scale\":3}''
     = Some (ResizeRequest ''!!'' 3)"
  "jsonDecode_Resize_sample ''{\"image_base64\":\"!!\",\"scale\":2}''
     = Some (ResizeRequest ''!!'' 2)"
  "jsonDecode_Resize_sample ''{\"image_base64\":\"a-b_\",\"scale\":2}''
     = Some (ResizeRequest ''a-b_'' 2)"
  "jsonDecode_SketchToImage_sample ''{\"image_base64\":\"QUJD\",\"description\":\"a cat\"}''
     = Some (SketchToImageRequest ''QUJD'' ''a cat'')"
  "jsonDecode_SketchToImage_sample ''{\"image_base64\":\"REVG\",\"description\":\"a cat\"}''
     = Some (SketchToImageRequest ''REVG'' ''a cat'')"
  "jsonDecode_SketchToImage_sample ''{\"image_base64\":\"QUJD\",\"description\":\"\"}''
     = Some (SketchToImageRequest ''QUJD'' [])"
  "jsonDecode_SketchToImage_sample ''{\"image_base64\":\"QQ\",\"description\":\"a cat\"}''
     = Some (SketchToImageRequest ''QQ'' ''a cat'')"
  "jsonDecode_MagicEraser_sample ''{\"image_base64\":\"QUJD\"}''
     = Some (MagicEraserRequest ''QUJD'')"
  "jsonDecode_MagicEraser_sample ''{\"image_base64\":\"REVG\"}''
     = Some (MagicEraserRequest ''REVG'')"
  "jsonDecode_MagicEraser_sample ''{\"image_base64\":\"\"}'' = Some (MagicEraserRequest [])"
  "jsonDecode_MagicEraser_sample ''{\"image_base64\":\"a-b_\"}''
     = Some (MagicEraserRequest ''a-b_'')"
  by (simp_all add: jsonDecode_TextToImage_sample_def jsonDecode_Resize_sample_def
      jsonDecode_SketchToImage_sample_def jsonDecode_MagicEraser_sample_def)


section \<open>What StdEncoding rejects\<close>

lemma indexByte_None: "indexByte xs c = None \<longleftrightarrow> c \<notin> set xs"
  by (induction xs) auto

lemma decodeMap_None: "decodeMap c = None \<longleftrightarrow> c \<notin> set encodeStd"
  by (simp add: decodeMap_def indexByte_None)

lemma decodeMap_newline: "isNewline c \<Longrightarrow> decodeMap c = None"
  by (auto simp: decodeMap_None isNewline_def encodeStd_def)

lemma decodeMap_urlsafe: "decodeMap (CHR ''-'') = None" "decodeMap (CHR ''_'') = None"
  by (simp_all add: decodeMap_None encodeStd_def)

lemma skipNewlines_keeps:
  "g \<in> set cs \<Longrightarrow> \<not> isNewline g \<Longrightarrow> g \<in> set (snd (skipNewlines si cs))"
  by (induction cs arbitrary: si) auto

lemma padded_garbage:
  "g \<in> set cs \<Longrightarrow> \<not> isNewline g \<Longrightarrow> snd (snd (snd (padded si dbuf cs))) \<noteq> None"
  using skipNewlines_keeps [of g cs si]
  by (auto simp: padded_def split: prod.splits)

lemma decodeQuantum_garbage:
  "g \<in> set cs \<Longrightarrow> garbage g \<Longrightarrow>
     snd (snd (snd (decodeQuantum n si dbuf cs))) \<noteq> None
     \<or> g \<in> set (fst (snd (decodeQuantum n si dbuf cs)))"
proof (induction cs arbitrary: si dbuf)
  case Nil
  then show ?case by simp
next
  case (Cons c cs)
  show ?case
  proof (cases "g \<in> set cs")
    case True
    note ih = Cons.IH [OF True Cons.prems(2)]
    have ng: "\<not> isNewline g" using Cons.prems(2) by (simp add: garbage_def)
    have sk: "\<And>k. g \<in> set (snd (skipNewlines k cs))"
      using True ng by (rule skipNewlines_keeps)
    have pd: "\<And>k. snd (snd (snd (padded k dbuf cs))) \<noteq> None"
      using True ng by (rule padded_garbage)
    have pd2: "\<And>k k' c' cs'. skipNewlines k cs = (k', c' # cs') \<Longrightarrow> c' = StdPadding
        \<Longrightarrow> snd (snd (snd (padded (Suc k') dbuf cs'))) \<noteq> None"
    proof -
      fix k k' c' cs'
      assume a: "skipNewlines k cs = (k', c' # cs')" and b: "c' = StdPadding"
      have "g \<in> set (c' # cs')" using sk [of k] a by simp
      moreover have "g \<noteq> c'" using b Cons.prems(2) by (simp add: garbage_def)
      ultimately have "g \<in> set cs'" by simp
      then show "snd (snd (snd (padded (Suc k') dbuf cs'))) \<noteq> None"
        using ng by (rule padded_garbage)
    qed
    show ?thesis
      using ih [of "Suc si" dbuf] ih [of "Suc si" "dbuf @ [the (decodeMap c)]"] True pd pd2
        sk [of "Suc si"]
      by (auto split: option.splits prod.splits list.splits)
  next
    case False
    then have "g = c" using Cons.prems(1) by simp
    then show ?thesis using Cons.prems(2) by (simp add: garbage_def)
  qed
qed

lemma Decode_garbage:
  "g \<in> set cs \<Longrightarrow> garbage g \<Longrightarrow> snd (StdEncoding_Decode n si cs) \<noteq> None"
proof (induction n si cs rule: StdEncoding_Decode.induct)
  case (1 n si)
  then show ?case by simp
next
  case (2 n si c cs)
  obtain nsi rest out err where q: "decodeQuantum n si [] (c # cs) = (nsi, rest, out, err)"
    by (cases "decodeQuantum n si [] (c # cs)") auto
  show ?case
  proof (cases err)
    case (Some e)
    then show ?thesis using q by (simp del: decodeQuantum.simps)
  next
    case None
    have gr: "g \<in> set rest"
      using decodeQuantum_garbage [where n = n and si = si and dbuf = "[]",
          OF "2.prems"(1) "2.prems"(2)] q None by simp
    then have "snd (StdEncoding_Decode n nsi rest) \<noteq> None"
      using "2.IH" q None "2.prems"(2) gr by (auto simp del: decodeQuantum.simps)
    then show ?thesis using q None
      by (auto simp del: decodeQuantum.simps split: prod.splits)
  qed
qed


lemma nonNewlines_simps:
  "nonNewlines [] = 0"
  "nonNewlines (c # cs) = (if isNewline c then nonNewlines cs else Suc (nonNewlines cs))"
  by (simp_all add: nonNewlines_def)

lemma skipNewlines_nonNewlines: "nonNewlines (snd (skipNewlines k cs)) = nonNewlines cs"
  by (induction cs arbitrary: k) (auto simp: nonNewlines_simps)

lemma skipNewlines_nonNewlines_eq:
  "skipNewlines k cs = (k', cs') \<Longrightarrow> nonNewlines cs = nonNewlines cs'"
  using skipNewlines_nonNewlines [of k cs] by simp

lemma padded_ok:
  "padded k dbuf cs = (nsi, rest, out, None) \<Longrightarrow> nonNewlines cs = 0 \<and> rest = []"
  by (auto simp: padded_def nonNewlines_simps split: prod.splits if_splits
      dest: skipNewlines_nonNewlines_eq)

lemma decodeMap_not_newline: "decodeMap c = Some out \<Longrightarrow> \<not> isNewline c"
  using decodeMap_newline [of c] by auto

lemma decodeQuantum_nonNewlines:
  "length dbuf \<le> 3 \<Longrightarrow> decodeQuantum n si dbuf cs = (nsi, rest, out, None) \<Longrightarrow>
     (nonNewlines cs + length dbuf) mod 4 = nonNewlines rest mod 4"
proof (induction cs arbitrary: si dbuf)
  case Nil
  then show ?case by (simp add: nonNewlines_simps split: if_splits)
next
  case (Cons c cs)
  show ?case
  proof (cases "decodeMap c")
    case (Some v)
    then have nn: "\<not> isNewline c" by (rule decodeMap_not_newline)
    show ?thesis
    proof (cases "length dbuf = 3")
      case True
      then show ?thesis using Cons.prems Some nn by (auto simp: nonNewlines_simps)
    next
      case False
      then have "length (dbuf @ [v]) \<le> 3" using Cons.prems(1) by simp
      moreover have "decodeQuantum n (Suc si) (dbuf @ [v]) cs = (nsi, rest, out, None)"
        using Cons.prems(2) Some False by simp
      ultimately have "(nonNewlines cs + length (dbuf @ [v])) mod 4 = nonNewlines rest mod 4"
        by (rule Cons.IH)
      then show ?thesis using nn by (simp add: nonNewlines_simps)
    qed
  next
    case None
    show ?thesis
    proof (cases "isNewline c")
      case True
      then have "decodeQuantum n (Suc si) dbuf cs = (nsi, rest, out, None)"
        using Cons.prems(2) None by simp
      with Cons.prems(1) have "(nonNewlines cs + length dbuf) mod 4 = nonNewlines rest mod 4"
        by (rule Cons.IH)
      then show ?thesis using True by (simp add: nonNewlines_simps)
    next
      case False
      note nl = False
      have pad: "c = StdPadding" and two: "2 \<le> length dbuf"
        using Cons.prems(2) None nl by (auto split: if_splits)
      show ?thesis
      proof (cases "length dbuf = 2")
        case True
        obtain k' cs' where sk: "skipNewlines (Suc si) cs = (k', cs')"
          by (cases "skipNewlines (Suc si) cs") auto
        from Cons.prems(2) None nl pad True sk obtain cs'' where
          cs': "cs' = StdPadding # cs''" and
          pd: "padded (Suc k') dbuf cs'' = (nsi, rest, out, None)"
          by (auto split: list.splits if_splits)
        have "nonNewlines cs'' = 0" and r: "rest = []" using padded_ok [OF pd] by auto
        moreover have "nonNewlines cs = nonNewlines cs'"
          using sk by (rule skipNewlines_nonNewlines_eq)
        moreover have "\<not> isNewline StdPadding" by (simp add: isNewline_def StdPadding_def)
        ultimately have "nonNewlines cs = 1" using cs' by (simp add: nonNewlines_simps)
        then show ?thesis using True nl r by (simp add: nonNewlines_simps)
      next
        case False
        then have three: "length dbuf = 3" using two Cons.prems(1) by simp
        then have pd: "padded (Suc si) dbuf cs = (nsi, rest, out, None)"
          using Cons.prems(2) None nl pad by simp
        have "nonNewlines cs = 0" and r: "rest = []" using padded_ok [OF pd] by auto
        then show ?thesis using three nl by (simp add: nonNewlines_simps)
      qed
    qed
  qed
qed

lemma Decode_nonNewlines:
  "snd (StdEncoding_Decode n si cs) = None \<Longrightarrow> nonNewlines cs mod 4 = 0"
proof (induction n si cs rule: StdEncoding_Decode.induct)
  case (1 n si)
  then show ?case by (simp add: nonNewlines_simps)
next
  case (2 n si c cs)
  obtain nsi rest out err where q: "decodeQuantum n si [] (c # cs) = (nsi, rest, out, err)"
    by (cases "decodeQuantum n si [] (c # cs)") auto
  have e: "err = None"
    using "2.prems" q by (cases err) (simp_all del: decodeQuantum.simps)
  have d: "snd (StdEncoding_Decode n nsi rest) = None"
    using "2.prems" q e by (auto simp del: decodeQuantum.simps split: prod.splits)
  have "nonNewlines rest mod 4 = 0"
    using "2.IH" q e d by (auto simp del: decodeQuantum.simps)
  moreover have "(nonNewlines (c # cs) + length ([] :: 8 word list)) mod 4 = nonNewlines rest mod 4"
    using q e by (intro decodeQuantum_nonNewlines) auto
  ultimately show ?case by simp
qed

lemma DecodeString_urlsafe:
  "CHR ''-'' \<in> set s \<or> CHR ''_'' \<in> set s \<Longrightarrow> snd (StdEncoding_DecodeString s) \<noteq> None"
  using Decode_garbage [of "CHR ''-''" s "length s" 0] Decode_garbage [of "CHR ''_''" s "length s" 0]
  by (auto simp: StdEncoding_DecodeString_def garbage_def decodeMap_urlsafe isNewline_def
      StdPadding_def)

lemma DecodeString_unpadded:
  "nonNewlines s mod 4 \<noteq> 0 \<Longrightarrow> snd (StdEncoding_DecodeString s) \<noteq> None"
  using Decode_nonNewlines [of "length s" 0 s] by (auto simp: StdEncoding_DecodeString_def)

lemma DecodeString_QUJD: "snd (StdEncoding_DecodeString ''QUJD'') = None"
  by code_simp

lemma DecodeString_REVG: "StdEncoding_DecodeString ''REVG'' = ([68, 69, 70], None)"
  by code_simp

lemma fmt_d_2: "fmt_d 2 = ''2''" "fmt_d 4 = ''4''" "fmt_d (-17) = ''-17''" "fmt_d 305 = ''305''"
  by code_simp+


section \<open>Method check\<close>

text \<open>
  \<^bold>\<open>C4.\<close> A request whose method is not \<open>POST\<close> is answered with status 405 by each of the
  four handlers, in both variants, and nothing else happens: the handler returns the
  \<open>POST only\<close> reply with no effect at all (the body is not decoded, no upstream call
  is made, nothing is logged), whatever the body, the decoder and the upstream client
  are.
\<close>

theorem non_post_405:
  assumes "Method r \<noteq> MethodPost"
  shows "handleTextToImage jdT c r = ([], Done (writeError ''POST only'' 405))
       \<and> handleResize jdR c r = ([], Done (writeError ''POST only'' 405))
       \<and> handleSketchToImage jdS c r = ([], Done (writeError ''POST only'' 405))
       \<and> handleMagicEraser jdM c r = ([], Done (writeError ''POST only'' 405))
       \<and> handleTextToImage_p000 jdT c' r = ([], Done (http_Error ''POST only'' 405))
       \<and> handleResize_p000 jdR c' r = ([], Done (http_Error ''POST only'' 405))
       \<and> handleSketchToImage_p000 jdS c' r = ([], Done (http_Error ''POST only'' 405))
       \<and> handleMagicEraser_p000 jdM c' r = ([], Done (http_Error ''POST only'' 405))
       \<and> StatusCode (writeError ''POST only'' 405) = 405
       \<and> StatusCode (http_Error ''POST only'' 405) = 405"
  using assms
  by (simp add: handleTextToImage_def handleResize_def handleSketchToImage_def
      handleMagicEraser_def handleTextToImage_p000_def handleResize_p000_def
      handleSketchToImage_p000_def handleMagicEraser_p000_def
      StatusMethodNotAllowed_def writeError_def http_Error_def)

theorem non_post_405_witness:
  "handleTextToImage jsonDecode_TextToImage_sample streamJPEG
       (get ''{\"prompt\":\"a red kite\"}'') = ([], Done (writeError ''POST only'' 405))
   \<and> handleResize_p000 jsonDecode_Resize_sample imagesJPEG
       (get ''{\"image_base64\":\"QUJD\",\"scale\":2}'')
     = ([], Done (http_Error ''POST only'' 405))"
  using non_post_405 [of "get ''{\"prompt\":\"a red kite\"}''" jsonDecode_TextToImage_sample
      streamJPEG]
    non_post_405 [of "get ''{\"image_base64\":\"QUJD\",\"scale\":2}''" _ _
      jsonDecode_Resize_sample _ _ imagesJPEG]
  by (simp add: get_simps)


lemma upstreamCalls_simps:
  "upstreamCalls [] = []"
  "upstreamCalls (DecodeBody # es) = upstreamCalls es"
  "upstreamCalls (LogPrintf l # es) = upstreamCalls es"
  "upstreamCalls (GenerateContentStream m cs cfg # es) =
     GenerateContentStream m cs cfg # upstreamCalls es"
  "upstreamCalls (GenerateImages m p cfg' # es) = GenerateImages m p cfg' # upstreamCalls es"
  "upstreamCalls (es @ es') = upstreamCalls es @ upstreamCalls es'"
  by (simp_all add: upstreamCalls_def)

lemma status_simps:
  "StatusCode (writeError m code) = code"
  "StatusCode (http_Error m code) = code"
  "StatusCode (writeImage img mime) = 200"
  "StatusCode (writeImagePNG img) = 200"
  by (simp_all add: writers StatusOK_def Let_def)

text \<open>The two error replies, written out.\<close>

lemma writeError_eq:
  "writeError message code =
     \<lparr>Header = [(''Content-Type'', ''application/json'')], StatusCode = code,
      Written = JSONEncoded [(''error'', message)]\<rparr>"
  by (simp add: writeError_def Header_Set_def)

lemma http_Error_eq:
  "http_Error message code =
     \<lparr>Header = [(''Content-Type'', ''text/plain; charset=utf-8''),
                (''X-Content-Type-Options'', ''nosniff'')],
      StatusCode = code,
      Written = Bytes (bytesOf (message @ [CHR 0x0A]))\<rparr>"
  by (simp add: http_Error_def Header_Set_def)

section \<open>Validation\<close>

text \<open>
  \<^bold>\<open>C9.\<close> \<^verbatim>\<open>handleResize\<close> checks, in this order, that the image field is not empty, that
  the scale is 2 or 4, and that the image field decodes as base64. So for a POST request
  whose body decodes: an empty image field is answered \<open>missing image\<close> whatever the
  scale; a non-empty image field with a scale other than 2 and 4 is answered
  \<open>scale must be 2 or 4\<close> whether or not the image is base64; and only with a good scale
  is undecodable base64 answered \<open>invalid base64\<close>. Each answer has status 400 and
  carries the message: in \<^verbatim>\<open>main.go\<close> as the JSON body \<open>{"error": message}\<close> with the
  content type \<open>application/json\<close>, in \<^verbatim>\<open>part_000\<close> as plain text, the message and a
  newline. The body is decoded and nothing else is done.
\<close>

theorem resize_validation_order:
  assumes "Method r = MethodPost" and "jd (Body r) = Some req"
  shows "(ResizeRequest.ImageBase64 req = [] \<longrightarrow>
            handleResize jd c r
              = ([DecodeBody],
                 Done \<lparr>Header = [(''Content-Type'', ''application/json'')],
                       StatusCode = 400,
                       Written = JSONEncoded [(''error'', ''missing image'')]\<rparr>)
          \<and> handleResize_p000 jd c' r
              = ([DecodeBody],
                 Done \<lparr>Header = [(''Content-Type'', ''text/plain; charset=utf-8''),
                                 (''X-Content-Type-Options'', ''nosniff'')],
                       StatusCode = 400,
                       Written = Bytes (bytesOf (''missing image'' @ [CHR 0x0A]))\<rparr>))
       \<and> (ResizeRequest.ImageBase64 req \<noteq> [] \<and> Scale req \<noteq> 2 \<and> Scale req \<noteq> 4 \<longrightarrow>
            handleResize jd c r
              = ([DecodeBody],
                 Done \<lparr>Header = [(''Content-Type'', ''application/json'')],
                       StatusCode = 400,
                       Written = JSONEncoded [(''error'', ''scale must be 2 or 4'')]\<rparr>)
          \<and> handleResize_p000 jd c' r
              = ([DecodeBody],
                 Done \<lparr>Header = [(''Content-Type'', ''text/plain; charset=utf-8''),
                                 (''X-Content-Type-Options'', ''nosniff'')],
                       StatusCode = 400,
                       Written = Bytes (bytesOf (''scale must be 2 or 4'' @ [CHR 0x0A]))\<rparr>))
       \<and> (ResizeRequest.ImageBase64 req \<noteq> [] \<and> (Scale req = 2 \<or> Scale req = 4)
            \<and> snd (StdEncoding_DecodeString (ResizeRequest.ImageBase64 req)) \<noteq> None \<longrightarrow>
            handleResize jd c r
              = ([DecodeBody],
                 Done \<lparr>Header = [(''Content-Type'', ''application/json'')],
                       StatusCode = 400,
                       Written = JSONEncoded [(''error'', ''invalid base64'')]\<rparr>)
          \<and> handleResize_p000 jd c' r
              = ([DecodeBody],
                 Done \<lparr>Header = [(''Content-Type'', ''text/plain; charset=utf-8''),
                                 (''X-Content-Type-Options'', ''nosniff'')],
                       StatusCode = 400,
                       Written = Bytes (bytesOf (''invalid base64'' @ [CHR 0x0A]))\<rparr>))"
  using assms
  by (auto simp: handleResize_def handleResize_p000_def StatusBadRequest_def
      writeError_eq http_Error_eq)

lemma DecodeString_bangs: "snd (StdEncoding_DecodeString ''!!'') = Some 0"
  by code_simp

theorem resize_validation_order_witness:
  "handleResize jsonDecode_Resize_sample streamJPEG (post ''{\"image_base64\":\"\",\"scale\":3}'')
     = ([DecodeBody],
        Done \<lparr>Header = [(''Content-Type'', ''application/json'')],
              StatusCode = 400,
              Written = JSONEncoded [(''error'', ''missing image'')]\<rparr>)
   \<and> handleResize_p000 jsonDecode_Resize_sample imagesJPEG
       (post ''{\"image_base64\":\"!!\",\"scale\":3}'')
     = ([DecodeBody],
        Done \<lparr>Header = [(''Content-Type'', ''text/plain; charset=utf-8''),
                        (''X-Content-Type-Options'', ''nosniff'')],
              StatusCode = 400,
              Written = Bytes (bytesOf (''scale must be 2 or 4'' @ [CHR 0x0A]))\<rparr>)
   \<and> handleResize jsonDecode_Resize_sample streamJPEG
       (post ''{\"image_base64\":\"!!\",\"scale\":2}'')
     = ([DecodeBody],
        Done \<lparr>Header = [(''Content-Type'', ''application/json'')],
              StatusCode = 400,
              Written = JSONEncoded [(''error'', ''invalid base64'')]\<rparr>)"
  using resize_validation_order [of "post ''{\"image_base64\":\"\",\"scale\":3}''"
      jsonDecode_Resize_sample "ResizeRequest [] 3" streamJPEG imagesJPEG]
    resize_validation_order [of "post ''{\"image_base64\":\"!!\",\"scale\":3}''"
      jsonDecode_Resize_sample "ResizeRequest ''!!'' 3" streamJPEG imagesJPEG]
    resize_validation_order [of "post ''{\"image_base64\":\"!!\",\"scale\":2}''"
      jsonDecode_Resize_sample "ResizeRequest ''!!'' 2" streamJPEG imagesJPEG]
  by (simp add: post_simps jsonDecode_Resize_sample_def DecodeString_bangs)

text \<open>
  \<^bold>\<open>C3.\<close> For a POST request, each of the four handlers (in both variants) answers with
  status 400 exactly when the body does not decode, a required string field is empty,
  the scale of \<^verbatim>\<open>/resize\<close> is neither 2 nor 4, or the image field does not decode as
  base64; and in that case it makes no upstream call.
\<close>

theorem bad_request_iff:
  assumes "Method r = MethodPost"
  shows "((statusOf (snd (handleTextToImage jdT c r)) = Some 400)
             = rejectTextToImage (jdT (Body r)))
       \<and> ((statusOf (snd (handleResize jdR c r)) = Some 400) = rejectResize (jdR (Body r)))
       \<and> ((statusOf (snd (handleSketchToImage jdS c r)) = Some 400)
             = rejectSketchToImage (jdS (Body r)))
       \<and> ((statusOf (snd (handleMagicEraser jdM c r)) = Some 400)
             = rejectMagicEraser (jdM (Body r)))
       \<and> ((statusOf (snd (handleTextToImage_p000 jdT c' r)) = Some 400)
             = rejectTextToImage (jdT (Body r)))
       \<and> ((statusOf (snd (handleResize_p000 jdR c' r)) = Some 400)
             = rejectResize (jdR (Body r)))
       \<and> ((statusOf (snd (handleSketchToImage_p000 jdS c' r)) = Some 400)
             = rejectSketchToImage (jdS (Body r)))
       \<and> ((statusOf (snd (handleMagicEraser_p000 jdM c' r)) = Some 400)
             = rejectMagicEraser (jdM (Body r)))
       \<and> (rejectTextToImage (jdT (Body r)) \<longrightarrow>
             upstreamCalls (fst (handleTextToImage jdT c r)) = []
           \<and> upstreamCalls (fst (handleTextToImage_p000 jdT c' r)) = [])
       \<and> (rejectResize (jdR (Body r)) \<longrightarrow>
             upstreamCalls (fst (handleResize jdR c r)) = []
           \<and> upstreamCalls (fst (handleResize_p000 jdR c' r)) = [])
       \<and> (rejectSketchToImage (jdS (Body r)) \<longrightarrow>
             upstreamCalls (fst (handleSketchToImage jdS c r)) = []
           \<and> upstreamCalls (fst (handleSketchToImage_p000 jdS c' r)) = [])
       \<and> (rejectMagicEraser (jdM (Body r)) \<longrightarrow>
             upstreamCalls (fst (handleMagicEraser jdM c r)) = []
           \<and> upstreamCalls (fst (handleMagicEraser_p000 jdM c' r)) = [])"
proof -
  note sp = option.splits prod.splits sum.splits outcome.splits
  note rj = rejectTextToImage_def rejectResize_def rejectSketchToImage_def rejectMagicEraser_def
  note ev = status_simps http_consts upstreamCalls_simps Let_def
  have t: "(statusOf (snd (handleTextToImage jdT c r)) = Some 400)
      = rejectTextToImage (jdT (Body r))"
    using assms by (auto simp: handleTextToImage_def rj ev split: sp)
  have r: "(statusOf (snd (handleResize jdR c r)) = Some 400) = rejectResize (jdR (Body r))"
    using assms by (auto simp: handleResize_def rj ev split: sp)
  have s: "(statusOf (snd (handleSketchToImage jdS c r)) = Some 400)
      = rejectSketchToImage (jdS (Body r))"
    using assms by (auto simp: handleSketchToImage_def rj ev split: sp)
  have m: "(statusOf (snd (handleMagicEraser jdM c r)) = Some 400)
      = rejectMagicEraser (jdM (Body r))"
    using assms by (auto simp: handleMagicEraser_def rj ev split: sp)
  have t': "(statusOf (snd (handleTextToImage_p000 jdT c' r)) = Some 400)
      = rejectTextToImage (jdT (Body r))"
    using assms by (auto simp: handleTextToImage_p000_def rj ev split: sp)
  have r': "(statusOf (snd (handleResize_p000 jdR c' r)) = Some 400)
      = rejectResize (jdR (Body r))"
    using assms by (auto simp: handleResize_p000_def rj ev split: sp)
  have s': "(statusOf (snd (handleSketchToImage_p000 jdS c' r)) = Some 400)
      = rejectSketchToImage (jdS (Body r))"
    using assms by (auto simp: handleSketchToImage_p000_def rj ev split: sp)
  have m': "(statusOf (snd (handleMagicEraser_p000 jdM c' r)) = Some 400)
      = rejectMagicEraser (jdM (Body r))"
    using assms by (auto simp: handleMagicEraser_p000_def rj ev split: sp)
  have ut: "rejectTextToImage (jdT (Body r)) \<longrightarrow>
             upstreamCalls (fst (handleTextToImage jdT c r)) = []
           \<and> upstreamCalls (fst (handleTextToImage_p000 jdT c' r)) = []"
    using assms
    by (auto simp: handleTextToImage_def handleTextToImage_p000_def rj ev split: sp)
  have ur: "rejectResize (jdR (Body r)) \<longrightarrow>
             upstreamCalls (fst (handleResize jdR c r)) = []
           \<and> upstreamCalls (fst (handleResize_p000 jdR c' r)) = []"
    using assms
    by (auto simp: handleResize_def handleResize_p000_def rj ev split: sp)
  have us: "rejectSketchToImage (jdS (Body r)) \<longrightarrow>
             upstreamCalls (fst (handleSketchToImage jdS c r)) = []
           \<and> upstreamCalls (fst (handleSketchToImage_p000 jdS c' r)) = []"
    using assms
    by (auto simp: handleSketchToImage_def handleSketchToImage_p000_def rj ev split: sp)
  have um: "rejectMagicEraser (jdM (Body r)) \<longrightarrow>
             upstreamCalls (fst (handleMagicEraser jdM c r)) = []
           \<and> upstreamCalls (fst (handleMagicEraser_p000 jdM c' r)) = []"
    using assms
    by (auto simp: handleMagicEraser_def handleMagicEraser_p000_def rj ev split: sp)
  show ?thesis
    using t r s m t' r' s' m' ut ur us um by blast
qed

theorem bad_request_iff_witness:
  "statusOf (snd (handleResize jsonDecode_Resize_sample streamJPEG
       (post ''{\"image_base64\":\"QUJD\",\"scale\":3}''))) = Some 400
   \<and> upstreamCalls (fst (handleResize jsonDecode_Resize_sample streamJPEG
       (post ''{\"image_base64\":\"QUJD\",\"scale\":3}''))) = []
   \<and> statusOf (snd (handleResize jsonDecode_Resize_sample streamJPEG
       (post ''{\"image_base64\":\"QUJD\",\"scale\":2}''))) \<noteq> Some 400
   \<and> statusOf (snd (handleTextToImage_p000 jsonDecode_TextToImage_sample imagesJPEG
       (post ''not json''))) = Some 400
   \<and> statusOf (snd (handleTextToImage_p000 jsonDecode_TextToImage_sample imagesJPEG
       (post ''{\"prompt\":\"\"}''))) = Some 400
   \<and> statusOf (snd (handleTextToImage_p000 jsonDecode_TextToImage_sample imagesJPEG
       (post ''{\"prompt\":\"a red kite\"}''))) \<noteq> Some 400
   \<and> statusOf (snd (handleSketchToImage jsonDecode_SketchToImage_sample streamJPEG
       (post ''{\"image_base64\":\"QUJD\",\"description\":\"\"}''))) = Some 400
   \<and> upstreamCalls (fst (handleSketchToImage jsonDecode_SketchToImage_sample streamJPEG
       (post ''{\"image_base64\":\"QUJD\",\"description\":\"\"}''))) = []
   \<and> statusOf (snd (handleMagicEraser_p000 jsonDecode_MagicEraser_sample imagesJPEG
       (post ''{\"image_base64\":\"a-b_\"}''))) = Some 400
   \<and> upstreamCalls (fst (handleMagicEraser_p000 jsonDecode_MagicEraser_sample imagesJPEG
       (post ''{\"image_base64\":\"a-b_\"}''))) = []"
proof -
  note inst = bad_request_iff [where jdT = jsonDecode_TextToImage_sample
      and jdR = jsonDecode_Resize_sample and jdS = jsonDecode_SketchToImage_sample
      and jdM = jsonDecode_MagicEraser_sample and c = streamJPEG and c' = imagesJPEG]
  note rj = rejectResize_def rejectTextToImage_def rejectSketchToImage_def
    rejectMagicEraser_def
  have bad: "snd (StdEncoding_DecodeString ''a-b_'') \<noteq> None"
    by (rule DecodeString_urlsafe) simp
  have r3: "statusOf (snd (handleResize jsonDecode_Resize_sample streamJPEG
       (post ''{\"image_base64\":\"QUJD\",\"scale\":3}''))) = Some 400
   \<and> upstreamCalls (fst (handleResize jsonDecode_Resize_sample streamJPEG
       (post ''{\"image_base64\":\"QUJD\",\"scale\":3}''))) = []"
    using inst [where r = "post ''{\"image_base64\":\"QUJD\",\"scale\":3}''"]
    by (simp add: post_simps sample_decodes rj)
  have r2: "statusOf (snd (handleResize jsonDecode_Resize_sample streamJPEG
       (post ''{\"image_base64\":\"QUJD\",\"scale\":2}''))) \<noteq> Some 400"
    using inst [where r = "post ''{\"image_base64\":\"QUJD\",\"scale\":2}''"]
    by (simp add: post_simps sample_decodes rj DecodeString_QUJD)
  have t1: "statusOf (snd (handleTextToImage_p000 jsonDecode_TextToImage_sample imagesJPEG
       (post ''not json''))) = Some 400"
    using inst [where r = "post ''not json''"]
    by (simp add: post_simps sample_decodes rj)
  have t2: "statusOf (snd (handleTextToImage_p000 jsonDecode_TextToImage_sample imagesJPEG
       (post ''{\"prompt\":\"\"}''))) = Some 400"
    using inst [where r = "post ''{\"prompt\":\"\"}''"]
    by (simp add: post_simps sample_decodes rj)
  have t3: "statusOf (snd (handleTextToImage_p000 jsonDecode_TextToImage_sample imagesJPEG
       (post ''{\"prompt\":\"a red kite\"}''))) \<noteq> Some 400"
    using inst [where r = "post ''{\"prompt\":\"a red kite\"}''"]
    by (simp add: post_simps sample_decodes rj)
  have sk: "statusOf (snd (handleSketchToImage jsonDecode_SketchToImage_sample streamJPEG
       (post ''{\"image_base64\":\"QUJD\",\"description\":\"\"}''))) = Some 400
   \<and> upstreamCalls (fst (handleSketchToImage jsonDecode_SketchToImage_sample streamJPEG
       (post ''{\"image_base64\":\"QUJD\",\"description\":\"\"}''))) = []"
    using inst [where r = "post ''{\"image_base64\":\"QUJD\",\"description\":\"\"}''"]
    by (simp add: post_simps sample_decodes rj)
  have er: "statusOf (snd (handleMagicEraser_p000 jsonDecode_MagicEraser_sample imagesJPEG
       (post ''{\"image_base64\":\"a-b_\"}''))) = Some 400
   \<and> upstreamCalls (fst (handleMagicEraser_p000 jsonDecode_MagicEraser_sample imagesJPEG
       (post ''{\"image_base64\":\"a-b_\"}''))) = []"
    using inst [where r = "post ''{\"image_base64\":\"a-b_\"}''"] bad
    by (simp add: post_simps sample_decodes rj)
  show ?thesis using r3 r2 t1 t2 t3 sk er by simp
qed



section \<open>Valid requests\<close>

lemma fst_generate:
  "fst (generateSingleImage c p) = [promptOnlyCall p]"
  "fst (generateSingleImage_p000 c' p) = [promptOnlyCall_p000 p]"
  by (simp_all add: generateSingleImage_def generateSingleImage_p000_def
      promptOnlyCall_def promptOnlyCall_p000_def modelName_def modelName_p000_def
      NewPartFromText_def Let_def)

lemma snd_generate:
  "snd (generateSingleImage c p) = rangeStream (replyTo c (promptOnlyCall p))"
  by (simp add: generateSingleImage_def promptOnlyCall_def modelName_def NewPartFromText_def
      Let_def)

lemma upstreamCalls_promptOnly:
  "upstreamCalls (promptOnlyCall p # es) = promptOnlyCall p # upstreamCalls es"
  "upstreamCalls (promptOnlyCall_p000 p # es) = promptOnlyCall_p000 p # upstreamCalls es"
  by (simp_all add: promptOnlyCall_def promptOnlyCall_p000_def upstreamCalls_simps)

lemmas prompts = resizePrompt_def sketchPrompt_def sketchPrompt_p000_def eraserPrompt_def
  eraserPrompt_p000_def

text \<open>What each handler does once its request is valid.\<close>

lemma relay_eq:
  "relay logPrefix errPrefix c p =
     (case snd (generateSingleImage c p) of
        Panic \<Rightarrow> ([DecodeBody, promptOnlyCall p], Panic)
      | Done (Inl err) \<Rightarrow>
          ([DecodeBody, promptOnlyCall p, LogPrintf (logPrefix @ err)],
           Done (writeError (errPrefix @ err) 500))
      | Done (Inr (imgBytes, mimeType)) \<Rightarrow>
          ([DecodeBody, promptOnlyCall p], Done (writeImage imgBytes mimeType)))"
  using fst_generate(1) [of c p]
  by (cases "generateSingleImage c p")
    (auto simp: relay_def StatusInternalServerError_def split: sum.splits outcome.splits)

lemma relay_p000_eq:
  "relay_p000 errMessage c p =
     (case snd (generateSingleImage_p000 c p) of
        Panic \<Rightarrow> ([DecodeBody, promptOnlyCall_p000 p], Panic)
      | Done (Inl err) \<Rightarrow> ([DecodeBody, promptOnlyCall_p000 p], Done (http_Error errMessage 500))
      | Done (Inr imgBytes) \<Rightarrow> ([DecodeBody, promptOnlyCall_p000 p], Done (writeImagePNG imgBytes)))"
  using fst_generate(2) [of c p]
  by (cases "generateSingleImage_p000 c p")
    (auto simp: relay_p000_def StatusInternalServerError_def split: sum.splits outcome.splits)

lemmas relay_unfold = relay_def relay_p000_def Let_def

lemma handleTextToImage_valid:
  assumes "Method r = MethodPost" "jd (Body r) = Some (TextToImageRequest p)" "p \<noteq> []"
  shows "handleTextToImage jd c r = relay ''Error generating image: '' ''generation error: '' c p"
    and "handleTextToImage_p000 jd c' r = relay_p000 ''generation error'' c' p"
  using assms
  by (auto simp: handleTextToImage_def handleTextToImage_p000_def relay_unfold
      split: prod.splits sum.splits outcome.splits)

lemma handleResize_valid:
  assumes "Method r = MethodPost" "jd (Body r) = Some (ResizeRequest img scale)"
    "validImage img" "scale = 2 \<or> scale = 4"
  shows "handleResize jd c r = relay ''Error resizing image: '' ''resize error: '' c (resizePrompt scale)"
    and "handleResize_p000 jd c' r = relay_p000 ''resize error'' c' (resizePrompt scale)"
  using assms
  by (auto simp: handleResize_def handleResize_p000_def relay_unfold validImage_def prompts
      split: prod.splits sum.splits outcome.splits)

lemma handleSketchToImage_valid:
  assumes "Method r = MethodPost" "jd (Body r) = Some (SketchToImageRequest img desc)"
    "validImage img" "desc \<noteq> []"
  shows "handleSketchToImage jd c r
      = relay ''Error converting sketch to image: '' ''sketch error: '' c (sketchPrompt desc)"
    and "handleSketchToImage_p000 jd c' r = relay_p000 ''sketch error'' c' (sketchPrompt_p000 desc)"
  using assms
  by (auto simp: handleSketchToImage_def handleSketchToImage_p000_def relay_unfold
      validImage_def prompts split: prod.splits sum.splits outcome.splits)

lemma handleMagicEraser_valid:
  assumes "Method r = MethodPost" "jd (Body r) = Some (MagicEraserRequest img)" "validImage img"
  shows "handleMagicEraser jd c r
      = relay ''Error with magic eraser: '' ''eraser error: '' c eraserPrompt"
    and "handleMagicEraser_p000 jd c' r = relay_p000 ''eraser error'' c' eraserPrompt_p000"
  using assms
  by (auto simp: handleMagicEraser_def handleMagicEraser_p000_def relay_unfold
      validImage_def prompts split: prod.splits sum.splits outcome.splits)


section \<open>Base64 validation\<close>

lemma urlSafeOrUnpadded_rejected:
  "urlSafeOrUnpadded img \<Longrightarrow> img \<noteq> [] \<and> snd (StdEncoding_DecodeString img) \<noteq> None"
  using DecodeString_urlsafe [of img] DecodeString_unpadded [of img]
  by (auto simp: urlSafeOrUnpadded_def nonNewlines_simps)

text \<open>
  \<^bold>\<open>C10.\<close> The image field is checked against the standard alphabet with padding. An
  image string that holds \<open>-\<close> or \<open>_\<close>, or whose length (newlines apart) is not a
  multiple of four, is rejected by \<^verbatim>\<open>StdEncoding.DecodeString\<close>; and \<^verbatim>\<open>/resize\<close>,
  \<^verbatim>\<open>/sketch-to-image\<close> and \<^verbatim>\<open>/magic-eraser\<close> answer a POST request carrying it with
  status 400 and the message \<open>invalid base64\<close>, in both variants, when the earlier
  checks pass (the body decodes, the scale is 2 or 4, the description is not empty). In
  \<^verbatim>\<open>main.go\<close> the message is the JSON body \<open>{"error": "invalid base64"}\<close> with the
  content type \<open>application/json\<close>; in \<^verbatim>\<open>part_000\<close> it is plain text, the message and a
  newline. The body is decoded and nothing else is done: no upstream call, no log.
\<close>

theorem base64url_rejected:
  assumes "urlSafeOrUnpadded img"
  shows "snd (StdEncoding_DecodeString img) \<noteq> None
       \<and> (Method r = MethodPost \<and> jdR (Body r) = Some (ResizeRequest img scale)
            \<and> (scale = 2 \<or> scale = 4) \<longrightarrow>
            handleResize jdR c r
              = ([DecodeBody],
                 Done \<lparr>Header = [(''Content-Type'', ''application/json'')],
                       StatusCode = 400,
                       Written = JSONEncoded [(''error'', ''invalid base64'')]\<rparr>)
          \<and> handleResize_p000 jdR c' r
              = ([DecodeBody],
                 Done \<lparr>Header = [(''Content-Type'', ''text/plain; charset=utf-8''),
                                 (''X-Content-Type-Options'', ''nosniff'')],
                       StatusCode = 400,
                       Written = Bytes (bytesOf (''invalid base64'' @ [CHR 0x0A]))\<rparr>))
       \<and> (Method r = MethodPost \<and> jdS (Body r) = Some (SketchToImageRequest img desc)
            \<and> desc \<noteq> [] \<longrightarrow>
            handleSketchToImage jdS c r
              = ([DecodeBody],
                 Done \<lparr>Header = [(''Content-Type'', ''application/json'')],
                       StatusCode = 400,
                       Written = JSONEncoded [(''error'', ''invalid base64'')]\<rparr>)
          \<and> handleSketchToImage_p000 jdS c' r
              = ([DecodeBody],
                 Done \<lparr>Header = [(''Content-Type'', ''text/plain; charset=utf-8''),
                                 (''X-Content-Type-Options'', ''nosniff'')],
                       StatusCode = 400,
                       Written = Bytes (bytesOf (''invalid base64'' @ [CHR 0x0A]))\<rparr>))
       \<and> (Method r = MethodPost \<and> jdM (Body r) = Some (MagicEraserRequest img) \<longrightarrow>
            handleMagicEraser jdM c r
              = ([DecodeBody],
                 Done \<lparr>Header = [(''Content-Type'', ''application/json'')],
                       StatusCode = 400,
                       Written = JSONEncoded [(''error'', ''invalid base64'')]\<rparr>)
          \<and> handleMagicEraser_p000 jdM c' r
              = ([DecodeBody],
                 Done \<lparr>Header = [(''Content-Type'', ''text/plain; charset=utf-8''),
                                 (''X-Content-Type-Options'', ''nosniff'')],
                       StatusCode = 400,
                       Written = Bytes (bytesOf (''invalid base64'' @ [CHR 0x0A]))\<rparr>))"
  using urlSafeOrUnpadded_rejected [OF assms]
  by (auto simp: handleResize_def handleResize_p000_def handleSketchToImage_def
      handleSketchToImage_p000_def handleMagicEraser_def handleMagicEraser_p000_def
      StatusBadRequest_def writeError_eq http_Error_eq)

lemma urlSafeOrUnpadded_samples: "urlSafeOrUnpadded ''a-b_''" "urlSafeOrUnpadded ''QQ''"
  by (simp_all add: urlSafeOrUnpadded_def nonNewlines_simps isNewline_def)

theorem base64url_rejected_witness:
  "urlSafeOrUnpadded ''a-b_'' \<and> urlSafeOrUnpadded ''QQ''
   \<and> handleResize jsonDecode_Resize_sample streamJPEG
       (post ''{\"image_base64\":\"a-b_\",\"scale\":2}'')
     = ([DecodeBody],
        Done \<lparr>Header = [(''Content-Type'', ''application/json'')],
              StatusCode = 400,
              Written = JSONEncoded [(''error'', ''invalid base64'')]\<rparr>)
   \<and> handleSketchToImage_p000 jsonDecode_SketchToImage_sample imagesJPEG
       (post ''{\"image_base64\":\"QQ\",\"description\":\"a cat\"}'')
     = ([DecodeBody],
        Done \<lparr>Header = [(''Content-Type'', ''text/plain; charset=utf-8''),
                        (''X-Content-Type-Options'', ''nosniff'')],
              StatusCode = 400,
              Written = Bytes (bytesOf (''invalid base64'' @ [CHR 0x0A]))\<rparr>)
   \<and> handleMagicEraser jsonDecode_MagicEraser_sample streamJPEG
       (post ''{\"image_base64\":\"a-b_\"}'')
     = ([DecodeBody],
        Done \<lparr>Header = [(''Content-Type'', ''application/json'')],
              StatusCode = 400,
              Written = JSONEncoded [(''error'', ''invalid base64'')]\<rparr>)"
  using base64url_rejected [OF urlSafeOrUnpadded_samples(1),
      where r = "post ''{\"image_base64\":\"a-b_\",\"scale\":2}''"
      and jdR = jsonDecode_Resize_sample and scale = 2 and c = streamJPEG]
    base64url_rejected [OF urlSafeOrUnpadded_samples(2),
      where r = "post ''{\"image_base64\":\"QQ\",\"description\":\"a cat\"}''"
      and jdS = jsonDecode_SketchToImage_sample and desc = "''a cat''" and c' = imagesJPEG]
    base64url_rejected [OF urlSafeOrUnpadded_samples(1),
      where r = "post ''{\"image_base64\":\"a-b_\"}''"
      and jdM = jsonDecode_MagicEraser_sample and c = streamJPEG]
  by (simp add: post_simps sample_decodes urlSafeOrUnpadded_samples)


section \<open>What is sent upstream\<close>

lemma upstreamCalls_relay:
  "upstreamCalls (fst (relay l e c p)) = [promptOnlyCall p]"
  "upstreamCalls (fst (relay_p000 e c' p)) = [promptOnlyCall_p000 p]"
  by (auto simp: relay_eq relay_p000_eq upstreamCalls_promptOnly upstreamCalls_simps
      split: sum.splits outcome.splits)

text \<open>
  \<^bold>\<open>C2.\<close> For a valid request to \<^verbatim>\<open>/resize\<close>, \<^verbatim>\<open>/sketch-to-image\<close> or \<^verbatim>\<open>/magic-eraser\<close>,
  in both variants, the handler makes exactly one upstream call and that call carries
  the synthesized text prompt only (no inline data, no image bytes); and two requests
  that differ only in their (valid) image fields, bodies and decoders have the same
  outcome, effects and response alike: the image field decides nothing but whether the
  request passes validation.
\<close>

theorem image_not_forwarded:
  assumes "validImage img" and "validImage img'"
  shows "(Method r = MethodPost \<and> Method r' = MethodPost \<and> (scale = 2 \<or> scale = 4)
            \<and> jdR (Body r) = Some (ResizeRequest img scale)
            \<and> jdR' (Body r') = Some (ResizeRequest img' scale) \<longrightarrow>
            handleResize jdR c r = handleResize jdR' c r'
          \<and> upstreamCalls (fst (handleResize jdR c r))
              = [promptOnlyCall (''Resize this image by x'' @ fmt_d scale
                                  @ '' preserving details.'')]
          \<and> handleResize_p000 jdR c' r = handleResize_p000 jdR' c' r'
          \<and> upstreamCalls (fst (handleResize_p000 jdR c' r))
              = [promptOnlyCall_p000 (''Resize this image by x'' @ fmt_d scale
                                       @ '' preserving details.'')])
       \<and> (Method r = MethodPost \<and> Method r' = MethodPost \<and> desc \<noteq> []
            \<and> jdS (Body r) = Some (SketchToImageRequest img desc)
            \<and> jdS' (Body r') = Some (SketchToImageRequest img' desc) \<longrightarrow>
            handleSketchToImage jdS c r = handleSketchToImage jdS' c r'
          \<and> upstreamCalls (fst (handleSketchToImage jdS c r))
              = [promptOnlyCall (''Interpret this sketch as '' @ [CHR 0x27] @ desc
                                  @ [CHR 0x27] @ ''.'')]
          \<and> handleSketchToImage_p000 jdS c' r = handleSketchToImage_p000 jdS' c' r'
          \<and> upstreamCalls (fst (handleSketchToImage_p000 jdS c' r))
              = [promptOnlyCall_p000 (''Sketch to Image: interpret this sketch as ''
                                       @ [CHR 0x27] @ desc @ [CHR 0x27] @ ''.'')])
       \<and> (Method r = MethodPost \<and> Method r' = MethodPost
            \<and> jdM (Body r) = Some (MagicEraserRequest img)
            \<and> jdM' (Body r') = Some (MagicEraserRequest img') \<longrightarrow>
            handleMagicEraser jdM c r = handleMagicEraser jdM' c r'
          \<and> upstreamCalls (fst (handleMagicEraser jdM c r))
              = [promptOnlyCall ''Remove the pink masked area and reconstruct the background.'']
          \<and> handleMagicEraser_p000 jdM c' r = handleMagicEraser_p000 jdM' c' r'
          \<and> upstreamCalls (fst (handleMagicEraser_p000 jdM c' r))
              = [promptOnlyCall_p000
                   ''Magic eraser: remove the pink masked area and reconstruct background.''])"
proof -
  note v = handleResize_valid handleSketchToImage_valid handleMagicEraser_valid
  have rz: "Method r = MethodPost \<and> Method r' = MethodPost \<and> (scale = 2 \<or> scale = 4)
            \<and> jdR (Body r) = Some (ResizeRequest img scale)
            \<and> jdR' (Body r') = Some (ResizeRequest img' scale) \<longrightarrow>
            handleResize jdR c r = handleResize jdR' c r'
          \<and> upstreamCalls (fst (handleResize jdR c r)) = [promptOnlyCall (resizePrompt scale)]
          \<and> handleResize_p000 jdR c' r = handleResize_p000 jdR' c' r'
          \<and> upstreamCalls (fst (handleResize_p000 jdR c' r))
              = [promptOnlyCall_p000 (resizePrompt scale)]"
    using assms by (auto simp: v upstreamCalls_relay)
  have sk: "Method r = MethodPost \<and> Method r' = MethodPost \<and> desc \<noteq> []
            \<and> jdS (Body r) = Some (SketchToImageRequest img desc)
            \<and> jdS' (Body r') = Some (SketchToImageRequest img' desc) \<longrightarrow>
            handleSketchToImage jdS c r = handleSketchToImage jdS' c r'
          \<and> upstreamCalls (fst (handleSketchToImage jdS c r))
              = [promptOnlyCall (sketchPrompt desc)]
          \<and> handleSketchToImage_p000 jdS c' r = handleSketchToImage_p000 jdS' c' r'
          \<and> upstreamCalls (fst (handleSketchToImage_p000 jdS c' r))
              = [promptOnlyCall_p000 (sketchPrompt_p000 desc)]"
    using assms by (auto simp: v upstreamCalls_relay)
  have er: "Method r = MethodPost \<and> Method r' = MethodPost
            \<and> jdM (Body r) = Some (MagicEraserRequest img)
            \<and> jdM' (Body r') = Some (MagicEraserRequest img') \<longrightarrow>
            handleMagicEraser jdM c r = handleMagicEraser jdM' c r'
          \<and> upstreamCalls (fst (handleMagicEraser jdM c r)) = [promptOnlyCall eraserPrompt]
          \<and> handleMagicEraser_p000 jdM c' r = handleMagicEraser_p000 jdM' c' r'
          \<and> upstreamCalls (fst (handleMagicEraser_p000 jdM c' r))
              = [promptOnlyCall_p000 eraserPrompt_p000]"
    using assms by (auto simp: v upstreamCalls_relay)
  show ?thesis
    using rz sk er unfolding prompts by (simp only: append_Cons append_Nil) 
qed


lemma validImage_samples: "validImage ''QUJD''" "validImage ''REVG''"
  by (simp_all add: validImage_def DecodeString_QUJD DecodeString_REVG)

theorem image_not_forwarded_witness:
  "validImage ''QUJD'' \<and> validImage ''REVG''
   \<and> handleResize jsonDecode_Resize_sample streamJPEG
        (post ''{\"image_base64\":\"QUJD\",\"scale\":2}'')
     = handleResize jsonDecode_Resize_sample streamJPEG
        (post ''{\"image_base64\":\"REVG\",\"scale\":2}'')
   \<and> upstreamCalls (fst (handleResize jsonDecode_Resize_sample streamJPEG
        (post ''{\"image_base64\":\"QUJD\",\"scale\":2}'')))
     = [promptOnlyCall ''Resize this image by x2 preserving details.'']
   \<and> handleSketchToImage_p000 jsonDecode_SketchToImage_sample imagesJPEG
        (post ''{\"image_base64\":\"QUJD\",\"description\":\"a cat\"}'')
     = handleSketchToImage_p000 jsonDecode_SketchToImage_sample imagesJPEG
        (post ''{\"image_base64\":\"REVG\",\"description\":\"a cat\"}'')
   \<and> handleMagicEraser jsonDecode_MagicEraser_sample streamJPEG
        (post ''{\"image_base64\":\"QUJD\"}'')
     = handleMagicEraser jsonDecode_MagicEraser_sample streamJPEG
        (post ''{\"image_base64\":\"REVG\"}'')"
proof -
  note inst = image_not_forwarded [OF validImage_samples,
      where jdR = jsonDecode_Resize_sample and jdR' = jsonDecode_Resize_sample
      and jdS = jsonDecode_SketchToImage_sample and jdS' = jsonDecode_SketchToImage_sample
      and jdM = jsonDecode_MagicEraser_sample and jdM' = jsonDecode_MagicEraser_sample
      and c = streamJPEG and c' = imagesJPEG and scale = 2 and desc = "''a cat''"]
  have rz: "handleResize jsonDecode_Resize_sample streamJPEG
        (post ''{\"image_base64\":\"QUJD\",\"scale\":2}'')
     = handleResize jsonDecode_Resize_sample streamJPEG
        (post ''{\"image_base64\":\"REVG\",\"scale\":2}'')
   \<and> upstreamCalls (fst (handleResize jsonDecode_Resize_sample streamJPEG
        (post ''{\"image_base64\":\"QUJD\",\"scale\":2}'')))
     = [promptOnlyCall ''Resize this image by x2 preserving details.'']"
    using inst [where r = "post ''{\"image_base64\":\"QUJD\",\"scale\":2}''"
        and r' = "post ''{\"image_base64\":\"REVG\",\"scale\":2}''"]
    by (simp (no_asm_use) add: post_simps sample_decodes fmt_d_2) blast
  have sk: "handleSketchToImage_p000 jsonDecode_SketchToImage_sample imagesJPEG
        (post ''{\"image_base64\":\"QUJD\",\"description\":\"a cat\"}'')
     = handleSketchToImage_p000 jsonDecode_SketchToImage_sample imagesJPEG
        (post ''{\"image_base64\":\"REVG\",\"description\":\"a cat\"}'')"
    using inst [where r = "post ''{\"image_base64\":\"QUJD\",\"description\":\"a cat\"}''"
        and r' = "post ''{\"image_base64\":\"REVG\",\"description\":\"a cat\"}''"]
    by (simp (no_asm_use) add: post_simps sample_decodes) blast
  have er: "handleMagicEraser jsonDecode_MagicEraser_sample streamJPEG
        (post ''{\"image_base64\":\"QUJD\"}'')
     = handleMagicEraser jsonDecode_MagicEraser_sample streamJPEG
        (post ''{\"image_base64\":\"REVG\"}'')"
    using inst [where r = "post ''{\"image_base64\":\"QUJD\"}''"
        and r' = "post ''{\"image_base64\":\"REVG\"}''"]
    by (simp (no_asm_use) add: post_simps sample_decodes) blast
  show ?thesis using rz sk er validImage_samples by blast
qed

lemma promptsSent_relay:
  "promptsSent (fst (relay l e c p)) = [p]"
  "promptsSent (fst (relay_p000 e c' p)) = [p]"
  by (auto simp: relay_eq relay_p000_eq promptsSent_def promptOnlyCall_def
      promptOnlyCall_p000_def textsOf_def
      split: sum.splits outcome.splits)

text \<open>
  \<^bold>\<open>C7.\<close> The prompt sent upstream is a function of the validated input alone. For a
  valid \<^verbatim>\<open>/resize\<close> request it is \<open>Resize this image by x2 preserving details.\<close> or
  \<open>Resize this image by x4 preserving details.\<close>, after the scale, in both variants.
  For a valid \<^verbatim>\<open>/sketch-to-image\<close> request with description \<open>d\<close> it is
  \<open>Interpret this sketch as 'd'.\<close> in \<^verbatim>\<open>main.go\<close> and
  \<open>Sketch to Image: interpret this sketch as 'd'.\<close> in \<^verbatim>\<open>part_000\<close>. For a valid
  \<^verbatim>\<open>/magic-eraser\<close> request it is the constant
  \<open>Remove the pink masked area and reconstruct the background.\<close> in \<^verbatim>\<open>main.go\<close> and
  \<open>Magic eraser: remove the pink masked area and reconstruct background.\<close> in
  \<^verbatim>\<open>part_000\<close>.
\<close>

theorem prompt_synthesis:
  assumes "Method r = MethodPost" and "validImage img"
  shows "(jdR (Body r) = Some (ResizeRequest img 2) \<longrightarrow>
            promptsSent (fst (handleResize jdR c r))
              = [''Resize this image by x2 preserving details.'']
          \<and> promptsSent (fst (handleResize_p000 jdR c' r))
              = [''Resize this image by x2 preserving details.''])
       \<and> (jdR (Body r) = Some (ResizeRequest img 4) \<longrightarrow>
            promptsSent (fst (handleResize jdR c r))
              = [''Resize this image by x4 preserving details.'']
          \<and> promptsSent (fst (handleResize_p000 jdR c' r))
              = [''Resize this image by x4 preserving details.''])
       \<and> (jdS (Body r) = Some (SketchToImageRequest img desc) \<and> desc \<noteq> [] \<longrightarrow>
            promptsSent (fst (handleSketchToImage jdS c r))
              = [''Interpret this sketch as '' @ [CHR 0x27] @ desc @ [CHR 0x27] @ ''.'']
          \<and> promptsSent (fst (handleSketchToImage_p000 jdS c' r))
              = [''Sketch to Image: interpret this sketch as '' @ [CHR 0x27] @ desc
                   @ [CHR 0x27] @ ''.''])
       \<and> (jdM (Body r) = Some (MagicEraserRequest img) \<longrightarrow>
            promptsSent (fst (handleMagicEraser jdM c r))
              = [''Remove the pink masked area and reconstruct the background.'']
          \<and> promptsSent (fst (handleMagicEraser_p000 jdM c' r))
              = [''Magic eraser: remove the pink masked area and reconstruct background.''])"
proof -
  note v = handleResize_valid handleSketchToImage_valid handleMagicEraser_valid
  have r2: "jdR (Body r) = Some (ResizeRequest img 2) \<longrightarrow>
            promptsSent (fst (handleResize jdR c r)) = [resizePrompt 2]
          \<and> promptsSent (fst (handleResize_p000 jdR c' r)) = [resizePrompt 2]"
    using assms by (auto simp: v promptsSent_relay)
  have r4: "jdR (Body r) = Some (ResizeRequest img 4) \<longrightarrow>
            promptsSent (fst (handleResize jdR c r)) = [resizePrompt 4]
          \<and> promptsSent (fst (handleResize_p000 jdR c' r)) = [resizePrompt 4]"
    using assms by (auto simp: v promptsSent_relay)
  have sk: "jdS (Body r) = Some (SketchToImageRequest img desc) \<and> desc \<noteq> [] \<longrightarrow>
            promptsSent (fst (handleSketchToImage jdS c r)) = [sketchPrompt desc]
          \<and> promptsSent (fst (handleSketchToImage_p000 jdS c' r)) = [sketchPrompt_p000 desc]"
    using assms by (auto simp: v promptsSent_relay)
  have er: "jdM (Body r) = Some (MagicEraserRequest img) \<longrightarrow>
            promptsSent (fst (handleMagicEraser jdM c r)) = [eraserPrompt]
          \<and> promptsSent (fst (handleMagicEraser_p000 jdM c' r)) = [eraserPrompt_p000]"
    using assms by (auto simp: v promptsSent_relay)
  have p2: "resizePrompt 2 = ''Resize this image by x2 preserving details.''"
    and p4: "resizePrompt 4 = ''Resize this image by x4 preserving details.''"
    by (simp_all add: resizePrompt_def fmt_d_2)
  show ?thesis
    using r2 r4 sk er unfolding p2 p4 sketchPrompt_def sketchPrompt_p000_def eraserPrompt_def
      eraserPrompt_p000_def
    by (simp only: append_Cons append_Nil)
qed

theorem prompt_synthesis_witness:
  "promptsSent (fst (handleResize_p000 jsonDecode_Resize_sample imagesJPEG
        (post ''{\"image_base64\":\"QUJD\",\"scale\":2}'')))
     = [''Resize this image by x2 preserving details.'']
   \<and> promptsSent (fst (handleResize jsonDecode_Resize_sample streamJPEG
        (post ''{\"image_base64\":\"QUJD\",\"scale\":4}'')))
     = [''Resize this image by x4 preserving details.'']
   \<and> promptsSent (fst (handleSketchToImage jsonDecode_SketchToImage_sample streamJPEG
        (post ''{\"image_base64\":\"QUJD\",\"description\":\"a cat\"}'')))
     = [''Interpret this sketch as '' @ [CHR 0x27] @ ''a cat'' @ [CHR 0x27] @ ''.'']
   \<and> promptsSent (fst (handleMagicEraser_p000 jsonDecode_MagicEraser_sample imagesJPEG
        (post ''{\"image_base64\":\"QUJD\"}'')))
     = [''Magic eraser: remove the pink masked area and reconstruct background.'']"
  using prompt_synthesis [OF _ validImage_samples(1),
      where r = "post ''{\"image_base64\":\"QUJD\",\"scale\":2}''"
      and jdR = jsonDecode_Resize_sample and c' = imagesJPEG]
    prompt_synthesis [OF _ validImage_samples(1),
      where r = "post ''{\"image_base64\":\"QUJD\",\"scale\":4}''"
      and jdR = jsonDecode_Resize_sample and c = streamJPEG]
    prompt_synthesis [OF _ validImage_samples(1),
      where r = "post ''{\"image_base64\":\"QUJD\",\"description\":\"a cat\"}''"
      and jdS = jsonDecode_SketchToImage_sample and desc = "''a cat''" and c = streamJPEG]
    prompt_synthesis [OF _ validImage_samples(1),
      where r = "post ''{\"image_base64\":\"QUJD\"}''"
      and jdM = jsonDecode_MagicEraser_sample and c' = imagesJPEG]
  by (simp add: post_simps sample_decodes)

text \<open>The sketch prompt of \<^verbatim>\<open>part_000\<close> is not the one \<^verbatim>\<open>main.go\<close> sends.\<close>

theorem sketch_prompt_p000_counterexample:
  "promptsSent (fst (handleSketchToImage_p000 jsonDecode_SketchToImage_sample imagesJPEG
        (post ''{\"image_base64\":\"QUJD\",\"description\":\"a cat\"}'')))
     = [''Sketch to Image: interpret this sketch as '' @ [CHR 0x27] @ ''a cat'' @ [CHR 0x27] @ ''.'']
   \<and> promptsSent (fst (handleSketchToImage_p000 jsonDecode_SketchToImage_sample imagesJPEG
        (post ''{\"image_base64\":\"QUJD\",\"description\":\"a cat\"}'')))
     \<noteq> [''Interpret this sketch as '' @ [CHR 0x27] @ ''a cat'' @ [CHR 0x27] @ ''.'']"
  by (simp add: handleSketchToImage_p000_def post_simps sample_decodes DecodeString_QUJD
      generateSingleImage_p000_def imagesJPEG_def promptsSent_def Let_def)



section \<open>Response shapes\<close>

lemma Header_Get_simps:
  "Header_Get (Header_Set k v []) k' = (if k' = k then Some v else None)"
  "Header_Get (Header_Set k2 v2 (Header_Set k v [])) k' =
     (if k' = k2 then Some v2 else if k' = k then Some v else None)"
  by (auto simp: Header_Get_def Header_Set_def update_conv')

lemma shapes_writeError:
  "\<not> is2xx code \<Longrightarrow>
     jsonErrorShape (writeError m code) \<and> \<not> imageShape (writeError m code)"
  by (auto simp: jsonErrorShape_def imageShape_def writeError_def is2xx_def)

lemma shapes_http_Error:
  "\<not> is2xx code \<Longrightarrow>
     textErrorShape (http_Error m code) \<and> \<not> imageShape (http_Error m code)
     \<and> \<not> jsonErrorShape (http_Error m code)"
  by (auto simp: jsonErrorShape_def imageShape_def textErrorShape_def http_Error_def is2xx_def
      Header_Get_simps bytesOf_def)

lemma shapes_writeImage:
  "imageShape (writeImage img mime) \<and> \<not> jsonErrorShape (writeImage img mime)"
  by (auto simp: jsonErrorShape_def imageShape_def writeImage_def is2xx_def StatusOK_def
      Header_Get_simps Let_def)

lemma shapes_writeImagePNG:
  "imageShape (writeImagePNG img) \<and> \<not> textErrorShape (writeImagePNG img)
   \<and> \<not> jsonErrorShape (writeImagePNG img)"
  by (auto simp: jsonErrorShape_def imageShape_def textErrorShape_def writeImagePNG_def
      is2xx_def StatusOK_def Header_Get_simps)

lemma is2xx_simps: "\<not> is2xx 400" "\<not> is2xx 405" "\<not> is2xx 500"
  by (simp_all add: is2xx_def)

lemma shapes_relay:
  "snd (relay l e c p) = Done resp \<Longrightarrow> exactlyOne (imageShape resp) (jsonErrorShape resp)"
  using shapes_writeError [OF is2xx_simps(3)] shapes_writeImage
  by (auto simp: relay_eq exactlyOne_def split: sum.splits outcome.splits)

lemma shapes_relay_p000:
  "snd (relay_p000 e c p) = Done resp \<Longrightarrow>
     exactlyOne (imageShape resp) (textErrorShape resp) \<and> \<not> jsonErrorShape resp"
  using shapes_http_Error [OF is2xx_simps(3)] shapes_writeImagePNG
  by (auto simp: relay_p000_eq exactlyOne_def split: sum.splits outcome.splits)

lemma handleTextToImage_cases:
  "earlyReply writeError (handleTextToImage jd c r)
   \<or> (\<exists>p. handleTextToImage jd c r
          = relay ''Error generating image: '' ''generation error: '' c p)"
  "earlyReply http_Error (handleTextToImage_p000 jd c' r)
   \<or> (\<exists>p. handleTextToImage_p000 jd c' r = relay_p000 ''generation error'' c' p)"
  by (auto simp: handleTextToImage_def handleTextToImage_p000_def earlyReply_def http_consts
      relay_def relay_p000_def split: option.splits)

lemma handleResize_cases:
  "earlyReply writeError (handleResize jd c r)
   \<or> (\<exists>p. handleResize jd c r = relay ''Error resizing image: '' ''resize error: '' c p)"
  "earlyReply http_Error (handleResize_p000 jd c' r)
   \<or> (\<exists>p. handleResize_p000 jd c' r = relay_p000 ''resize error'' c' p)"
  by (auto simp: handleResize_def handleResize_p000_def earlyReply_def http_consts
      relay_def relay_p000_def Let_def split: option.splits)

lemma handleSketchToImage_cases:
  "earlyReply writeError (handleSketchToImage jd c r)
   \<or> (\<exists>p. handleSketchToImage jd c r
          = relay ''Error converting sketch to image: '' ''sketch error: '' c p)"
  "earlyReply http_Error (handleSketchToImage_p000 jd c' r)
   \<or> (\<exists>p. handleSketchToImage_p000 jd c' r = relay_p000 ''sketch error'' c' p)"
  by (auto simp: handleSketchToImage_def handleSketchToImage_p000_def earlyReply_def
      http_consts relay_def relay_p000_def Let_def split: option.splits)

lemma handleMagicEraser_cases:
  "earlyReply writeError (handleMagicEraser jd c r)
   \<or> (\<exists>p. handleMagicEraser jd c r
          = relay ''Error with magic eraser: '' ''eraser error: '' c p)"
  "earlyReply http_Error (handleMagicEraser_p000 jd c' r)
   \<or> (\<exists>p. handleMagicEraser_p000 jd c' r = relay_p000 ''eraser error'' c' p)"
  by (auto simp: handleMagicEraser_def handleMagicEraser_p000_def earlyReply_def
      http_consts relay_def relay_p000_def Let_def split: option.splits)

lemma shapes_main:
  assumes "earlyReply writeError out \<or> (\<exists>p. out = relay l e c p)" and "snd out = Done resp"
  shows "exactlyOne (imageShape resp) (jsonErrorShape resp)"
  using assms shapes_relay [of l e c] shapes_writeError [OF is2xx_simps(1)]
    shapes_writeError [OF is2xx_simps(2)]
  by (auto simp: earlyReply_def exactlyOne_def)

lemma shapes_p000:
  assumes "earlyReply http_Error out \<or> (\<exists>p. out = relay_p000 e c p)" and "snd out = Done resp"
  shows "exactlyOne (imageShape resp) (textErrorShape resp) \<and> \<not> jsonErrorShape resp"
  using assms shapes_relay_p000 [of e c] shapes_http_Error [OF is2xx_simps(1)]
    shapes_http_Error [OF is2xx_simps(2)]
  by (auto simp: earlyReply_def exactlyOne_def)


section \<open>Upstream failures\<close>

lemma replyTo_promptOnly:
  "replyTo c (promptOnlyCall p)
     = c ''gemini-3-pro-image-preview''
         [Some \<lparr>Role = ''user'', Parts = [Some \<lparr>Text = p, InlineData = None\<rparr>]\<rparr>]
         \<lparr>ResponseModalities = [''IMAGE'', ''TEXT''], ImageConfig = Some \<lparr>ImageSize = ''1K''\<rparr>\<rparr>"
  "replyTo_p000 c' (promptOnlyCall_p000 p)
     = c' ''imagen-4.0-generate-001'' p \<lparr>NumberOfImages = 1\<rparr>"
  by (simp_all add: promptOnlyCall_def promptOnlyCall_p000_def)

lemma snd_generate_p000:
  "snd (generateSingleImage_p000 c' p) =
     (case replyTo_p000 c' (promptOnlyCall_p000 p) of
        Inl err \<Rightarrow> Done (Inl err)
      | Inr None \<Rightarrow> Panic
      | Inr (Some resp) \<Rightarrow>
          (case GeneratedImages resp of
             [] \<Rightarrow> Done (Inl ''no image returned'')
           | None # _ \<Rightarrow> Panic
           | Some g # _ \<Rightarrow>
               (case Image g of
                  None \<Rightarrow> Done (Inl ''no image returned'')
                | Some img \<Rightarrow> Done (Inr (ImageBytes img)))))"
  by (simp add: generateSingleImage_p000_def promptOnlyCall_p000_def modelName_p000_def Let_def)

lemma firstInlineData_no_payload:
  "List.map_filter partPayload ps = [] \<Longrightarrow>
     firstInlineData ps = (if list_all (\<lambda>part. part \<noteq> None) ps then Done None else Panic)"
  by (induction ps rule: firstInlineData.induct)
    (auto simp: partPayload_def split: option.splits)

lemma rangeStream_no_payload:
  "noInlinePayload stream \<Longrightarrow>
     rangeStream stream = (if nonNil stream then Done (Inl ''no image returned'') else Panic)"
proof (induction stream rule: rangeStream.induct)
  case 1
  show ?case by (simp add: nonNil_def)
next
  case (2 err rest)
  then show ?case by (simp add: noInlinePayload_def)
next
  case (3 rest)
  show ?case by (simp add: nonNil_def nonNilResult_def)
next
  case (4 result rest)
  from "4.prems" have rest: "noInlinePayload rest" by (simp add: noInlinePayload_def)
  show ?case
  proof (cases "Candidates result")
    case Nil
    then show ?thesis using "4.IH"(1) rest by (simp add: nonNil_def nonNilResult_def)
  next
    case (Cons cand cands)
    show ?thesis
    proof (cases cand)
      case None
      then show ?thesis using Cons by (simp add: nonNil_def nonNilResult_def)
    next
      case cs: (Some candidate)
      show ?thesis
      proof (cases "Content candidate")
        case None
        then show ?thesis using Cons cs "4.IH"(2) rest by (simp add: nonNil_def nonNilResult_def)
      next
        case (Some content)
        have "List.map_filter partPayload (Parts content) = []"
          using "4.prems" Cons cs Some by (simp add: noInlinePayload_def)
        then have f: "firstInlineData (Parts content)
            = (if list_all (\<lambda>part. part \<noteq> None) (Parts content) then Done None else Panic)"
          by (rule firstInlineData_no_payload)
        show ?thesis
        proof (cases "Parts content = []")
          case True
          then show ?thesis using Cons cs Some "4.IH"(3) rest
            by (simp add: nonNil_def nonNilResult_def)
        next
          case False
          show ?thesis
          proof (cases "list_all (\<lambda>part. part \<noteq> None) (Parts content)")
            case True
            then show ?thesis using Cons cs Some f False "4.IH"(4) rest
              by (simp add: nonNil_def nonNilResult_def)
          next
            case nil: False
            then show ?thesis using Cons cs Some f False
              by (simp add: nonNil_def nonNilResult_def)
          qed
        qed
      qed
    qed
  qed
qed

lemma generate_no_payload:
  "noInlinePayload (replyTo c (promptOnlyCall p)) \<Longrightarrow>
     snd (generateSingleImage c p)
       = (if nonNil (replyTo c (promptOnlyCall p)) then Done (Inl ''no image returned'')
          else Panic)"
  by (simp add: snd_generate rangeStream_no_payload)

lemma generate_no_image_p000:
  "noImage_p000 (replyTo_p000 c' (promptOnlyCall_p000 p)) \<Longrightarrow>
     snd (generateSingleImage_p000 c' p)
       = (if nonNil_p000 (replyTo_p000 c' (promptOnlyCall_p000 p))
          then Done (Inl ''no image returned'') else Panic)"
  by (auto simp: snd_generate_p000 noImage_p000_def nonNil_p000_def
      split: sum.splits list.splits option.splits)

lemma relay_failure:
  "snd (generateSingleImage c p) = Done (Inl err) \<Longrightarrow>
     relay l e c p
       = ([DecodeBody, promptOnlyCall p, LogPrintf (l @ err)], Done (writeError (e @ err) 500))"
  "snd (generateSingleImage_p000 c' p) = Done (Inl err) \<Longrightarrow>
     relay_p000 e' c' p = ([DecodeBody, promptOnlyCall_p000 p], Done (http_Error e' 500))"
  by (simp_all add: relay_eq relay_p000_eq)

lemma relay_no_image:
  "noInlinePayload (replyTo c (promptOnlyCall p)) \<Longrightarrow>
     relay l e c p
       = (if nonNil (replyTo c (promptOnlyCall p)) then
            ([DecodeBody, promptOnlyCall p, LogPrintf (l @ ''no image returned'')],
             Done (writeError (e @ ''no image returned'') 500))
          else ([DecodeBody, promptOnlyCall p], Panic))"
  "noImage_p000 (replyTo_p000 c' (promptOnlyCall_p000 p)) \<Longrightarrow>
     relay_p000 e' c' p
       = (if nonNil_p000 (replyTo_p000 c' (promptOnlyCall_p000 p)) then
            ([DecodeBody, promptOnlyCall_p000 p], Done (http_Error e' 500))
          else ([DecodeBody, promptOnlyCall_p000 p], Panic))"
  by (simp_all add: relay_eq relay_p000_eq generate_no_payload generate_no_image_p000)

text \<open>
  \<^bold>\<open>C5.\<close> Take a valid request, and let the upstream reply to the one call the handler
  makes for it be no error and hold no image: for \<^verbatim>\<open>main.go\<close>, no streamed result has an
  inline payload among the parts of its first candidate, as in a stream with no inline
  payload at all; for \<^verbatim>\<open>part_000\<close>, no first generated image. Nothing is asked of the
  client's replies to other calls.

  If, in that reply, the pointers the program follows without a test are not nil (each
  streamed result, its first candidate and the parts of that candidate's content; the
  response of \<^verbatim>\<open>GenerateImages\<close> and the first entry of its list), then
  \<^verbatim>\<open>generateSingleImage\<close> returns the error \<open>no image returned\<close> and the endpoint answers
  with status 500. In \<^verbatim>\<open>main.go\<close> the error is logged with the endpoint's log prefix and
  the body is JSON, \<open>{"error": message}\<close> with the endpoint's prefix followed by
  \<open>no image returned\<close> as message; in \<^verbatim>\<open>part_000\<close> nothing is logged and the body is the
  endpoint's fixed message and a newline as plain text.

  If one of these pointers is nil, \<^verbatim>\<open>generateSingleImage\<close> panics instead, and the
  handler has made its upstream call and writes no response at all.
\<close>

theorem no_image_500:
  "(noInlinePayload (replyTo c (promptOnlyCall p)) \<longrightarrow>
      snd (generateSingleImage c p)
        = (if nonNil (replyTo c (promptOnlyCall p)) then Done (Inl ''no image returned'')
           else Panic))
   \<and> (noImage_p000 (replyTo_p000 c' (promptOnlyCall_p000 p)) \<longrightarrow>
      snd (generateSingleImage_p000 c' p)
        = (if nonNil_p000 (replyTo_p000 c' (promptOnlyCall_p000 p))
           then Done (Inl ''no image returned'') else Panic))
   \<and> (Method r = MethodPost \<and> jdT (Body r) = Some (TextToImageRequest q) \<and> q \<noteq> [] \<longrightarrow>
        (noInlinePayload (replyTo c (promptOnlyCall q)) \<longrightarrow>
           handleTextToImage jdT c r
             = (if nonNil (replyTo c (promptOnlyCall q)) then
                  ([DecodeBody, promptOnlyCall q,
                    LogPrintf ''Error generating image: no image returned''],
                   Done \<lparr>Header = [(''Content-Type'', ''application/json'')],
                         StatusCode = 500,
                         Written = JSONEncoded
                           [(''error'', ''generation error: no image returned'')]\<rparr>)
                else ([DecodeBody, promptOnlyCall q], Panic)))
      \<and> (noImage_p000 (replyTo_p000 c' (promptOnlyCall_p000 q)) \<longrightarrow>
           handleTextToImage_p000 jdT c' r
             = (if nonNil_p000 (replyTo_p000 c' (promptOnlyCall_p000 q)) then
                  ([DecodeBody, promptOnlyCall_p000 q],
                   Done \<lparr>Header = [(''Content-Type'', ''text/plain; charset=utf-8''),
                                   (''X-Content-Type-Options'', ''nosniff'')],
                         StatusCode = 500,
                         Written = Bytes (bytesOf (''generation error'' @ [CHR 0x0A]))\<rparr>)
                else ([DecodeBody, promptOnlyCall_p000 q], Panic))))
   \<and> (Method r = MethodPost \<and> jdR (Body r) = Some (ResizeRequest img scale)
        \<and> validImage img \<and> (scale = 2 \<or> scale = 4) \<longrightarrow>
        (noInlinePayload (replyTo c (promptOnlyCall (resizePrompt scale))) \<longrightarrow>
           handleResize jdR c r
             = (if nonNil (replyTo c (promptOnlyCall (resizePrompt scale))) then
                  ([DecodeBody, promptOnlyCall (resizePrompt scale),
                    LogPrintf ''Error resizing image: no image returned''],
                   Done \<lparr>Header = [(''Content-Type'', ''application/json'')],
                         StatusCode = 500,
                         Written = JSONEncoded
                           [(''error'', ''resize error: no image returned'')]\<rparr>)
                else ([DecodeBody, promptOnlyCall (resizePrompt scale)], Panic)))
      \<and> (noImage_p000 (replyTo_p000 c' (promptOnlyCall_p000 (resizePrompt scale))) \<longrightarrow>
           handleResize_p000 jdR c' r
             = (if nonNil_p000 (replyTo_p000 c' (promptOnlyCall_p000 (resizePrompt scale))) then
                  ([DecodeBody, promptOnlyCall_p000 (resizePrompt scale)],
                   Done \<lparr>Header = [(''Content-Type'', ''text/plain; charset=utf-8''),
                                   (''X-Content-Type-Options'', ''nosniff'')],
                         StatusCode = 500,
                         Written = Bytes (bytesOf (''resize error'' @ [CHR 0x0A]))\<rparr>)
                else ([DecodeBody, promptOnlyCall_p000 (resizePrompt scale)], Panic))))
   \<and> (Method r = MethodPost \<and> jdS (Body r) = Some (SketchToImageRequest img desc)
        \<and> validImage img \<and> desc \<noteq> [] \<longrightarrow>
        (noInlinePayload (replyTo c (promptOnlyCall (sketchPrompt desc))) \<longrightarrow>
           handleSketchToImage jdS c r
             = (if nonNil (replyTo c (promptOnlyCall (sketchPrompt desc))) then
                  ([DecodeBody, promptOnlyCall (sketchPrompt desc),
                    LogPrintf ''Error converting sketch to image: no image returned''],
                   Done \<lparr>Header = [(''Content-Type'', ''application/json'')],
                         StatusCode = 500,
                         Written = JSONEncoded
                           [(''error'', ''sketch error: no image returned'')]\<rparr>)
                else ([DecodeBody, promptOnlyCall (sketchPrompt desc)], Panic)))
      \<and> (noImage_p000 (replyTo_p000 c' (promptOnlyCall_p000 (sketchPrompt_p000 desc))) \<longrightarrow>
           handleSketchToImage_p000 jdS c' r
             = (if nonNil_p000 (replyTo_p000 c' (promptOnlyCall_p000 (sketchPrompt_p000 desc)))
                then
                  ([DecodeBody, promptOnlyCall_p000 (sketchPrompt_p000 desc)],
                   Done \<lparr>Header = [(''Content-Type'', ''text/plain; charset=utf-8''),
                                   (''X-Content-Type-Options'', ''nosniff'')],
                         StatusCode = 500,
                         Written = Bytes (bytesOf (''sketch error'' @ [CHR 0x0A]))\<rparr>)
                else ([DecodeBody, promptOnlyCall_p000 (sketchPrompt_p000 desc)], Panic))))
   \<and> (Method r = MethodPost \<and> jdM (Body r) = Some (MagicEraserRequest img)
        \<and> validImage img \<longrightarrow>
        (noInlinePayload (replyTo c (promptOnlyCall eraserPrompt)) \<longrightarrow>
           handleMagicEraser jdM c r
             = (if nonNil (replyTo c (promptOnlyCall eraserPrompt)) then
                  ([DecodeBody, promptOnlyCall eraserPrompt,
                    LogPrintf ''Error with magic eraser: no image returned''],
                   Done \<lparr>Header = [(''Content-Type'', ''application/json'')],
                         StatusCode = 500,
                         Written = JSONEncoded
                           [(''error'', ''eraser error: no image returned'')]\<rparr>)
                else ([DecodeBody, promptOnlyCall eraserPrompt], Panic)))
      \<and> (noImage_p000 (replyTo_p000 c' (promptOnlyCall_p000 eraserPrompt_p000)) \<longrightarrow>
           handleMagicEraser_p000 jdM c' r
             = (if nonNil_p000 (replyTo_p000 c' (promptOnlyCall_p000 eraserPrompt_p000)) then
                  ([DecodeBody, promptOnlyCall_p000 eraserPrompt_p000],
                   Done \<lparr>Header = [(''Content-Type'', ''text/plain; charset=utf-8''),
                                   (''X-Content-Type-Options'', ''nosniff'')],
                         StatusCode = 500,
                         Written = Bytes (bytesOf (''eraser error'' @ [CHR 0x0A]))\<rparr>)
                else ([DecodeBody, promptOnlyCall_p000 eraserPrompt_p000], Panic))))"
proof -
  note f = relay_no_image writeError_eq http_Error_eq
  have g: "noInlinePayload (replyTo c (promptOnlyCall p)) \<longrightarrow>
      snd (generateSingleImage c p)
        = (if nonNil (replyTo c (promptOnlyCall p)) then Done (Inl ''no image returned'')
           else Panic)"
    by (simp add: generate_no_payload)
  have g': "noImage_p000 (replyTo_p000 c' (promptOnlyCall_p000 p)) \<longrightarrow>
      snd (generateSingleImage_p000 c' p)
        = (if nonNil_p000 (replyTo_p000 c' (promptOnlyCall_p000 p))
           then Done (Inl ''no image returned'') else Panic)"
    by (simp add: generate_no_image_p000)
  have t: "Method r = MethodPost \<and> jdT (Body r) = Some (TextToImageRequest q) \<and> q \<noteq> [] \<longrightarrow>
        (noInlinePayload (replyTo c (promptOnlyCall q)) \<longrightarrow>
           handleTextToImage jdT c r
             = (if nonNil (replyTo c (promptOnlyCall q)) then
                  ([DecodeBody, promptOnlyCall q,
                    LogPrintf ''Error generating image: no image returned''],
                   Done \<lparr>Header = [(''Content-Type'', ''application/json'')],
                         StatusCode = 500,
                         Written = JSONEncoded
                           [(''error'', ''generation error: no image returned'')]\<rparr>)
                else ([DecodeBody, promptOnlyCall q], Panic)))
      \<and> (noImage_p000 (replyTo_p000 c' (promptOnlyCall_p000 q)) \<longrightarrow>
           handleTextToImage_p000 jdT c' r
             = (if nonNil_p000 (replyTo_p000 c' (promptOnlyCall_p000 q)) then
                  ([DecodeBody, promptOnlyCall_p000 q],
                   Done \<lparr>Header = [(''Content-Type'', ''text/plain; charset=utf-8''),
                                   (''X-Content-Type-Options'', ''nosniff'')],
                         StatusCode = 500,
                         Written = Bytes (bytesOf (''generation error'' @ [CHR 0x0A]))\<rparr>)
                else ([DecodeBody, promptOnlyCall_p000 q], Panic)))"
    by (simp add: handleTextToImage_valid f)
  have rz: "Method r = MethodPost \<and> jdR (Body r) = Some (ResizeRequest img scale)
        \<and> validImage img \<and> (scale = 2 \<or> scale = 4) \<longrightarrow>
        (noInlinePayload (replyTo c (promptOnlyCall (resizePrompt scale))) \<longrightarrow>
           handleResize jdR c r
             = (if nonNil (replyTo c (promptOnlyCall (resizePrompt scale))) then
                  ([DecodeBody, promptOnlyCall (resizePrompt scale),
                    LogPrintf ''Error resizing image: no image returned''],
                   Done \<lparr>Header = [(''Content-Type'', ''application/json'')],
                         StatusCode = 500,
                         Written = JSONEncoded
                           [(''error'', ''resize error: no image returned'')]\<rparr>)
                else ([DecodeBody, promptOnlyCall (resizePrompt scale)], Panic)))
      \<and> (noImage_p000 (replyTo_p000 c' (promptOnlyCall_p000 (resizePrompt scale))) \<longrightarrow>
           handleResize_p000 jdR c' r
             = (if nonNil_p000 (replyTo_p000 c' (promptOnlyCall_p000 (resizePrompt scale))) then
                  ([DecodeBody, promptOnlyCall_p000 (resizePrompt scale)],
                   Done \<lparr>Header = [(''Content-Type'', ''text/plain; charset=utf-8''),
                                   (''X-Content-Type-Options'', ''nosniff'')],
                         StatusCode = 500,
                         Written = Bytes (bytesOf (''resize error'' @ [CHR 0x0A]))\<rparr>)
                else ([DecodeBody, promptOnlyCall_p000 (resizePrompt scale)], Panic)))"
    by (simp add: handleResize_valid f)
  have sk: "Method r = MethodPost \<and> jdS (Body r) = Some (SketchToImageRequest img desc)
        \<and> validImage img \<and> desc \<noteq> [] \<longrightarrow>
        (noInlinePayload (replyTo c (promptOnlyCall (sketchPrompt desc))) \<longrightarrow>
           handleSketchToImage jdS c r
             = (if nonNil (replyTo c (promptOnlyCall (sketchPrompt desc))) then
                  ([DecodeBody, promptOnlyCall (sketchPrompt desc),
                    LogPrintf ''Error converting sketch to image: no image returned''],
                   Done \<lparr>Header = [(''Content-Type'', ''application/json'')],
                         StatusCode = 500,
                         Written = JSONEncoded
                           [(''error'', ''sketch error: no image returned'')]\<rparr>)
                else ([DecodeBody, promptOnlyCall (sketchPrompt desc)], Panic)))
      \<and> (noImage_p000 (replyTo_p000 c' (promptOnlyCall_p000 (sketchPrompt_p000 desc))) \<longrightarrow>
           handleSketchToImage_p000 jdS c' r
             = (if nonNil_p000 (replyTo_p000 c' (promptOnlyCall_p000 (sketchPrompt_p000 desc)))
                then
                  ([DecodeBody, promptOnlyCall_p000 (sketchPrompt_p000 desc)],
                   Done \<lparr>Header = [(''Content-Type'', ''text/plain; charset=utf-8''),
                                   (''X-Content-Type-Options'', ''nosniff'')],
                         StatusCode = 500,
                         Written = Bytes (bytesOf (''sketch error'' @ [CHR 0x0A]))\<rparr>)
                else ([DecodeBody, promptOnlyCall_p000 (sketchPrompt_p000 desc)], Panic)))"
    by (simp add: handleSketchToImage_valid f)
  have er: "Method r = MethodPost \<and> jdM (Body r) = Some (MagicEraserRequest img)
        \<and> validImage img \<longrightarrow>
        (noInlinePayload (replyTo c (promptOnlyCall eraserPrompt)) \<longrightarrow>
           handleMagicEraser jdM c r
             = (if nonNil (replyTo c (promptOnlyCall eraserPrompt)) then
                  ([DecodeBody, promptOnlyCall eraserPrompt,
                    LogPrintf ''Error with magic eraser: no image returned''],
                   Done \<lparr>Header = [(''Content-Type'', ''application/json'')],
                         StatusCode = 500,
                         Written = JSONEncoded
                           [(''error'', ''eraser error: no image returned'')]\<rparr>)
                else ([DecodeBody, promptOnlyCall eraserPrompt], Panic)))
      \<and> (noImage_p000 (replyTo_p000 c' (promptOnlyCall_p000 eraserPrompt_p000)) \<longrightarrow>
           handleMagicEraser_p000 jdM c' r
             = (if nonNil_p000 (replyTo_p000 c' (promptOnlyCall_p000 eraserPrompt_p000)) then
                  ([DecodeBody, promptOnlyCall_p000 eraserPrompt_p000],
                   Done \<lparr>Header = [(''Content-Type'', ''text/plain; charset=utf-8''),
                                   (''X-Content-Type-Options'', ''nosniff'')],
                         StatusCode = 500,
                         Written = Bytes (bytesOf (''eraser error'' @ [CHR 0x0A]))\<rparr>)
                else ([DecodeBody, promptOnlyCall_p000 eraserPrompt_p000], Panic)))"
    by (simp add: handleMagicEraser_valid f)
  show ?thesis
    by (intro conjI g g' t rz sk er)
qed

lemma stub_no_image:
  "noInlinePayload (streamTextOnly m cs cfg)" "nonNil (streamTextOnly m cs cfg)"
  "noInlinePayload (streamNullPart m cs cfg)" "\<not> nonNil (streamNullPart m cs cfg)"
  "noImage_p000 (imagesNone m p cfg')" "nonNil_p000 (imagesNone m p cfg')"
  "noImage_p000 (imagesNull m p cfg')" "\<not> nonNil_p000 (imagesNull m p cfg')"
  by (simp_all add: noInlinePayload_def nonNil_def nonNilResult_def streamTextOnly_def
      streamNullPart_def chunk_def textPart_def partPayload_def noImage_p000_def
      nonNil_p000_def imagesNone_def imagesNull_def)

lemma stub_picky:
  "replyTo streamPicky (promptOnlyCall ''a red kite'')
     = [Inr (Some \<lparr>Candidates = []\<rparr>), chunk [Some textPart], chunk []]"
  "replyTo streamPicky (promptOnlyCall ''a blue kite'') = replyTo streamJPEG (promptOnlyCall [])"
  "replyTo_p000 imagesPicky (promptOnlyCall_p000 ''a red kite'')
     = Inr (Some \<lparr>GeneratedImages = []\<rparr>)"
  "replyTo_p000 imagesPicky (promptOnlyCall_p000 ''a blue kite'')
     = replyTo_p000 imagesJPEG (promptOnlyCall_p000 [])"
  by (simp_all add: replyTo_promptOnly streamPicky_def streamTextOnly_def streamJPEG_def
      imagesPicky_def imagesNone_def imagesJPEG_def)

lemma stub_picky_no_image:
  "noInlinePayload (replyTo streamPicky (promptOnlyCall ''a red kite''))"
  "nonNil (replyTo streamPicky (promptOnlyCall ''a red kite''))"
  "\<not> noInlinePayload (replyTo streamPicky (promptOnlyCall ''a blue kite''))"
  "noImage_p000 (replyTo_p000 imagesPicky (promptOnlyCall_p000 ''a red kite''))"
  "nonNil_p000 (replyTo_p000 imagesPicky (promptOnlyCall_p000 ''a red kite''))"
  "\<not> noImage_p000 (replyTo_p000 imagesPicky (promptOnlyCall_p000 ''a blue kite''))"
  unfolding stub_picky
  by (simp_all add: replyTo_promptOnly noInlinePayload_def nonNil_def
      nonNilResult_def chunk_def textPart_def partPayload_def streamJPEG_def noImage_p000_def
      nonNil_p000_def imagesJPEG_def)

theorem no_image_500_witness:
  "noInlinePayload (replyTo streamPicky (promptOnlyCall ''a red kite''))
   \<and> nonNil (replyTo streamPicky (promptOnlyCall ''a red kite''))
   \<and> \<not> noInlinePayload (replyTo streamPicky (promptOnlyCall ''a blue kite''))
   \<and> snd (generateSingleImage streamPicky ''a red kite'') = Done (Inl ''no image returned'')
   \<and> snd (generateSingleImage_p000 imagesPicky ''a red kite'') = Done (Inl ''no image returned'')
   \<and> handleTextToImage jsonDecode_TextToImage_sample streamPicky
        (post ''{\"prompt\":\"a red kite\"}'')
     = ([DecodeBody, promptOnlyCall ''a red kite'',
         LogPrintf ''Error generating image: no image returned''],
        Done \<lparr>Header = [(''Content-Type'', ''application/json'')],
              StatusCode = 500,
              Written = JSONEncoded [(''error'', ''generation error: no image returned'')]\<rparr>)
   \<and> handleSketchToImage jsonDecode_SketchToImage_sample streamTextOnly
        (post ''{\"image_base64\":\"QUJD\",\"description\":\"a cat\"}'')
     = ([DecodeBody, promptOnlyCall (sketchPrompt ''a cat''),
         LogPrintf ''Error converting sketch to image: no image returned''],
        Done \<lparr>Header = [(''Content-Type'', ''application/json'')],
              StatusCode = 500,
              Written = JSONEncoded [(''error'', ''sketch error: no image returned'')]\<rparr>)
   \<and> handleResize jsonDecode_Resize_sample streamNullPart
        (post ''{\"image_base64\":\"QUJD\",\"scale\":2}'')
     = ([DecodeBody, promptOnlyCall (resizePrompt 2)], Panic)
   \<and> handleResize_p000 jsonDecode_Resize_sample imagesNone
        (post ''{\"image_base64\":\"QUJD\",\"scale\":2}'')
     = ([DecodeBody, promptOnlyCall_p000 (resizePrompt 2)],
        Done \<lparr>Header = [(''Content-Type'', ''text/plain; charset=utf-8''),
                        (''X-Content-Type-Options'', ''nosniff'')],
              StatusCode = 500,
              Written = Bytes (bytesOf (''resize error'' @ [CHR 0x0A]))\<rparr>)
   \<and> handleMagicEraser_p000 jsonDecode_MagicEraser_sample imagesNull
        (post ''{\"image_base64\":\"QUJD\"}'')
     = ([DecodeBody, promptOnlyCall_p000 eraserPrompt_p000], Panic)"
proof -
  note inst = no_image_500 [where p = "''a red kite''"
      and jdT = jsonDecode_TextToImage_sample and jdR = jsonDecode_Resize_sample
      and jdS = jsonDecode_SketchToImage_sample and jdM = jsonDecode_MagicEraser_sample
      and q = "''a red kite''" and img = "''QUJD''" and scale = 2 and desc = "''a cat''"]
  note ev = post_simps sample_decodes validImage_samples replyTo_promptOnly stub_no_image
  have a: "snd (generateSingleImage streamPicky ''a red kite'') = Done (Inl ''no image returned'')
      \<and> snd (generateSingleImage_p000 imagesPicky ''a red kite'')
          = Done (Inl ''no image returned'')"
    using inst [where c = streamPicky and c' = imagesPicky] stub_picky_no_image by simp
  have b: "handleTextToImage jsonDecode_TextToImage_sample streamPicky
        (post ''{\"prompt\":\"a red kite\"}'')
     = ([DecodeBody, promptOnlyCall ''a red kite'',
         LogPrintf ''Error generating image: no image returned''],
        Done \<lparr>Header = [(''Content-Type'', ''application/json'')],
              StatusCode = 500,
              Written = JSONEncoded [(''error'', ''generation error: no image returned'')]\<rparr>)"
    using inst [where c = streamPicky and c' = imagesPicky
        and r = "post ''{\"prompt\":\"a red kite\"}''"] stub_picky_no_image
    by (simp add: post_simps sample_decodes)
  have c: "handleSketchToImage jsonDecode_SketchToImage_sample streamTextOnly
        (post ''{\"image_base64\":\"QUJD\",\"description\":\"a cat\"}'')
     = ([DecodeBody, promptOnlyCall (sketchPrompt ''a cat''),
         LogPrintf ''Error converting sketch to image: no image returned''],
        Done \<lparr>Header = [(''Content-Type'', ''application/json'')],
              StatusCode = 500,
              Written = JSONEncoded [(''error'', ''sketch error: no image returned'')]\<rparr>)"
    using inst [where c = streamTextOnly and c' = imagesNone
        and r = "post ''{\"image_base64\":\"QUJD\",\"description\":\"a cat\"}''"]
    by (simp add: ev)
  have d: "handleResize jsonDecode_Resize_sample streamNullPart
        (post ''{\"image_base64\":\"QUJD\",\"scale\":2}'')
     = ([DecodeBody, promptOnlyCall (resizePrompt 2)], Panic)"
    using inst [where c = streamNullPart and c' = imagesNone
        and r = "post ''{\"image_base64\":\"QUJD\",\"scale\":2}''"]
    by (simp add: ev)
  have e: "handleResize_p000 jsonDecode_Resize_sample imagesNone
        (post ''{\"image_base64\":\"QUJD\",\"scale\":2}'')
     = ([DecodeBody, promptOnlyCall_p000 (resizePrompt 2)],
        Done \<lparr>Header = [(''Content-Type'', ''text/plain; charset=utf-8''),
                        (''X-Content-Type-Options'', ''nosniff'')],
              StatusCode = 500,
              Written = Bytes (bytesOf (''resize error'' @ [CHR 0x0A]))\<rparr>)"
    using inst [where c = streamTextOnly and c' = imagesNone
        and r = "post ''{\"image_base64\":\"QUJD\",\"scale\":2}''"]
    by (simp add: ev)
  have f: "handleMagicEraser_p000 jsonDecode_MagicEraser_sample imagesNull
        (post ''{\"image_base64\":\"QUJD\"}'')
     = ([DecodeBody, promptOnlyCall_p000 eraserPrompt_p000], Panic)"
    using inst [where c = streamTextOnly and c' = imagesNull
        and r = "post ''{\"image_base64\":\"QUJD\"}''"]
    by (simp add: ev)
  show ?thesis using a b c d e f stub_picky_no_image by simp
qed

text \<open>With no image from upstream, \<^verbatim>\<open>/text-to-image\<close> of \<^verbatim>\<open>part_000\<close> answers 500 in
  plain text, not in JSON.\<close>

theorem no_image_plain_text_counterexample:
  "snd (handleTextToImage_p000 jsonDecode_TextToImage_sample imagesNone
          (post ''{\"prompt\":\"a red kite\"}''))
     = Done \<lparr>Header = [(''Content-Type'', ''text/plain; charset=utf-8''),
                       (''X-Content-Type-Options'', ''nosniff'')],
             StatusCode = 500,
             Written = Bytes (bytesOf (''generation error'' @ [CHR 0x0A]))\<rparr>
   \<and> \<not> jsonErrorShape
         \<lparr>Header = [(''Content-Type'', ''text/plain; charset=utf-8''),
                    (''X-Content-Type-Options'', ''nosniff'')],
          StatusCode = 500,
          Written = Bytes (bytesOf (''generation error'' @ [CHR 0x0A]))\<rparr>"
  by (simp add: handleTextToImage_p000_def post_simps sample_decodes generateSingleImage_p000_def
      imagesNone_def Let_def http_Error_def Header_Set_def StatusInternalServerError_def
      jsonErrorShape_def)

text \<open>
  \<^bold>\<open>C6.\<close> When the upstream call of a valid request fails with the error \<open>err\<close> (the
  call's own error, or \<open>no image returned\<close>), \<^verbatim>\<open>main.go\<close> logs the error with the
  endpoint's log prefix and answers 500 with the endpoint's short prefix followed by
  the text of \<open>err\<close> itself; \<^verbatim>\<open>part_000\<close> answers 500 with the endpoint's fixed
  message, the same for every \<open>err\<close>, and logs nothing. The message is the value of the
  key \<open>error\<close> of the JSON body in \<^verbatim>\<open>main.go\<close>, and the body's text before its final
  newline in \<^verbatim>\<open>part_000\<close>.
\<close>

theorem upstream_failure_reply:
  "(Method r = MethodPost \<and> jdT (Body r) = Some (TextToImageRequest q) \<and> q \<noteq> [] \<longrightarrow>
      (snd (generateSingleImage c q) = Done (Inl err) \<longrightarrow>
         handleTextToImage jdT c r
           = ([DecodeBody, promptOnlyCall q, LogPrintf (''Error generating image: '' @ err)],
              Done (writeError (''generation error: '' @ err) 500)))
    \<and> (snd (generateSingleImage_p000 c' q) = Done (Inl err) \<longrightarrow>
         handleTextToImage_p000 jdT c' r
           = ([DecodeBody, promptOnlyCall_p000 q], Done (http_Error ''generation error'' 500))))
   \<and> (Method r = MethodPost \<and> jdR (Body r) = Some (ResizeRequest img scale)
        \<and> validImage img \<and> (scale = 2 \<or> scale = 4) \<longrightarrow>
      (snd (generateSingleImage c (resizePrompt scale)) = Done (Inl err) \<longrightarrow>
         handleResize jdR c r
           = ([DecodeBody, promptOnlyCall (resizePrompt scale),
               LogPrintf (''Error resizing image: '' @ err)],
              Done (writeError (''resize error: '' @ err) 500)))
    \<and> (snd (generateSingleImage_p000 c' (resizePrompt scale)) = Done (Inl err) \<longrightarrow>
         handleResize_p000 jdR c' r
           = ([DecodeBody, promptOnlyCall_p000 (resizePrompt scale)],
              Done (http_Error ''resize error'' 500))))
   \<and> (Method r = MethodPost \<and> jdS (Body r) = Some (SketchToImageRequest img desc)
        \<and> validImage img \<and> desc \<noteq> [] \<longrightarrow>
      (snd (generateSingleImage c (sketchPrompt desc)) = Done (Inl err) \<longrightarrow>
         handleSketchToImage jdS c r
           = ([DecodeBody, promptOnlyCall (sketchPrompt desc),
               LogPrintf (''Error converting sketch to image: '' @ err)],
              Done (writeError (''sketch error: '' @ err) 500)))
    \<and> (snd (generateSingleImage_p000 c' (sketchPrompt_p000 desc)) = Done (Inl err) \<longrightarrow>
         handleSketchToImage_p000 jdS c' r
           = ([DecodeBody, promptOnlyCall_p000 (sketchPrompt_p000 desc)],
              Done (http_Error ''sketch error'' 500))))
   \<and> (Method r = MethodPost \<and> jdM (Body r) = Some (MagicEraserRequest img)
        \<and> validImage img \<longrightarrow>
      (snd (generateSingleImage c eraserPrompt) = Done (Inl err) \<longrightarrow>
         handleMagicEraser jdM c r
           = ([DecodeBody, promptOnlyCall eraserPrompt,
               LogPrintf (''Error with magic eraser: '' @ err)],
              Done (writeError (''eraser error: '' @ err) 500)))
    \<and> (snd (generateSingleImage_p000 c' eraserPrompt_p000) = Done (Inl err) \<longrightarrow>
         handleMagicEraser_p000 jdM c' r
           = ([DecodeBody, promptOnlyCall_p000 eraserPrompt_p000],
              Done (http_Error ''eraser error'' 500))))
   \<and> writeError message 500
       = \<lparr>Header = [(''Content-Type'', ''application/json'')], StatusCode = 500,
          Written = JSONEncoded [(''error'', message)]\<rparr>
   \<and> http_Error message 500
       = \<lparr>Header = [(''Content-Type'', ''text/plain; charset=utf-8''),
                    (''X-Content-Type-Options'', ''nosniff'')],
          StatusCode = 500,
          Written = Bytes (bytesOf (message @ [CHR 0x0A]))\<rparr>"
  by (auto simp: handleTextToImage_valid handleResize_valid handleSketchToImage_valid
      handleMagicEraser_valid relay_failure writeError_eq http_Error_eq)

lemma generate_streamFails:
  "snd (generateSingleImage streamFails p)
     = Done (Inl ''Error 403, Message: API key AIza-1234 is not valid'')"
  by (simp add: generateSingleImage_def streamFails_def Let_def)

lemma generate_imagesFails:
  "snd (generateSingleImage_p000 imagesFails p)
     = Done (Inl ''Error 403, Message: API key AIza-1234 is not valid'')"
  by (simp add: generateSingleImage_p000_def imagesFails_def Let_def)

theorem upstream_failure_reply_witness:
  "handleTextToImage jsonDecode_TextToImage_sample streamFails
       (post ''{\"prompt\":\"a red kite\"}'')
     = ([DecodeBody, promptOnlyCall ''a red kite'',
         LogPrintf (''Error generating image: ''
                      @ ''Error 403, Message: API key AIza-1234 is not valid'')],
        Done (writeError (''generation error: ''
                      @ ''Error 403, Message: API key AIza-1234 is not valid'') 500))
   \<and> handleTextToImage_p000 jsonDecode_TextToImage_sample imagesFails
       (post ''{\"prompt\":\"a red kite\"}'')
     = ([DecodeBody, promptOnlyCall_p000 ''a red kite''],
        Done (http_Error ''generation error'' 500))
   \<and> handleResize jsonDecode_Resize_sample streamFails
       (post ''{\"image_base64\":\"QUJD\",\"scale\":2}'')
     = ([DecodeBody, promptOnlyCall ''Resize this image by x2 preserving details.'',
         LogPrintf (''Error resizing image: ''
                      @ ''Error 403, Message: API key AIza-1234 is not valid'')],
        Done (writeError (''resize error: ''
                      @ ''Error 403, Message: API key AIza-1234 is not valid'') 500))
   \<and> handleSketchToImage_p000 jsonDecode_SketchToImage_sample imagesFails
       (post ''{\"image_base64\":\"QUJD\",\"description\":\"a cat\"}'')
     = ([DecodeBody, promptOnlyCall_p000 (sketchPrompt_p000 ''a cat'')],
        Done (http_Error ''sketch error'' 500))
   \<and> handleMagicEraser jsonDecode_MagicEraser_sample streamFails
       (post ''{\"image_base64\":\"QUJD\"}'')
     = ([DecodeBody, promptOnlyCall eraserPrompt,
         LogPrintf (''Error with magic eraser: ''
                      @ ''Error 403, Message: API key AIza-1234 is not valid'')],
        Done (writeError (''eraser error: ''
                      @ ''Error 403, Message: API key AIza-1234 is not valid'') 500))"
proof -
  note inst = upstream_failure_reply [where
      jdT = jsonDecode_TextToImage_sample and jdR = jsonDecode_Resize_sample
      and jdS = jsonDecode_SketchToImage_sample and jdM = jsonDecode_MagicEraser_sample
      and q = "''a red kite''" and img = "''QUJD''" and scale = 2 and desc = "''a cat''"
      and c = streamFails and c' = imagesFails
      and err = "''Error 403, Message: API key AIza-1234 is not valid''"]
  note ev = post_simps sample_decodes validImage_samples
    generate_streamFails generate_imagesFails
  have t: "handleTextToImage jsonDecode_TextToImage_sample streamFails
       (post ''{\"prompt\":\"a red kite\"}'')
     = ([DecodeBody, promptOnlyCall ''a red kite'',
         LogPrintf (''Error generating image: ''
                      @ ''Error 403, Message: API key AIza-1234 is not valid'')],
        Done (writeError (''generation error: ''
                      @ ''Error 403, Message: API key AIza-1234 is not valid'') 500))
   \<and> handleTextToImage_p000 jsonDecode_TextToImage_sample imagesFails
       (post ''{\"prompt\":\"a red kite\"}'')
     = ([DecodeBody, promptOnlyCall_p000 ''a red kite''],
        Done (http_Error ''generation error'' 500))"
    using inst [where r = "post ''{\"prompt\":\"a red kite\"}''"]
    by (simp (no_asm_use) add: ev) blast
  have rz: "handleResize jsonDecode_Resize_sample streamFails
       (post ''{\"image_base64\":\"QUJD\",\"scale\":2}'')
     = ([DecodeBody, promptOnlyCall ''Resize this image by x2 preserving details.'',
         LogPrintf (''Error resizing image: ''
                      @ ''Error 403, Message: API key AIza-1234 is not valid'')],
        Done (writeError (''resize error: ''
                      @ ''Error 403, Message: API key AIza-1234 is not valid'') 500))"
    using inst [where r = "post ''{\"image_base64\":\"QUJD\",\"scale\":2}''"]
    by (simp (no_asm_use) add: ev resizePrompt_def fmt_d_2) blast
  have sk: "handleSketchToImage_p000 jsonDecode_SketchToImage_sample imagesFails
       (post ''{\"image_base64\":\"QUJD\",\"description\":\"a cat\"}'')
     = ([DecodeBody, promptOnlyCall_p000 (sketchPrompt_p000 ''a cat'')],
        Done (http_Error ''sketch error'' 500))"
    using inst [where r = "post ''{\"image_base64\":\"QUJD\",\"description\":\"a cat\"}''"]
    by (simp (no_asm_use) add: ev) blast
  have er: "handleMagicEraser jsonDecode_MagicEraser_sample streamFails
       (post ''{\"image_base64\":\"QUJD\"}'')
     = ([DecodeBody, promptOnlyCall eraserPrompt,
         LogPrintf (''Error with magic eraser: ''
                      @ ''Error 403, Message: API key AIza-1234 is not valid'')],
        Done (writeError (''eraser error: ''
                      @ ''Error 403, Message: API key AIza-1234 is not valid'') 500))"
    using inst [where r = "post ''{\"image_base64\":\"QUJD\"}''"]
    by (simp (no_asm_use) add: ev) blast
  show ?thesis using t rz sk er by blast
qed

text \<open>The upstream error's text, an API key in it, reaches the client of \<^verbatim>\<open>main.go\<close>;
  and \<^verbatim>\<open>part_000\<close> logs nothing when the upstream fails.\<close>

theorem upstream_detail_leak_counterexample:
  "snd (handleTextToImage jsonDecode_TextToImage_sample streamFails
          (post ''{\"prompt\":\"a red kite\"}''))
     = Done \<lparr>Header = [(''Content-Type'', ''application/json'')],
             StatusCode = 500,
             Written = JSONEncoded
               [(''error'',
                 ''generation error: Error 403, Message: API key AIza-1234 is not valid'')]\<rparr>
   \<and> fst (handleTextToImage_p000 jsonDecode_TextToImage_sample imagesFails
          (post ''{\"prompt\":\"a red kite\"}''))
     = [DecodeBody,
        GenerateImages ''imagen-4.0-generate-001'' ''a red kite'' \<lparr>NumberOfImages = 1\<rparr>]"
  by (simp add: handleTextToImage_def handleTextToImage_p000_def post_simps sample_decodes
      generateSingleImage_def generateSingleImage_p000_def streamFails_def imagesFails_def
      Let_def writeError_def Header_Set_def StatusInternalServerError_def modelName_p000_def)




section \<open>Successful responses\<close>

lemma firstInlineData_payloads:
  "firstInlineData ps = Done (Some blob) \<Longrightarrow>
     \<exists>blobs. List.map_filter partPayload ps = blob # blobs"
  "firstInlineData ps = Done None \<Longrightarrow> List.map_filter partPayload ps = []"
  by (induction ps rule: firstInlineData.induct)
    (auto simp: partPayload_def split: option.splits)

text \<open>One turn of the loop that ends in an image: the result read has no payload and
  the rest of the stream gives the image, or the image is the result's first payload.\<close>

lemma rangeStream_cons:
  "rangeStream (item # rest) = Done (Inr (d, m)) \<Longrightarrow>
     (chunkPayloads item = [] \<and> rangeStream rest = Done (Inr (d, m)))
     \<or> (\<exists>blob blobs. chunkPayloads item = blob # blobs \<and> d = Data blob
           \<and> m = (if Blob.MIMEType blob = [] then ''image/png'' else Blob.MIMEType blob))"
proof (cases item)
  case (Inl err)
  assume "rangeStream (item # rest) = Done (Inr (d, m))"
  then show ?thesis using Inl by simp
next
  case (Inr ptr)
  assume a: "rangeStream (item # rest) = Done (Inr (d, m))"
  show ?thesis
  proof (cases ptr)
    case None
    then show ?thesis using a Inr by simp
  next
    case (Some result)
    show ?thesis using a Inr Some
      by (auto dest!: firstInlineData_payloads
          split: list.splits option.splits outcome.splits if_splits)
  qed
qed

lemma rangeStream_payloads:
  "rangeStream stream = Done (Inr (d, m)) \<Longrightarrow>
     (case inlinePayloads stream of
        [] \<Rightarrow> False
      | blob # _ \<Rightarrow>
          d = Data blob
          \<and> m = (if Blob.MIMEType blob = [] then ''image/png'' else Blob.MIMEType blob))"
proof (induction stream)
  case Nil
  then show ?case by simp
next
  case (Cons item rest)
  from rangeStream_cons [OF Cons.prems] show ?case
  proof
    assume skip: "chunkPayloads item = [] \<and> rangeStream rest = Done (Inr (d, m))"
    then have "case inlinePayloads rest of
          [] \<Rightarrow> False
        | blob # _ \<Rightarrow>
            d = Data blob
            \<and> m = (if Blob.MIMEType blob = [] then ''image/png'' else Blob.MIMEType blob)"
      using Cons.IH by simp
    then show ?thesis using skip by (simp add: inlinePayloads_def)
  next
    assume "\<exists>blob blobs. chunkPayloads item = blob # blobs \<and> d = Data blob
           \<and> m = (if Blob.MIMEType blob = [] then ''image/png'' else Blob.MIMEType blob)"
    then show ?thesis by (auto simp: inlinePayloads_def)
  qed
qed

lemma relay_success:
  "statusOf (snd (relay l e c p)) = Some 200 \<Longrightarrow> servesFirstPayload c (relay l e c p)"
proof -
  assume ok: "statusOf (snd (relay l e c p)) = Some 200"
  show ?thesis
  proof (cases "snd (generateSingleImage c p)")
    case Panic
    then show ?thesis using ok by (simp add: relay_eq)
  next
    case (Done res)
    show ?thesis
    proof (cases res)
      case (Inl err)
      then show ?thesis using ok Done by (simp add: relay_eq writeError_def)
    next
      case (Inr dm)
      obtain d m where dm: "dm = (d, m)" by (cases dm) auto
      have "rangeStream (replyTo c (promptOnlyCall p)) = Done (Inr (d, m))"
        using Done Inr dm by (simp add: snd_generate [symmetric])
      from rangeStream_payloads [OF this] show ?thesis
        using Done Inr dm
        by (auto simp: relay_eq servesFirstPayload_def upstreamCalls_promptOnly
            upstreamCalls_simps writeImage_def Header_Set_def StatusOK_def Let_def
            split: list.splits)
    qed
  qed
qed

lemma relay_p000_success:
  "statusOf (snd (relay_p000 e c p)) = Some 200 \<Longrightarrow> servesPNG c (relay_p000 e c p)"
proof -
  assume ok: "statusOf (snd (relay_p000 e c p)) = Some 200"
  show ?thesis
  proof (cases "snd (generateSingleImage_p000 c p)")
    case Panic
    then show ?thesis using ok by (simp add: relay_p000_eq)
  next
    case (Done res)
    show ?thesis
    proof (cases res)
      case (Inl err)
      then show ?thesis using ok Done by (simp add: relay_p000_eq http_Error_def)
    next
      case (Inr d)
      then show ?thesis using Done
        by (auto simp: relay_p000_eq servesPNG_def upstreamCalls_promptOnly upstreamCalls_simps
            writeImagePNG_def Header_Set_def StatusOK_def snd_generate_p000
            split: list.splits sum.splits option.splits)
    qed
  qed
qed

lemma earlyReply_not_200:
  "earlyReply writeError out \<Longrightarrow> statusOf (snd out) \<noteq> Some 200"
  "earlyReply http_Error out \<Longrightarrow> statusOf (snd out) \<noteq> Some 200"
  by (auto simp: earlyReply_def writeError_def http_Error_def)

lemma success_main:
  assumes "earlyReply writeError out \<or> (\<exists>p. out = relay l e c p)"
  shows "statusOf (snd out) = Some 200 \<longrightarrow> servesFirstPayload c out"
  using assms earlyReply_not_200(1) [of out] relay_success [of l e c] by blast

lemma success_p000:
  assumes "earlyReply http_Error out \<or> (\<exists>p. out = relay_p000 e c p)"
  shows "statusOf (snd out) = Some 200 \<longrightarrow> servesPNG c out"
  using assms earlyReply_not_200(2) [of out] relay_p000_success [of e c] by blast

text \<open>
  \<^bold>\<open>C8.\<close> A response with status 200 of \<^verbatim>\<open>main.go\<close> carries the data of the first inline
  payload of the upstream reply, and its content type is that payload's MIME type, or
  \<open>image/png\<close> when the MIME type is empty. A response with status 200 of
  \<^verbatim>\<open>part_000\<close> carries the bytes of the first generated image and its content type is
  always \<open>image/png\<close>, whatever MIME type the upstream declares.
\<close>

theorem success_content_type:
  "(statusOf (snd (handleTextToImage jdT c r)) = Some 200 \<longrightarrow>
      servesFirstPayload c (handleTextToImage jdT c r))
   \<and> (statusOf (snd (handleResize jdR c r)) = Some 200 \<longrightarrow>
      servesFirstPayload c (handleResize jdR c r))
   \<and> (statusOf (snd (handleSketchToImage jdS c r)) = Some 200 \<longrightarrow>
      servesFirstPayload c (handleSketchToImage jdS c r))
   \<and> (statusOf (snd (handleMagicEraser jdM c r)) = Some 200 \<longrightarrow>
      servesFirstPayload c (handleMagicEraser jdM c r))
   \<and> (statusOf (snd (handleTextToImage_p000 jdT c' r)) = Some 200 \<longrightarrow>
      servesPNG c' (handleTextToImage_p000 jdT c' r))
   \<and> (statusOf (snd (handleResize_p000 jdR c' r)) = Some 200 \<longrightarrow>
      servesPNG c' (handleResize_p000 jdR c' r))
   \<and> (statusOf (snd (handleSketchToImage_p000 jdS c' r)) = Some 200 \<longrightarrow>
      servesPNG c' (handleSketchToImage_p000 jdS c' r))
   \<and> (statusOf (snd (handleMagicEraser_p000 jdM c' r)) = Some 200 \<longrightarrow>
      servesPNG c' (handleMagicEraser_p000 jdM c' r))"
  by (intro conjI success_main [OF handleTextToImage_cases(1)]
      success_main [OF handleResize_cases(1)] success_main [OF handleSketchToImage_cases(1)]
      success_main [OF handleMagicEraser_cases(1)] success_p000 [OF handleTextToImage_cases(2)]
      success_p000 [OF handleResize_cases(2)] success_p000 [OF handleSketchToImage_cases(2)]
      success_p000 [OF handleMagicEraser_cases(2)])


lemma handleTextToImage_streamJPEG:
  "handleTextToImage jsonDecode_TextToImage_sample streamJPEG
       (post ''{\"prompt\":\"a red kite\"}'')
     = ([DecodeBody, promptOnlyCall ''a red kite''],
        Done \<lparr>Header = [(''Content-Type'', ''image/jpeg'')], StatusCode = 200,
              Written = Bytes [255, 216, 255]\<rparr>)"
  by (simp add: handleTextToImage_def post_simps sample_decodes generateSingleImage_def
      streamJPEG_def chunk_def textPart_def Let_def writeImage_def Header_Set_def StatusOK_def
      promptOnlyCall_def modelName_def NewPartFromText_def)

lemma handleTextToImage_streamNoMIME:
  "handleTextToImage jsonDecode_TextToImage_sample streamNoMIME
       (post ''{\"prompt\":\"a red kite\"}'')
     = ([DecodeBody, promptOnlyCall ''a red kite''],
        Done \<lparr>Header = [(''Content-Type'', ''image/png'')], StatusCode = 200,
              Written = Bytes [1, 2, 3]\<rparr>)"
  by (simp add: handleTextToImage_def post_simps sample_decodes generateSingleImage_def
      streamNoMIME_def chunk_def Let_def writeImage_def Header_Set_def StatusOK_def
      promptOnlyCall_def modelName_def NewPartFromText_def)

lemma handleTextToImage_p000_imagesJPEG:
  "handleTextToImage_p000 jsonDecode_TextToImage_sample imagesJPEG
       (post ''{\"prompt\":\"a red kite\"}'')
     = ([DecodeBody, promptOnlyCall_p000 ''a red kite''],
        Done \<lparr>Header = [(''Content-Type'', ''image/png'')], StatusCode = 200,
              Written = Bytes [255, 216, 255]\<rparr>)"
  by (simp add: handleTextToImage_p000_def post_simps sample_decodes generateSingleImage_p000_def
      imagesJPEG_def Let_def writeImagePNG_def Header_Set_def StatusOK_def
      promptOnlyCall_p000_def modelName_p000_def)

lemma handleResize_streamJPEG:
  "handleResize jsonDecode_Resize_sample streamJPEG
       (post ''{\"image_base64\":\"QUJD\",\"scale\":2}'')
     = ([DecodeBody, promptOnlyCall ''Resize this image by x2 preserving details.''],
        Done \<lparr>Header = [(''Content-Type'', ''image/jpeg'')], StatusCode = 200,
              Written = Bytes [255, 216, 255]\<rparr>)"
  by (simp add: handleResize_def post_simps sample_decodes DecodeString_QUJD fmt_d_2
      generateSingleImage_def streamJPEG_def chunk_def textPart_def Let_def writeImage_def
      Header_Set_def StatusOK_def promptOnlyCall_def modelName_def NewPartFromText_def)

lemma handleMagicEraser_p000_imagesJPEG:
  "handleMagicEraser_p000 jsonDecode_MagicEraser_sample imagesJPEG
       (post ''{\"image_base64\":\"QUJD\"}'')
     = ([DecodeBody, promptOnlyCall_p000 eraserPrompt_p000],
        Done \<lparr>Header = [(''Content-Type'', ''image/png'')], StatusCode = 200,
              Written = Bytes [255, 216, 255]\<rparr>)"
  by (simp add: handleMagicEraser_p000_def post_simps sample_decodes DecodeString_QUJD
      generateSingleImage_p000_def imagesJPEG_def Let_def writeImagePNG_def Header_Set_def
      StatusOK_def promptOnlyCall_p000_def modelName_p000_def eraserPrompt_p000_def)

theorem success_content_type_witness:
  "statusOf (snd (handleTextToImage jsonDecode_TextToImage_sample streamJPEG
       (post ''{\"prompt\":\"a red kite\"}''))) = Some 200
   \<and> servesFirstPayload streamJPEG (handleTextToImage jsonDecode_TextToImage_sample streamJPEG
       (post ''{\"prompt\":\"a red kite\"}''))
   \<and> snd (handleTextToImage jsonDecode_TextToImage_sample streamJPEG
       (post ''{\"prompt\":\"a red kite\"}''))
     = Done \<lparr>Header = [(''Content-Type'', ''image/jpeg'')], StatusCode = 200,
             Written = Bytes [255, 216, 255]\<rparr>
   \<and> statusOf (snd (handleTextToImage jsonDecode_TextToImage_sample streamNoMIME
       (post ''{\"prompt\":\"a red kite\"}''))) = Some 200
   \<and> servesFirstPayload streamNoMIME (handleTextToImage jsonDecode_TextToImage_sample
       streamNoMIME (post ''{\"prompt\":\"a red kite\"}''))
   \<and> snd (handleTextToImage jsonDecode_TextToImage_sample streamNoMIME
       (post ''{\"prompt\":\"a red kite\"}''))
     = Done \<lparr>Header = [(''Content-Type'', ''image/png'')], StatusCode = 200,
             Written = Bytes [1, 2, 3]\<rparr>
   \<and> statusOf (snd (handleResize jsonDecode_Resize_sample streamJPEG
       (post ''{\"image_base64\":\"QUJD\",\"scale\":2}''))) = Some 200
   \<and> servesFirstPayload streamJPEG (handleResize jsonDecode_Resize_sample streamJPEG
       (post ''{\"image_base64\":\"QUJD\",\"scale\":2}''))
   \<and> statusOf (snd (handleTextToImage_p000 jsonDecode_TextToImage_sample imagesJPEG
       (post ''{\"prompt\":\"a red kite\"}''))) = Some 200
   \<and> servesPNG imagesJPEG (handleTextToImage_p000 jsonDecode_TextToImage_sample imagesJPEG
       (post ''{\"prompt\":\"a red kite\"}''))
   \<and> statusOf (snd (handleMagicEraser_p000 jsonDecode_MagicEraser_sample imagesJPEG
       (post ''{\"image_base64\":\"QUJD\"}''))) = Some 200
   \<and> servesPNG imagesJPEG (handleMagicEraser_p000 jsonDecode_MagicEraser_sample imagesJPEG
       (post ''{\"image_base64\":\"QUJD\"}''))"
proof -
  have s1: "statusOf (snd (handleTextToImage jsonDecode_TextToImage_sample streamJPEG
       (post ''{\"prompt\":\"a red kite\"}''))) = Some 200"
    and h1: "snd (handleTextToImage jsonDecode_TextToImage_sample streamJPEG
       (post ''{\"prompt\":\"a red kite\"}''))
     = Done \<lparr>Header = [(''Content-Type'', ''image/jpeg'')], StatusCode = 200,
             Written = Bytes [255, 216, 255]\<rparr>"
    by (simp_all add: handleTextToImage_streamJPEG)
  have s2: "statusOf (snd (handleTextToImage jsonDecode_TextToImage_sample streamNoMIME
       (post ''{\"prompt\":\"a red kite\"}''))) = Some 200"
    and h2: "snd (handleTextToImage jsonDecode_TextToImage_sample streamNoMIME
       (post ''{\"prompt\":\"a red kite\"}''))
     = Done \<lparr>Header = [(''Content-Type'', ''image/png'')], StatusCode = 200,
             Written = Bytes [1, 2, 3]\<rparr>"
    by (simp_all add: handleTextToImage_streamNoMIME)
  have s3: "statusOf (snd (handleTextToImage_p000 jsonDecode_TextToImage_sample imagesJPEG
       (post ''{\"prompt\":\"a red kite\"}''))) = Some 200"
    by (simp add: handleTextToImage_p000_imagesJPEG)
  have s4: "statusOf (snd (handleResize jsonDecode_Resize_sample streamJPEG
       (post ''{\"image_base64\":\"QUJD\",\"scale\":2}''))) = Some 200"
    by (simp add: handleResize_streamJPEG)
  have s5: "statusOf (snd (handleMagicEraser_p000 jsonDecode_MagicEraser_sample imagesJPEG
       (post ''{\"image_base64\":\"QUJD\"}''))) = Some 200"
    by (simp add: handleMagicEraser_p000_imagesJPEG)
  note inst = success_content_type [where jdT = jsonDecode_TextToImage_sample
      and jdR = jsonDecode_Resize_sample and jdS = jsonDecode_SketchToImage_sample
      and jdM = jsonDecode_MagicEraser_sample and c' = imagesJPEG]
  have a1: "servesFirstPayload streamJPEG (handleTextToImage jsonDecode_TextToImage_sample
       streamJPEG (post ''{\"prompt\":\"a red kite\"}''))"
    using inst [where c = streamJPEG and r = "post ''{\"prompt\":\"a red kite\"}''"] s1
    by simp
  have a2: "servesFirstPayload streamNoMIME (handleTextToImage jsonDecode_TextToImage_sample
       streamNoMIME (post ''{\"prompt\":\"a red kite\"}''))"
    using inst [where c = streamNoMIME and r = "post ''{\"prompt\":\"a red kite\"}''"] s2
    by simp
  have a3: "servesPNG imagesJPEG (handleTextToImage_p000 jsonDecode_TextToImage_sample
       imagesJPEG (post ''{\"prompt\":\"a red kite\"}''))"
    using inst [where c = streamJPEG and r = "post ''{\"prompt\":\"a red kite\"}''"] s3
    by simp
  have a4: "servesFirstPayload streamJPEG (handleResize jsonDecode_Resize_sample streamJPEG
       (post ''{\"image_base64\":\"QUJD\",\"scale\":2}''))"
    using inst [where c = streamJPEG and r = "post ''{\"image_base64\":\"QUJD\",\"scale\":2}''"]
      s4
    by simp
  have a5: "servesPNG imagesJPEG (handleMagicEraser_p000 jsonDecode_MagicEraser_sample
       imagesJPEG (post ''{\"image_base64\":\"QUJD\"}''))"
    using inst [where c = streamJPEG and r = "post ''{\"image_base64\":\"QUJD\"}''"] s5
    by simp
  show ?thesis
    using s1 h1 s2 h2 s3 s4 s5 a1 a2 a3 a4 a5 by simp
qed

text \<open>The upstream declares a JPEG and \<^verbatim>\<open>part_000\<close> serves it as \<open>image/png\<close>.\<close>

theorem png_only_p000_counterexample:
  "imagesJPEG ''imagen-4.0-generate-001'' ''a red kite'' \<lparr>NumberOfImages = 1\<rparr>
     = Inr (Some \<lparr>GeneratedImages =
                    [Some \<lparr>Image = Some \<lparr>ImageBytes = [255, 216, 255],
                                           MIMEType = ''image/jpeg''\<rparr>\<rparr>]\<rparr>)
   \<and> snd (handleTextToImage_p000 jsonDecode_TextToImage_sample imagesJPEG
          (post ''{\"prompt\":\"a red kite\"}''))
     = Done \<lparr>Header = [(''Content-Type'', ''image/png'')], StatusCode = 200,
             Written = Bytes [255, 216, 255]\<rparr>"
  by (simp add: handleTextToImage_p000_imagesJPEG imagesJPEG_def)


section \<open>The two shapes of a response\<close>

lemma imageShape_200: "imageShape resp \<Longrightarrow> StatusCode resp = 200"
  by (simp add: imageShape_def)

lemma servesFirstPayload_imageShape:
  "servesFirstPayload c out \<Longrightarrow> snd out = Done resp \<Longrightarrow> imageShape resp"
  by (auto simp: servesFirstPayload_def imageShape_def Header_Get_def split: list.splits)

lemma servesPNG_imageShape:
  assumes a: "servesPNG c out" and d: "snd out = Done resp"
  shows "imageShape resp"
proof -
  obtain call where 1: "upstreamCalls (fst out) = [call]"
    using a by (cases "upstreamCalls (fst out)") (auto simp: servesPNG_def split: list.split_asm)
  obtain ptr where 2: "replyTo_p000 c call = Inr ptr"
    using a 1 by (cases "replyTo_p000 c call") (auto simp: servesPNG_def)
  obtain r where 3: "ptr = Some r"
    using a 1 2 by (cases ptr) (auto simp: servesPNG_def)
  obtain entry gs where 4: "GeneratedImages r = entry # gs"
    using a 1 2 3 by (cases "GeneratedImages r") (auto simp: servesPNG_def)
  obtain g where 5: "entry = Some g"
    using a 1 2 3 4 by (cases entry) (auto simp: servesPNG_def)
  obtain img where 6: "Image g = Some img"
    using a 1 2 3 4 5 by (cases "Image g") (auto simp: servesPNG_def)
  have "snd out = Done \<lparr>Header = [(''Content-Type'', ''image/png'')], StatusCode = 200,
                         Written = Bytes (ImageBytes img)\<rparr>"
    using a 1 2 3 4 5 6 by (simp add: servesPNG_def)
  then show ?thesis using d by (auto simp: imageShape_def Header_Get_def)
qed

lemma image_main:
  assumes "earlyReply writeError out \<or> (\<exists>p. out = relay l e c p)" and "snd out = Done resp"
  shows "imageShape resp = servesFirstPayload c out"
  using success_main [OF assms(1)] imageShape_200 [of resp]
    servesFirstPayload_imageShape [of c out resp] assms(2)
  by auto

lemma image_p000:
  assumes "earlyReply http_Error out \<or> (\<exists>p. out = relay_p000 e c p)" and "snd out = Done resp"
  shows "imageShape resp = servesPNG c out"
  using success_p000 [OF assms(1)] imageShape_200 [of resp] servesPNG_imageShape [of c out resp]
    assms(2)
  by auto

text \<open>A reply without a nil pointer where one is followed never makes the program
  panic.\<close>

lemma firstInlineData_nonNil:
  "list_all (\<lambda>part. part \<noteq> None) ps \<Longrightarrow> firstInlineData ps \<noteq> Panic"
  by (induction ps rule: firstInlineData.induct) (auto split: option.splits)

lemma rangeStream_nonNil: "nonNil stream \<Longrightarrow> rangeStream stream \<noteq> Panic"
proof (induction stream rule: rangeStream.induct)
  case (4 result rest)
  then show ?case
    using firstInlineData_nonNil
    by (auto simp: nonNil_def nonNilResult_def split: list.splits option.splits outcome.splits)
qed (simp_all add: nonNil_def nonNilResult_def)

lemma relay_panic:
  "snd (relay l e c p) = Panic \<Longrightarrow> nilInReply c (relay l e c p)"
  using rangeStream_nonNil [of "replyTo c (promptOnlyCall p)"]
  by (auto simp: relay_eq nilInReply_def upstreamCalls_promptOnly upstreamCalls_simps
      snd_generate [symmetric] split: sum.splits outcome.splits)

lemma relay_p000_panic:
  "snd (relay_p000 e c p) = Panic \<Longrightarrow> nilInReply_p000 c (relay_p000 e c p)"
  by (auto simp: relay_p000_eq nilInReply_p000_def upstreamCalls_promptOnly upstreamCalls_simps
      snd_generate_p000 nonNil_p000_def split: sum.splits outcome.splits list.splits
      option.splits)

lemma outcome_main:
  assumes "earlyReply writeError out \<or> (\<exists>p. out = relay l e c p)"
  shows "case snd out of
           Panic \<Rightarrow> nilInReply c out
         | Done resp \<Rightarrow>
             exactlyOne (imageShape resp) (jsonErrorShape resp)
             \<and> imageShape resp = servesFirstPayload c out"
proof (cases "snd out")
  case Panic
  then have "\<exists>p. out = relay l e c p" using assms by (auto simp: earlyReply_def)
  then show ?thesis using Panic relay_panic [of l e c] by auto
next
  case (Done resp)
  then show ?thesis using shapes_main [OF assms Done] image_main [OF assms Done] by simp
qed

lemma outcome_p000:
  assumes "earlyReply http_Error out \<or> (\<exists>p. out = relay_p000 e c p)"
  shows "case snd out of
           Panic \<Rightarrow> nilInReply_p000 c out
         | Done resp \<Rightarrow>
             exactlyOne (imageShape resp) (textErrorShape resp)
             \<and> imageShape resp = servesPNG c out
             \<and> \<not> jsonErrorShape resp"
proof (cases "snd out")
  case Panic
  then have "\<exists>p. out = relay_p000 e c p" using assms by (auto simp: earlyReply_def)
  then show ?thesis using Panic relay_p000_panic [of e c] by auto
next
  case (Done resp)
  then show ?thesis using shapes_p000 [OF assms Done] image_p000 [OF assms Done] by simp
qed

text \<open>
  \<^bold>\<open>C1.\<close> Every response of the four handlers of \<^verbatim>\<open>main.go\<close> has exactly one of two
  shapes: status 200 with raw bytes as body and a content type, or a status outside
  200..299 with a JSON body \<open>{"error": message}\<close>; and it has the first shape exactly
  when it serves the first inline payload of the upstream reply, its data as body and
  its MIME type as content type. Every response of the four handlers of \<^verbatim>\<open>part_000\<close>
  has exactly one of two shapes as well, but its error shape is another: status 200
  with the bytes of the first generated image as body and the content type
  \<open>image/png\<close>, or a status outside 200..299 with the message and a newline as plain
  text; it is never a JSON body. A handler ends without a response in one case only: it
  made its one upstream call, and the reply holds a nil pointer where the program
  follows one, so that it panics. With a reply free of such pointers a response is
  always written.
\<close>

theorem response_shapes:
  "(case snd (handleTextToImage jdT c r) of
      Panic \<Rightarrow> nilInReply c (handleTextToImage jdT c r)
    | Done resp \<Rightarrow>
        exactlyOne (imageShape resp) (jsonErrorShape resp)
        \<and> imageShape resp = servesFirstPayload c (handleTextToImage jdT c r))
   \<and> (case snd (handleResize jdR c r) of
        Panic \<Rightarrow> nilInReply c (handleResize jdR c r)
      | Done resp \<Rightarrow>
          exactlyOne (imageShape resp) (jsonErrorShape resp)
          \<and> imageShape resp = servesFirstPayload c (handleResize jdR c r))
   \<and> (case snd (handleSketchToImage jdS c r) of
        Panic \<Rightarrow> nilInReply c (handleSketchToImage jdS c r)
      | Done resp \<Rightarrow>
          exactlyOne (imageShape resp) (jsonErrorShape resp)
          \<and> imageShape resp = servesFirstPayload c (handleSketchToImage jdS c r))
   \<and> (case snd (handleMagicEraser jdM c r) of
        Panic \<Rightarrow> nilInReply c (handleMagicEraser jdM c r)
      | Done resp \<Rightarrow>
          exactlyOne (imageShape resp) (jsonErrorShape resp)
          \<and> imageShape resp = servesFirstPayload c (handleMagicEraser jdM c r))
   \<and> (case snd (handleTextToImage_p000 jdT c' r) of
        Panic \<Rightarrow> nilInReply_p000 c' (handleTextToImage_p000 jdT c' r)
      | Done resp \<Rightarrow>
          exactlyOne (imageShape resp) (textErrorShape resp)
          \<and> imageShape resp = servesPNG c' (handleTextToImage_p000 jdT c' r)
          \<and> \<not> jsonErrorShape resp)
   \<and> (case snd (handleResize_p000 jdR c' r) of
        Panic \<Rightarrow> nilInReply_p000 c' (handleResize_p000 jdR c' r)
      | Done resp \<Rightarrow>
          exactlyOne (imageShape resp) (textErrorShape resp)
          \<and> imageShape resp = servesPNG c' (handleResize_p000 jdR c' r)
          \<and> \<not> jsonErrorShape resp)
   \<and> (case snd (handleSketchToImage_p000 jdS c' r) of
        Panic \<Rightarrow> nilInReply_p000 c' (handleSketchToImage_p000 jdS c' r)
      | Done resp \<Rightarrow>
          exactlyOne (imageShape resp) (textErrorShape resp)
          \<and> imageShape resp = servesPNG c' (handleSketchToImage_p000 jdS c' r)
          \<and> \<not> jsonErrorShape resp)
   \<and> (case snd (handleMagicEraser_p000 jdM c' r) of
        Panic \<Rightarrow> nilInReply_p000 c' (handleMagicEraser_p000 jdM c' r)
      | Done resp \<Rightarrow>
          exactlyOne (imageShape resp) (textErrorShape resp)
          \<and> imageShape resp = servesPNG c' (handleMagicEraser_p000 jdM c' r)
          \<and> \<not> jsonErrorShape resp)"
proof -
  note t = handleTextToImage_cases and rz = handleResize_cases
    and sk = handleSketchToImage_cases and er = handleMagicEraser_cases
  show ?thesis
    by (intro conjI outcome_main [OF t(1)] outcome_main [OF rz(1)] outcome_main [OF sk(1)]
        outcome_main [OF er(1)] outcome_p000 [OF t(2)] outcome_p000 [OF rz(2)]
        outcome_p000 [OF sk(2)] outcome_p000 [OF er(2)])
qed

lemma handleResize_streamNullPart:
  "handleResize jsonDecode_Resize_sample streamNullPart
       (post ''{\"image_base64\":\"QUJD\",\"scale\":2}'')
     = ([DecodeBody, promptOnlyCall ''Resize this image by x2 preserving details.''], Panic)"
  by (simp add: handleResize_def post_simps sample_decodes DecodeString_QUJD fmt_d_2
      generateSingleImage_def streamNullPart_def chunk_def textPart_def Let_def
      promptOnlyCall_def modelName_def NewPartFromText_def)

theorem response_shapes_witness:
  "snd (handleTextToImage jsonDecode_TextToImage_sample streamJPEG
        (post ''{\"prompt\":\"a red kite\"}''))
     = Done \<lparr>Header = [(''Content-Type'', ''image/jpeg'')], StatusCode = 200,
             Written = Bytes [255, 216, 255]\<rparr>
   \<and> imageShape \<lparr>Header = [(''Content-Type'', ''image/jpeg'')], StatusCode = 200,
                  Written = Bytes [255, 216, 255]\<rparr>
   \<and> \<not> jsonErrorShape \<lparr>Header = [(''Content-Type'', ''image/jpeg'')], StatusCode = 200,
                         Written = Bytes [255, 216, 255]\<rparr>
   \<and> servesFirstPayload streamJPEG (handleTextToImage jsonDecode_TextToImage_sample streamJPEG
        (post ''{\"prompt\":\"a red kite\"}''))
   \<and> snd (handleTextToImage jsonDecode_TextToImage_sample streamJPEG
        (get ''{\"prompt\":\"a red kite\"}''))
     = Done (writeError ''POST only'' 405)
   \<and> jsonErrorShape (writeError ''POST only'' 405)
   \<and> \<not> imageShape (writeError ''POST only'' 405)
   \<and> \<not> servesFirstPayload streamJPEG (handleTextToImage jsonDecode_TextToImage_sample
        streamJPEG (get ''{\"prompt\":\"a red kite\"}''))
   \<and> snd (handleTextToImage_p000 jsonDecode_TextToImage_sample imagesNone
        (post ''{\"prompt\":\"a red kite\"}''))
     = Done (http_Error ''generation error'' 500)
   \<and> textErrorShape (http_Error ''generation error'' 500)
   \<and> \<not> imageShape (http_Error ''generation error'' 500)
   \<and> \<not> jsonErrorShape (http_Error ''generation error'' 500)
   \<and> snd (handleResize jsonDecode_Resize_sample streamNullPart
        (post ''{\"image_base64\":\"QUJD\",\"scale\":2}'')) = Panic
   \<and> nilInReply streamNullPart (handleResize jsonDecode_Resize_sample streamNullPart
        (post ''{\"image_base64\":\"QUJD\",\"scale\":2}''))"
proof -
  note inst = response_shapes [where jdT = jsonDecode_TextToImage_sample
      and jdR = jsonDecode_Resize_sample and jdS = jsonDecode_SketchToImage_sample
      and jdM = jsonDecode_MagicEraser_sample]
  have o1: "snd (handleTextToImage jsonDecode_TextToImage_sample streamJPEG
        (post ''{\"prompt\":\"a red kite\"}''))
     = Done \<lparr>Header = [(''Content-Type'', ''image/jpeg'')], StatusCode = 200,
             Written = Bytes [255, 216, 255]\<rparr>"
    by (simp add: handleTextToImage_streamJPEG)
  have i: "imageShape \<lparr>Header = [(''Content-Type'', ''image/jpeg'')], StatusCode = 200,
                  Written = Bytes [255, 216, 255]\<rparr>"
    by (simp add: imageShape_def Header_Get_def)
  have o2: "snd (handleTextToImage jsonDecode_TextToImage_sample streamJPEG
        (get ''{\"prompt\":\"a red kite\"}''))
     = Done (writeError ''POST only'' 405)"
    by (simp add: handleTextToImage_def get_simps StatusMethodNotAllowed_def)
  have j: "jsonErrorShape (writeError ''POST only'' 405)"
    by (simp add: shapes_writeError is2xx_simps)
  have o3: "snd (handleTextToImage_p000 jsonDecode_TextToImage_sample imagesNone
        (post ''{\"prompt\":\"a red kite\"}''))
     = Done (http_Error ''generation error'' 500)"
    by (simp add: handleTextToImage_p000_def post_simps sample_decodes
        generateSingleImage_p000_def imagesNone_def Let_def StatusInternalServerError_def)
  have t: "textErrorShape (http_Error ''generation error'' 500)"
    by (simp add: shapes_http_Error is2xx_simps)
  have o4: "snd (handleResize jsonDecode_Resize_sample streamNullPart
        (post ''{\"image_base64\":\"QUJD\",\"scale\":2}'')) = Panic"
    by (simp add: handleResize_streamNullPart)
  have a: "\<not> jsonErrorShape \<lparr>Header = [(''Content-Type'', ''image/jpeg'')], StatusCode = 200,
                         Written = Bytes [255, 216, 255]\<rparr>
      \<and> servesFirstPayload streamJPEG (handleTextToImage jsonDecode_TextToImage_sample
        streamJPEG (post ''{\"prompt\":\"a red kite\"}''))"
    using inst [where c = streamJPEG and c' = imagesNone
        and r = "post ''{\"prompt\":\"a red kite\"}''", THEN conjunct1] i
    by (auto simp: o1 exactlyOne_def)
  have b: "\<not> imageShape (writeError ''POST only'' 405)
      \<and> \<not> servesFirstPayload streamJPEG (handleTextToImage jsonDecode_TextToImage_sample
        streamJPEG (get ''{\"prompt\":\"a red kite\"}''))"
    using inst [where c = streamJPEG and c' = imagesNone
        and r = "get ''{\"prompt\":\"a red kite\"}''", THEN conjunct1] j
    by (auto simp: o2 exactlyOne_def)
  have c: "\<not> imageShape (http_Error ''generation error'' 500)
      \<and> \<not> jsonErrorShape (http_Error ''generation error'' 500)"
    using inst [where c = streamJPEG and c' = imagesNone
        and r = "post ''{\"prompt\":\"a red kite\"}''", THEN conjunct2, THEN conjunct2,
        THEN conjunct2, THEN conjunct2, THEN conjunct1] t
    by (auto simp: o3 exactlyOne_def)
  have d: "nilInReply streamNullPart (handleResize jsonDecode_Resize_sample streamNullPart
        (post ''{\"image_base64\":\"QUJD\",\"scale\":2}''))"
    using inst [where c = streamNullPart and c' = imagesNone
        and r = "post ''{\"image_base64\":\"QUJD\",\"scale\":2}''", THEN conjunct2,
        THEN conjunct1]
    by (simp add: o4)
  show ?thesis using o1 i o2 j o3 t o4 a b c d by simp
qed

text \<open>A \<open>GET\<close> request to \<^verbatim>\<open>/text-to-image\<close> of \<^verbatim>\<open>part_000\<close> is answered in plain text:
  neither an image nor a JSON error.\<close>

theorem plain_text_error_counterexample:
  "snd (handleTextToImage_p000 jsonDecode_TextToImage_sample imagesJPEG
          (get ''{\"prompt\":\"a red kite\"}''))
     = Done \<lparr>Header = [(''Content-Type'', ''text/plain; charset=utf-8''),
                       (''X-Content-Type-Options'', ''nosniff'')],
             StatusCode = 405,
             Written = Bytes (bytesOf (''POST only'' @ [CHR 0x0A]))\<rparr>
   \<and> \<not> imageShape \<lparr>Header = [(''Content-Type'', ''text/plain; charset=utf-8''),
                               (''X-Content-Type-Options'', ''nosniff'')],
                     StatusCode = 405,
                     Written = Bytes (bytesOf (''POST only'' @ [CHR 0x0A]))\<rparr>
   \<and> \<not> jsonErrorShape \<lparr>Header = [(''Content-Type'', ''text/plain; charset=utf-8''),
                                   (''X-Content-Type-Options'', ''nosniff'')],
                         StatusCode = 405,
                         Written = Bytes (bytesOf (''POST only'' @ [CHR 0x0A]))\<rparr>"
  by (simp add: handleTextToImage_p000_def get_simps http_Error_def Header_Set_def
      StatusMethodNotAllowed_def imageShape_def jsonErrorShape_def)

end
